(* ===== verification/Prelude.thy ===== *)
theory Prelude
  imports Main "HOL-Library.Multiset" "HOL-Library.Product_Lexorder"
begin

text \<open>
  Shared vocabulary of the VitaMend development: the names of the model's base types
  (timestamps, document ids, user ids), the JavaScript idioms the sources rely on
  (the \<open>||\<close> fallback on possibly missing or empty strings, JavaScript truthiness of
  form fields, string prefixes), and the list lemmas that the component theories share.
  Timestamps are JavaScript \<open>Date\<close> values, i.e. integral milliseconds since the epoch;
  they stay far inside the exactly representable range of a double, so they are \<open>int\<close>.
\<close>

named_theorems js_simps \<open>evaluation rules of the JavaScript idioms used by the sources\<close>
named_theorems inv_simps \<open>unfolding rules of the component invariants\<close>

type_synonym time = int
type_synonym oid = string
type_synonym user_id = string

subsection \<open>JavaScript idioms\<close>

text \<open>
  \<open>a || d\<close> where \<open>a\<close> is an optional string: \<open>undefined\<close>, \<open>null\<close> and the empty
  string are falsy, so the default is taken for each of them.
\<close>

fun js_or :: "string option \<Rightarrow> string \<Rightarrow> string" where
  "js_or None d = d"
| "js_or (Some s) d = (if s = [] then d else s)"

text \<open>\<open>!x\<close> on a form field: an empty string is falsy.\<close>

definition js_truthy :: "string \<Rightarrow> bool" where
  "js_truthy s \<longleftrightarrow> s \<noteq> []"

text \<open>\<open>!x\<close> on an optional string (\<open>undefined\<close>, \<open>null\<close> or empty).\<close>

definition js_falsy_opt :: "string option \<Rightarrow> bool" where
  "js_falsy_opt a \<longleftrightarrow> (case a of None \<Rightarrow> True | Some s \<Rightarrow> s = [])"

text \<open>\<open>s.startsWith(p)\<close>.\<close>

definition starts_with :: "string \<Rightarrow> string \<Rightarrow> bool" where
  "starts_with s p \<longleftrightarrow> take (length p) s = p"

text \<open>
  A JavaScript \<open>Map\<close> keeps its keys distinct and iterates in insertion order:
  \<open>set\<close> on a present key replaces the value in place, on a new key appends.
  It is modelled as an association list; \<open>get\<close> is \<open>map_of\<close>, and the
  abstraction to a HOL map is \<open>map_of\<close> as well.
\<close>

type_synonym ('k, 'v) js_map = "('k \<times> 'v) list"

fun js_map_set :: "'k \<Rightarrow> 'v \<Rightarrow> ('k, 'v) js_map \<Rightarrow> ('k, 'v) js_map" where
  "js_map_set k v [] = [(k, v)]"
| "js_map_set k v ((k', v') # m) =
     (if k = k' then (k, v) # m else (k', v') # js_map_set k v m)"

definition js_map_delete :: "'k \<Rightarrow> ('k, 'v) js_map \<Rightarrow> ('k, 'v) js_map" where
  "js_map_delete k m = filter (\<lambda>(k', _). k' \<noteq> k) m"

text \<open>
  What a Next.js route handler returns: \<open>NextResponse.json(body)\<close> with status 200,
  or an error body \<open>{error: message}\<close> with its HTTP status.
\<close>

datatype 'a http_response = Http_Ok 'a | Http_Error nat string

text \<open>
  The principal that \<open>getServerSession(authOptions)\<close> yields (\<open>None\<close>: no session).
  Authentication is an external collaborator; the handlers read only these fields.
\<close>

record session =
  sess_user_id :: "user_id option"
  sess_role :: "string option"
  sess_name :: "string option"
  sess_email :: "string option"

subsection \<open>Lemmas on the JavaScript idioms\<close>

lemma js_or_nonempty [simp]: "d \<noteq> [] \<Longrightarrow> js_or a d \<noteq> []"
  by (cases a) auto

lemma js_or_cases: "js_or a d = d \<or> (\<exists>s. a = Some s \<and> s \<noteq> [] \<and> js_or a d = s)"
  by (cases a) auto

lemma js_or_Some_nonempty [js_simps]: "s \<noteq> [] \<Longrightarrow> js_or (Some s) d = s"
  by simp

lemma starts_with_iff: "starts_with s p \<longleftrightarrow> (\<exists>t. s = p @ t)"
  by (auto simp add: starts_with_def) (metis append_take_drop_id)

lemma starts_with_Cons [js_simps]:
  "starts_with (c # s) (d # p) \<longleftrightarrow> c = d \<and> starts_with s p"
  by (simp add: starts_with_def)

lemma starts_with_Nil [js_simps]: "starts_with s []" "starts_with [] p \<longleftrightarrow> p = []"
  by (auto simp add: starts_with_def)

lemma starts_with_append [js_simps]: "starts_with (p @ s) p"
  by (simp add: starts_with_def)

subsection \<open>Lemmas on \<open>Map\<close> objects\<close>

lemma map_of_js_map_set [simp]: "map_of (js_map_set k v m) = (map_of m)(k \<mapsto> v)"
  by (induction m) (auto simp add: fun_eq_iff)

lemma keys_js_map_set [simp]: "fst ` set (js_map_set k v m) = insert k (fst ` set m)"
  by (simp add: dom_map_of_conv_image_fst [symmetric])

lemma distinct_js_map_set [simp]:
  "distinct (map fst m) \<Longrightarrow> distinct (map fst (js_map_set k v m))"
  by (induction m) auto

lemma set_js_map_set: "set (js_map_set k v m) \<subseteq> insert (k, v) (set m)"
  by (induction m) (auto split: if_splits)

lemma js_map_set_all:
  "P (k, v) \<Longrightarrow> \<forall>x \<in> set m. P x \<Longrightarrow> \<forall>x \<in> set (js_map_set k v m). P x"
  using set_js_map_set [of k v m] by blast

lemma map_of_js_map_delete [simp]: "map_of (js_map_delete k m) = (map_of m)(k := None)"
  by (induction m) (auto simp add: js_map_delete_def fun_eq_iff)

lemma length_js_map_delete_less:
  "i < length m \<Longrightarrow> length (js_map_delete (fst (m ! i)) m) < length m"
  unfolding js_map_delete_def
  by (rule length_filter_less [of "m ! i"]) (auto simp add: split_def)

lemma rl_sweep_live_decreases:
  "i < length m \<Longrightarrow> length (js_map_delete (fst (m ! i)) m) - i < length m - i"
  using length_js_map_delete_less [of i m] by arith

lemma map_of_filter_distinct:
  "distinct (map fst m) \<Longrightarrow> map_of (filter P m) k = Some v \<longleftrightarrow> map_of m k = Some v \<and> P (k, v)"
  by (induction m) (auto simp add: map_of_eq_None_iff image_iff dest: map_of_SomeD)

lemma distinct_map_fst_filter:
  "distinct (map fst m) \<Longrightarrow> distinct (map fst (filter P m))"
  by (induction m) auto

subsection \<open>Lists\<close>

lemma find_SomeD: "find P xs = Some x \<Longrightarrow> P x \<and> x \<in> set xs"
  by (induction xs) (auto split: if_splits)

text \<open>Pagination: \<open>skip\<close> then \<open>limit\<close> on a result list.\<close>

lemma take_drop_subset: "set (take l (drop k xs)) \<subseteq> set xs"
  by (meson in_set_dropD in_set_takeD subsetI)

lemma take_drop_pages:
  "take l (drop k xs) @ take l (drop (k + l) xs) = take (2 * l) (drop k xs)"
proof -
  have "take (l + l) (drop k xs) = take l (drop k xs) @ take l (drop (l + k) xs)"
    by (simp add: take_add)
  then show ?thesis
    by (simp add: mult_2 add.commute)
qed

lemma sorted_wrt_take_drop:
  "sorted_wrt R xs \<Longrightarrow> sorted_wrt R (take l (drop k xs))"
  by (simp add: sorted_wrt_drop sorted_wrt_take)

lemma length_concat_map_sum:
  "length (concat (map f xs)) = sum_list (map (length \<circ> f) xs)"
  by (induction xs) auto

end
