(* ===== verification/Donation_Model.thy ===== *)
theory Donation_Model
  imports Prelude
begin

text \<open>
  The donation document of \<open>src/models/Donation.ts\<close>: the status enumeration, the
  medicine subdocument and the donation document as records, the schema's enum
  check on the status string, the defaults Mongoose fills in when a document is
  created (status \<open>pending\<close>, \<open>creditsEarned = 0\<close>, \<open>isReserved = false\<close>, the two
  timestamps), and Mongoose's strict-mode cast, which keeps only the schema's paths of
  the object handed to \<open>new Donation(...)\<close>.
\<close>

datatype status = Pending | Verified | Rejected | Collected | Distributed | Recalled

text \<open>The enum strings of the schema, in the order of the source.\<close>

fun status_string :: "status \<Rightarrow> string" where
  "status_string Pending = ''pending''"
| "status_string Verified = ''verified''"
| "status_string Rejected = ''rejected''"
| "status_string Collected = ''collected''"
| "status_string Distributed = ''distributed''"
| "status_string Recalled = ''recalled''"

definition status_enum :: "status list" where
  "status_enum = [Pending, Verified, Rejected, Collected, Distributed, Recalled]"

text \<open>
  The schema's \<open>enum\<close> validator: a status string is accepted iff it is one of the
  enum strings, and then denotes that status.
\<close>

definition status_of_string :: "string \<Rightarrow> status option" where
  "status_of_string s = find (\<lambda>st. status_string st = s) status_enum"

record medicine =
  med_id :: oid
  med_name :: string
  quantity :: int
  expiryDate :: time
  description :: "string option"
  image :: "string option"

record donation =
  donation_id :: oid
  userId :: user_id
  medicines :: "medicine list"
  status :: status
  pickupAddress :: "string option"
  pickupDate :: "time option"
  verificationNotes :: "string option"
  verifiedBy :: "user_id option"
  creditsEarned :: int
  isReserved :: "bool option"
  createdAt :: time
  updatedAt :: time

text \<open>
  The object that \<open>POST /donations\<close> (\<open>src/app/api/donations/route.ts\<close>) hands to
  \<open>new Donation(...)\<close>: a flat form object, not the schema's shape.
\<close>

record donation_data =
  dd_userId :: "user_id option"  \<comment> \<open>\<open>session.user.id\<close>\<close>
  dd_medicineName :: "string option"  \<comment> \<open>\<open>formData.get(...)\<close>: \<open>null\<close> when absent\<close>
  dd_quantity :: "int option"  \<comment> \<open>\<open>Number.parseInt\<close>; \<open>None\<close> is \<open>NaN\<close>\<close>
  dd_unit :: "string option"
  dd_expiryDate :: "time option"  \<comment> \<open>\<open>new Date(...)\<close>; \<open>None\<close> is an invalid date\<close>
  dd_batchNumber :: "string option"
  dd_manufacturer :: "string option"
  dd_description :: "string option"
  dd_address :: "string option"
  dd_phone :: "string option"
  dd_preferredTime :: "string option"
  dd_status :: string
  dd_images :: "string list"

text \<open>
  Casting a string to \<open>mongoose.Types.ObjectId\<close> succeeds for 24 hexadecimal digits.
\<close>

definition is_hex_digit :: "char \<Rightarrow> bool" where
  "is_hex_digit c \<longleftrightarrow> c \<in> set ''0123456789abcdefABCDEF''"

definition is_object_id :: "string \<Rightarrow> bool" where
  "is_object_id s \<longleftrightarrow> length s = 24 \<and> list_all is_hex_digit s"

text \<open>
  \<open>new Donation(data)\<close> followed by \<open>save()\<close>: Mongoose's strict mode keeps the paths
  the schema declares (\<open>userId\<close> and \<open>status\<close> here), drops every other key
  (\<open>medicineName\<close>, \<open>quantity\<close>, \<open>address\<close>, \<open>images\<close>, ...), applies the
  defaults of the missing paths and the timestamps, and validates: \<open>userId\<close> is
  required and must cast to an ObjectId, \<open>status\<close> must be one of the enum strings.
  A failed validation makes \<open>save()\<close> reject (\<open>None\<close>).
\<close>

definition new_donation :: "oid \<Rightarrow> time \<Rightarrow> donation_data \<Rightarrow> donation option" where
  "new_donation i now d =
     (case (dd_userId d, status_of_string (dd_status d)) of
        (Some u, Some st) \<Rightarrow>
          (if is_object_id u then Some
             \<lparr>donation_id = i, userId = u, medicines = [], status = st,
              pickupAddress = None, pickupDate = None, verificationNotes = None,
              verifiedBy = None, creditsEarned = 0, isReserved = Some False,
              createdAt = now, updatedAt = now\<rparr>
           else None)
      | _ \<Rightarrow> None)"

subsection \<open>Properties\<close>

lemma status_of_string_status_string [simp]: "status_of_string (status_string st) = Some st"
  by (cases st) (simp_all add: status_of_string_def status_enum_def)

lemma status_of_string_Some: "status_of_string s = Some st \<Longrightarrow> status_string st = s"
  unfolding status_of_string_def by (drule find_SomeD) simp

lemma status_string_inj: "status_string a = status_string b \<Longrightarrow> a = b"
  by (metis option.inject status_of_string_status_string)

lemma new_donation_Some_iff:
  "new_donation i now d = Some x \<longleftrightarrow>
     (\<exists>u st. dd_userId d = Some u \<and> is_object_id u \<and> status_of_string (dd_status d) = Some st \<and>
        x = \<lparr>donation_id = i, userId = u, medicines = [], status = st,
           pickupAddress = None, pickupDate = None, verificationNotes = None,
           verifiedBy = None, creditsEarned = 0, isReserved = Some False,
           createdAt = now, updatedAt = now\<rparr>)"
  by (auto simp add: new_donation_def split: option.splits)

end
