(* ===== verification/Rate_Limit.thy ===== *)
theory Rate_Limit
  imports Prelude
begin

text \<open>
  The fixed-window rate limiter of \<open>src/lib/rate-limit.ts\<close>. The process-local
  \<open>rateLimitStore\<close> is a JavaScript \<open>Map\<close> from \<open>"ip:path"\<close> keys to
  \<open>{count, resetTime}\<close>; \<open>rateLimit(config)\<close> returns the request handler, which
  reads \<open>Date.now()\<close>, sweeps the expired entries, and either lets the request
  pass (\<open>null\<close>) or answers 429 with a \<open>Retry-After\<close> header in seconds.
  The handler is \<open>rate_limit\<close>: configuration, request and clock in, response and
  new store out. \<open>rl_run\<close> runs it over a sequence of requests, the way one process
  serves them one after the other.
\<close>

record rate_limit_config =
  windowMs :: int
  maxRequests :: int
  rl_message :: "string option"

record rl_entry =
  entry_count :: int
  resetTime :: time

type_synonym rl_store = "(string, rl_entry) js_map"

text \<open>The parts of a \<open>NextRequest\<close> the limiter reads.\<close>

record rl_request =
  req_ip :: "string option"
  req_forwarded_for :: "string option"  \<comment> \<open>\<open>req.headers.get("x-forwarded-for")\<close>\<close>
  req_pathname :: string

text \<open>\<open>null\<close> (the request goes on), or the 429 response: its error message and its
  \<open>Retry-After\<close> value.\<close>

datatype rl_response = RL_Pass | RL_Limited string int

definition rl_key :: "rl_request \<Rightarrow> string" where
  "rl_key req =
     js_or (req_ip req) (js_or (req_forwarded_for req) ''unknown'') @ '':'' @ req_pathname req"

text \<open>
  The clean-up loop \<open>for (const [k, v] of rateLimitStore.entries())\<close>: it visits every
  entry of the map once and deletes the expired one it is visiting (deleting the current
  entry does not disturb a JavaScript \<open>Map\<close> iteration).
\<close>

fun rl_sweep :: "time \<Rightarrow> (string \<times> rl_entry) list \<Rightarrow> rl_store \<Rightarrow> rl_store" where
  "rl_sweep now [] st = st"
| "rl_sweep now ((k, v) # es) st =
     rl_sweep now es (if resetTime v < now then js_map_delete k st else st)"

definition rl_cleanup :: "time \<Rightarrow> rl_store \<Rightarrow> rl_store" where
  "rl_cleanup now st = rl_sweep now st st"

text \<open>\<open>Math.ceil(d / n)\<close> for integers \<open>d\<close> and a positive \<open>n\<close>.\<close>

definition ceil_div :: "int \<Rightarrow> int \<Rightarrow> int" where
  "ceil_div d n = - ((- d) div n)"

definition rate_limit ::
  "rate_limit_config \<Rightarrow> rl_request \<Rightarrow> time \<Rightarrow> rl_store \<Rightarrow> rl_response \<times> rl_store" where
  "rate_limit cfg req now st0 =
     (let key = rl_key req;
          st = rl_cleanup now st0;
          fresh = \<lparr>entry_count = 1, resetTime = now + windowMs cfg\<rparr>
      in case map_of st key of
           None \<Rightarrow> (RL_Pass, js_map_set key fresh st)
         | Some cur \<Rightarrow>
             (if resetTime cur < now then (RL_Pass, js_map_set key fresh st)
              else if maxRequests cfg \<le> entry_count cur
              then (RL_Limited (js_or (rl_message cfg) ''Too many requests'')
                      (ceil_div (resetTime cur - now) 1000), st)
              else (RL_Pass, js_map_set key (cur\<lparr>entry_count := entry_count cur + 1\<rparr>) st)))"

fun rl_run ::
  "rate_limit_config \<Rightarrow> (rl_request \<times> time) list \<Rightarrow> rl_store \<Rightarrow> rl_response list \<times> rl_store" where
  "rl_run cfg [] st = ([], st)"
| "rl_run cfg ((req, now) # rs) st =
     (let (r, st') = rate_limit cfg req now st;
          (rs', st'') = rl_run cfg rs st'
      in (r # rs', st''))"

definition passes :: "rl_response list \<Rightarrow> nat" where
  "passes rs = length (filter (\<lambda>r. r = RL_Pass) rs)"

text \<open>
  The store invariant: keys are distinct (a \<open>Map\<close>), every counter lies between 1 and
  the quota (at least 1: the first request of a window always passes), and no window
  reaches beyond \<open>t + windowMs\<close>, where \<open>t\<close> is the clock of the last request.
\<close>

definition rl_inv :: "rate_limit_config \<Rightarrow> time \<Rightarrow> rl_store \<Rightarrow> bool" where
  "rl_inv cfg t st \<longleftrightarrow> distinct (map fst st) \<and>
     (\<forall>(k, e) \<in> set st. 1 \<le> entry_count e \<and> entry_count e \<le> max 1 (maxRequests cfg)
        \<and> resetTime e \<le> t + windowMs cfg)"

text \<open>Sample configuration and request, used by the witnesses below.\<close>

abbreviation rl_demo_cfg :: rate_limit_config where
  "rl_demo_cfg \<equiv> \<lparr>windowMs = 60000, maxRequests = 2, rl_message = None\<rparr>"

abbreviation rl_demo_req :: rl_request where
  "rl_demo_req \<equiv> \<lparr>req_ip = Some ''10.0.0.7'', req_forwarded_for = None,
                    req_pathname = ''/api/donations''\<rparr>"

text \<open>
  The same loop as JavaScript runs it: \<open>for (const [k, v] of rateLimitStore.entries())\<close>
  walks the live \<open>Map\<close>, and a \<open>delete\<close> during the walk is seen by the iterator. The
  iterator is a position in the entry list; after the current entry is deleted the next
  entry moves into that position, otherwise the position advances. No argument shrinks
  structurally, so the loop is a \<open>function\<close>; what decreases is the number of entries
  not yet visited.
\<close>

function rl_sweep_live :: "time \<Rightarrow> nat \<Rightarrow> rl_store \<Rightarrow> rl_store" where
  "rl_sweep_live now i m =
     (if i < length m then
        (if resetTime (snd (m ! i)) < now then rl_sweep_live now i (js_map_delete (fst (m ! i)) m)
         else rl_sweep_live now (Suc i) m)
      else m)"
  by pat_completeness auto

termination
  by (relation "measure (\<lambda>(now, i, m). length m - i)") (simp_all add: rl_sweep_live_decreases)

declare rl_sweep_live.simps [simp del]

subsection \<open>The clean-up loop\<close>

lemma rl_sweep_filter:
  "rl_sweep now es st =
     filter (\<lambda>(k, _). \<not> (\<exists>v. (k, v) \<in> set es \<and> resetTime v < now)) st"
proof (induction es arbitrary: st)
  case Nil
  then show ?case by simp
next
  case (Cons kv es)
  obtain k v where kv: "kv = (k, v)" by fastforce
  show ?case
    by (auto simp add: kv Cons.IH js_map_delete_def filter_filter intro!: filter_cong)
qed

lemma rl_cleanup_filter:
  assumes "distinct (map fst st)"
  shows "rl_cleanup now st = filter (\<lambda>(_, v). \<not> resetTime v < now) st"
proof -
  have "\<And>k v. (k, v) \<in> set st \<Longrightarrow>
          (\<not> (\<exists>v'. (k, v') \<in> set st \<and> resetTime v' < now)) = (\<not> resetTime v < now)"
    using assms by (force dest: eq_key_imp_eq_value)
  then show ?thesis
    by (auto simp add: rl_cleanup_def rl_sweep_filter intro!: filter_cong)
qed

lemma rl_cleanup_subset: "set (rl_cleanup now st) \<subseteq> set st"
  by (auto simp add: rl_cleanup_def rl_sweep_filter)

lemma rl_cleanup_distinct: "distinct (map fst st) \<Longrightarrow> distinct (map fst (rl_cleanup now st))"
  by (simp add: rl_cleanup_def rl_sweep_filter distinct_map_fst_filter)

lemma rl_cleanup_live: "(k, e) \<in> set (rl_cleanup now st) \<Longrightarrow> \<not> resetTime e < now"
  by (auto simp add: rl_cleanup_def rl_sweep_filter)

lemma map_of_rl_cleanup:
  "distinct (map fst st) \<Longrightarrow>
     map_of (rl_cleanup now st) k = Some e \<longleftrightarrow> map_of st k = Some e \<and> \<not> resetTime e < now"
  by (simp add: rl_cleanup_filter map_of_filter_distinct)

lemma map_of_rl_cleanup_live: "map_of (rl_cleanup now st) k = Some e \<Longrightarrow> \<not> resetTime e < now"
  by (auto dest: map_of_SomeD rl_cleanup_live)

subsection \<open>The handler\<close>

text \<open>
  After the sweep no live entry is expired, so the branch \<open>current.resetTime < now\<close>
  of the handler is never taken: the handler is equal to the one without it.
\<close>

lemma rate_limit_eq:
  "rate_limit cfg req now st0 =
     (case map_of (rl_cleanup now st0) (rl_key req) of
        None \<Rightarrow> (RL_Pass, js_map_set (rl_key req)
                   \<lparr>entry_count = 1, resetTime = now + windowMs cfg\<rparr> (rl_cleanup now st0))
      | Some cur \<Rightarrow>
          (if maxRequests cfg \<le> entry_count cur
           then (RL_Limited (js_or (rl_message cfg) ''Too many requests'')
                   (ceil_div (resetTime cur - now) 1000), rl_cleanup now st0)
           else (RL_Pass, js_map_set (rl_key req)
                   (cur\<lparr>entry_count := entry_count cur + 1\<rparr>) (rl_cleanup now st0))))"
  by (auto simp add: rate_limit_def Let_def dest: map_of_rl_cleanup_live split: option.splits)

lemma ceil_div_bounds:
  assumes "0 < n"
  shows "d \<le> ceil_div d n * n" and "ceil_div d n * n < d + n"
proof -
  have e: "(- d) div n * n + (- d) mod n = - d"
    by (rule div_mult_mod_eq)
  have "0 \<le> (- d) mod n" and "(- d) mod n < n"
    using assms by simp_all
  moreover have "ceil_div d n * n = - ((- d) div n * n)"
    by (simp add: ceil_div_def)
  ultimately show "d \<le> ceil_div d n * n" and "ceil_div d n * n < d + n"
    using e by linarith+
qed

lemma ceil_div_mono: "0 < n \<Longrightarrow> a \<le> b \<Longrightarrow> ceil_div a n \<le> ceil_div b n"
  by (simp add: ceil_div_def zdiv_mono1)

lemma ceil_div_zero [simp]: "ceil_div 0 n = 0"
  by (simp add: ceil_div_def)

lemma ceil_div_nonneg: "0 < n \<Longrightarrow> 0 \<le> d \<Longrightarrow> 0 \<le> ceil_div d n"
  using ceil_div_mono [of n 0 d] by simp

lemma rl_inv_step:
  assumes inv: "rl_inv cfg t st" and t: "t \<le> now"
  shows "rl_inv cfg now (snd (rate_limit cfg req now st))"
proof -
  let ?c = "rl_cleanup now st"
  from inv have d: "distinct (map fst ?c)"
    by (simp add: rl_inv_def rl_cleanup_distinct)
  from inv t have old: "\<forall>(k, e) \<in> set ?c. 1 \<le> entry_count e
      \<and> entry_count e \<le> max 1 (maxRequests cfg) \<and> resetTime e \<le> now + windowMs cfg"
    using rl_cleanup_subset by (fastforce simp add: rl_inv_def)
  then have "rl_inv cfg now ?c"
    using d by (simp add: rl_inv_def)
  moreover have "rl_inv cfg now (js_map_set (rl_key req) e ?c)"
    if "1 \<le> entry_count e" "entry_count e \<le> max 1 (maxRequests cfg)"
       "resetTime e \<le> now + windowMs cfg" for e
    using that d old set_js_map_set [of "rl_key req" e ?c] by (fastforce simp add: rl_inv_def)
  moreover have "(rl_key req, cur) \<in> set ?c" if "map_of ?c (rl_key req) = Some cur" for cur
    using that by (rule map_of_SomeD)
  ultimately show ?thesis
    using old by (fastforce simp add: rate_limit_eq split: option.splits)
qed

lemma rl_run_Cons [simp]:
  "rl_run cfg ((req, now) # rs) st =
     (let (r, st') = rate_limit cfg req now st in (r # fst (rl_run cfg rs st'), snd (rl_run cfg rs st')))"
  by (simp add: split_def Let_def)

declare rl_run.simps(2) [simp del]

text \<open>
  C2: the store invariant. Over any run whose clock does not go backwards, keys stay
  distinct, each counter stays between 1 and \<open>max 1 maxRequests\<close>, and no window
  ends later than \<open>windowMs\<close> after the latest request.
\<close>

theorem rl_run_preserves_inv:
  "rl_inv cfg t st \<Longrightarrow> sorted (t # map snd rs) \<Longrightarrow>
     rl_inv cfg (last (t # map snd rs)) (snd (rl_run cfg rs st))"
proof (induction rs arbitrary: t st)
  case Nil
  then show ?case by simp
next
  case (Cons rn rs)
  obtain req now where rn: "rn = (req, now)" by fastforce
  obtain r st' where step: "rate_limit cfg req now st = (r, st')" by fastforce
  from Cons.prems rn step have "rl_inv cfg now st'"
    using rl_inv_step [of cfg t st now req] by simp
  moreover from Cons.prems rn have "sorted (now # map snd rs)" by simp
  ultimately have "rl_inv cfg (last (now # map snd rs)) (snd (rl_run cfg rs st'))"
    by (rule Cons.IH)
  then show ?case by (simp add: rn step)
qed

subsection \<open>The quota\<close>

theorem rl_run_preserves_inv_witness:
  "rl_inv rl_demo_cfg 0 [] \<and> sorted (0 # map snd [(rl_demo_req, 10), (rl_demo_req, 20 :: int)]) \<and>
   rl_inv rl_demo_cfg 20 (snd (rl_run rl_demo_cfg [(rl_demo_req, 10), (rl_demo_req, 20)] []))"
proof -
  have h: "rl_inv rl_demo_cfg 0 []" "sorted (0 # map snd [(rl_demo_req, 10), (rl_demo_req, 20 :: int)])"
    by (simp_all add: rl_inv_def)
  show ?thesis
    using h rl_run_preserves_inv [OF h] by simp
qed

lemma rl_run_quota_from:
  assumes "distinct (map fst st)" and "map_of st K = Some e"
    and "\<forall>(req, now) \<in> set rs. rl_key req = K \<and> now \<le> resetTime e"
    and "entry_count e \<le> max 1 (maxRequests cfg)"
  shows "int (passes (fst (rl_run cfg rs st))) + entry_count e \<le> max 1 (maxRequests cfg)"
  using assms
proof (induction rs arbitrary: st e)
  case Nil
  then show ?case by (simp add: passes_def)
next
  case (Cons rn rs)
  obtain req now where rn: "rn = (req, now)" by fastforce
  from Cons.prems rn have key: "rl_key req = K" and le: "now \<le> resetTime e" by auto
  from Cons.prems(1,2) le have live: "map_of (rl_cleanup now st) K = Some e"
    by (simp add: map_of_rl_cleanup)
  from Cons.prems(1) have d: "distinct (map fst (rl_cleanup now st))"
    by (rule rl_cleanup_distinct)
  from Cons.prems(3) rn have rest: "\<forall>(req, now) \<in> set rs. rl_key req = K \<and> now \<le> resetTime e"
    by auto
  show ?case
  proof (cases "maxRequests cfg \<le> entry_count e")
    case True
    then have "rate_limit cfg req now st = (RL_Limited (js_or (rl_message cfg) ''Too many requests'')
                   (ceil_div (resetTime e - now) 1000), rl_cleanup now st)"
      by (simp add: rate_limit_eq key live)
    moreover have "int (passes (fst (rl_run cfg rs (rl_cleanup now st)))) + entry_count e
                   \<le> max 1 (maxRequests cfg)"
      using Cons.IH [OF d live rest Cons.prems(4)] .
    ultimately show ?thesis
      by (simp add: rn passes_def)
  next
    case False
    let ?e' = "e\<lparr>entry_count := entry_count e + 1\<rparr>"
    have step: "rate_limit cfg req now st = (RL_Pass, js_map_set K ?e' (rl_cleanup now st))"
      using False by (simp add: rate_limit_eq key live)
    have "int (passes (fst (rl_run cfg rs (js_map_set K ?e' (rl_cleanup now st))))) + entry_count ?e'
                   \<le> max 1 (maxRequests cfg)"
      using False rest by (intro Cons.IH) (simp_all add: d)
    then show ?thesis
      by (simp add: rn step passes_def)
  qed
qed

subsection \<open>Properties of the limiter\<close>

text \<open>
  C1: the quota. Within any stretch of requests of one client (one key) that starts
  when the client has no live window and lasts at most \<open>windowMs\<close>, the limiter lets
  at most \<open>max 1 maxRequests\<close> requests through (the first request of a window always
  passes, whatever the configured maximum).
\<close>

theorem rl_quota:
  assumes "distinct (map fst st)"
    and "map_of (rl_cleanup t0 st) (rl_key req0) = None"
    and "\<forall>(req, now) \<in> set rs. rl_key req = rl_key req0 \<and> now \<le> t0 + windowMs cfg"
  shows "int (passes (fst (rl_run cfg ((req0, t0) # rs) st))) \<le> max 1 (maxRequests cfg)"
proof -
  let ?e = "\<lparr>entry_count = 1, resetTime = t0 + windowMs cfg\<rparr>"
  let ?st = "js_map_set (rl_key req0) ?e (rl_cleanup t0 st)"
  have step: "rate_limit cfg req0 t0 st = (RL_Pass, ?st)"
    using assms(2) by (simp add: rate_limit_eq)
  have "int (passes (fst (rl_run cfg rs ?st))) + entry_count ?e \<le> max 1 (maxRequests cfg)"
    using assms(1,3) by (intro rl_run_quota_from) (simp_all add: rl_cleanup_distinct)
  then show ?thesis
    by (simp add: step passes_def)
qed

theorem rl_quota_witness:
  "map_of (rl_cleanup 0 []) (rl_key rl_demo_req) = None \<and>
   list_all (\<lambda>(req, now). rl_key req = rl_key rl_demo_req \<and> now \<le> 0 + windowMs rl_demo_cfg)
     [(rl_demo_req, 10), (rl_demo_req, 20)] \<and>
   int (passes (fst (rl_run rl_demo_cfg [(rl_demo_req, 0), (rl_demo_req, 10), (rl_demo_req, 20)] []))) \<le> max 1 (maxRequests rl_demo_cfg) \<and>
   passes (fst (rl_run rl_demo_cfg [(rl_demo_req, 0), (rl_demo_req, 10), (rl_demo_req, 20)] [])) = 2"
proof -
  have "int (passes (fst (rl_run rl_demo_cfg [(rl_demo_req, 0), (rl_demo_req, 10), (rl_demo_req, 20)] []))) \<le> max 1 (maxRequests rl_demo_cfg)"
    by (rule rl_quota) (simp_all add: rl_cleanup_def)
  moreover have "passes (fst (rl_run rl_demo_cfg [(rl_demo_req, 0), (rl_demo_req, 10), (rl_demo_req, 20)] [])) = 2"
    by (simp add: rate_limit_def rl_cleanup_def rl_key_def passes_def js_map_delete_def)
  ultimately show ?thesis
    by (simp add: rl_cleanup_def rl_key_def)
qed

text \<open>
  C27: the 429 branch. A request is refused exactly when its key has a window in the
  store that is still live at \<open>now\<close> and whose counter has reached \<open>maxRequests\<close>;
  a refusal leaves the store as the sweep left it.
\<close>

theorem rl_limited_iff:
  assumes "distinct (map fst st)"
  shows "(\<exists>msg r. rate_limit cfg req now st = (RL_Limited msg r, rl_cleanup now st)) \<longleftrightarrow>
         (\<exists>e. map_of st (rl_key req) = Some e \<and> now \<le> resetTime e \<and> maxRequests cfg \<le> entry_count e)"
proof -
  have rhs: "(\<exists>e. map_of st (rl_key req) = Some e \<and> now \<le> resetTime e \<and> maxRequests cfg \<le> entry_count e)
      \<longleftrightarrow> (\<exists>e. map_of (rl_cleanup now st) (rl_key req) = Some e \<and> maxRequests cfg \<le> entry_count e)"
    using assms by (simp add: map_of_rl_cleanup not_less del: map_of_eq_Some_iff)
  show ?thesis
    unfolding rhs by (cases "map_of (rl_cleanup now st) (rl_key req)") (simp_all add: rate_limit_eq)
qed

theorem rl_limited_iff_witness:
  "distinct (map fst [(rl_key rl_demo_req, \<lparr>entry_count = 2, resetTime = 100\<rparr>)]) \<and>
   (\<exists>msg r. rate_limit rl_demo_cfg rl_demo_req 50 [(rl_key rl_demo_req, \<lparr>entry_count = 2, resetTime = 100\<rparr>)] =
      (RL_Limited msg r, rl_cleanup 50 [(rl_key rl_demo_req, \<lparr>entry_count = 2, resetTime = 100\<rparr>)]))"
  using rl_limited_iff [of "[(rl_key rl_demo_req, \<lparr>entry_count = 2, resetTime = 100\<rparr>)]" rl_demo_cfg rl_demo_req 50]
  by simp

text \<open>
  C33: the \<open>Retry-After\<close> header. In a state that satisfies the invariant and with a
  clock that has not gone backwards, a refusal's \<open>Retry-After\<close> is never negative and
  never more than the window in seconds, rounded up.
\<close>

theorem rl_retry_after_bounds:
  assumes "rl_inv cfg t st" and "t \<le> now"
    and "fst (rate_limit cfg req now st) = RL_Limited msg r"
  shows "0 \<le> r \<and> r \<le> ceil_div (windowMs cfg) 1000"
proof -
  from assms(1) have d: "distinct (map fst st)" by (simp add: rl_inv_def)
  from assms(3) obtain e where e: "map_of (rl_cleanup now st) (rl_key req) = Some e"
    and r: "r = ceil_div (resetTime e - now) 1000"
    by (auto simp add: rate_limit_eq split: option.splits if_splits)
  from e d have "map_of st (rl_key req) = Some e" and live: "now \<le> resetTime e"
    by (simp_all add: map_of_rl_cleanup not_less)
  with assms(1,2) have "resetTime e \<le> now + windowMs cfg"
    by (fastforce simp add: rl_inv_def dest: map_of_SomeD)
  with live r show ?thesis
    by (simp add: ceil_div_nonneg ceil_div_mono)
qed

theorem rl_retry_after_bounds_witness:
  "rl_inv rl_demo_cfg 0 [(rl_key rl_demo_req, \<lparr>entry_count = 2, resetTime = 60000\<rparr>)] \<and> (0::int) \<le> 1500 \<and>
   fst (rate_limit rl_demo_cfg rl_demo_req 1500 [(rl_key rl_demo_req, \<lparr>entry_count = 2, resetTime = 60000\<rparr>)])
     = RL_Limited ''Too many requests'' 59 \<and>
   0 \<le> (59::int) \<and> 59 \<le> ceil_div (windowMs rl_demo_cfg) 1000"
proof -
  have inv: "rl_inv rl_demo_cfg 0 [(rl_key rl_demo_req, \<lparr>entry_count = 2, resetTime = 60000\<rparr>)]"
    by (simp add: rl_inv_def)
  have lim: "fst (rate_limit rl_demo_cfg rl_demo_req 1500 [(rl_key rl_demo_req, \<lparr>entry_count = 2, resetTime = 60000\<rparr>)])
     = RL_Limited ''Too many requests'' 59"
    by (simp add: rate_limit_def rl_cleanup_def ceil_div_def)
  have "0 \<le> (59::int) \<and> 59 \<le> ceil_div (windowMs rl_demo_cfg) 1000"
    using rl_retry_after_bounds [OF inv _ lim] by simp
  with inv lim show ?thesis by simp
qed

text \<open>
  lazy eviction. With a non-negative window, after any request at \<open>now\<close> every
  window left in the store is still live at \<open>now\<close>: the sweep removed all expired ones.
\<close>

theorem rl_evicts_expired:
  assumes "0 \<le> windowMs cfg"
  shows "\<forall>(k, e) \<in> set (snd (rate_limit cfg req now st)). now \<le> resetTime e"
proof -
  let ?c = "rl_cleanup now st"
  have old: "\<forall>(k, e) \<in> set ?c. now \<le> resetTime e"
    by (auto dest: rl_cleanup_live)
  show ?thesis
  proof (cases "map_of ?c (rl_key req)")
    case None
    then have "snd (rate_limit cfg req now st) =
        js_map_set (rl_key req) \<lparr>entry_count = 1, resetTime = now + windowMs cfg\<rparr> ?c"
      by (simp add: rate_limit_eq)
    moreover have "\<forall>(k, e) \<in> set (js_map_set (rl_key req)
        \<lparr>entry_count = 1, resetTime = now + windowMs cfg\<rparr> ?c). now \<le> resetTime e"
      by (rule js_map_set_all [OF _ old]) (simp add: assms)
    ultimately show ?thesis by simp
  next
    case (Some cur)
    then have live: "now \<le> resetTime cur"
      by (simp add: map_of_rl_cleanup_live not_less [symmetric])
    show ?thesis
    proof (cases "maxRequests cfg \<le> entry_count cur")
      case True
      with Some old show ?thesis by (simp add: rate_limit_eq)
    next
      case False
      with Some have "snd (rate_limit cfg req now st) =
          js_map_set (rl_key req) (cur\<lparr>entry_count := entry_count cur + 1\<rparr>) ?c"
        by (simp add: rate_limit_eq)
      moreover have "\<forall>(k, e) \<in> set (js_map_set (rl_key req)
          (cur\<lparr>entry_count := entry_count cur + 1\<rparr>) ?c). now \<le> resetTime e"
        by (rule js_map_set_all [OF _ old]) (simp add: live)
      ultimately show ?thesis by simp
    qed
  qed
qed

theorem rl_evicts_expired_witness:
  "0 \<le> windowMs rl_demo_cfg \<and>
   list_all (\<lambda>(k, e). 5000 \<le> resetTime e) (snd (rate_limit rl_demo_cfg rl_demo_req 5000 [(''old:/x'', \<lparr>entry_count = 1, resetTime = 10\<rparr>)]))"
  using rl_evicts_expired [of rl_demo_cfg rl_demo_req 5000 "[(''old:/x'', \<lparr>entry_count = 1, resetTime = 10\<rparr>)]"]
  by (simp add: list_all_iff)

subsection \<open>The clean-up loop over the live \<open>Map\<close>\<close>

lemma js_map_delete_nth:
  assumes "distinct (map fst m)" and "i < length m"
  shows "js_map_delete (fst (m ! i)) m = take i m @ drop (Suc i) m"
proof -
  let ?k = "fst (m ! i)"
  have m: "m = take i m @ m ! i # drop (Suc i) m"
    using assms(2) by (simp add: id_take_nth_drop)
  then have "distinct (map fst (take i m) @ ?k # map fst (drop (Suc i) m))"
    using assms(1) by (metis map_append list.simps(9))
  then have "?k \<notin> fst ` set (take i m)" "?k \<notin> fst ` set (drop (Suc i) m)"
    by auto
  then have "filter (\<lambda>(k', _). k' \<noteq> ?k) (take i m) = take i m"
    "filter (\<lambda>(k', _). k' \<noteq> ?k) (drop (Suc i) m) = drop (Suc i) m"
    by (auto simp add: filter_id_conv image_iff)
  then show ?thesis
    unfolding js_map_delete_def by (subst m) (simp add: split_def)
qed

lemma rl_sweep_live_filter:
  "distinct (map fst m) \<Longrightarrow>
     rl_sweep_live now i m = take i m @ filter (\<lambda>(_, v). \<not> resetTime v < now) (drop i m)"
proof (induction now i m rule: rl_sweep_live.induct)
  case (1 now i m)
  show ?case
  proof (cases "i < length m")
    case False
    then show ?thesis by (simp add: rl_sweep_live.simps [of now i m])
  next
    case True
    have d: "drop i m = m ! i # drop (Suc i) m"
      using True by (simp add: Cons_nth_drop_Suc)
    show ?thesis
    proof (cases "resetTime (snd (m ! i)) < now")
      case exp: True
      let ?m = "js_map_delete (fst (m ! i)) m"
      have del: "?m = take i m @ drop (Suc i) m"
        using "1.prems" True by (rule js_map_delete_nth)
      have "distinct (map fst ?m)"
        unfolding js_map_delete_def using "1.prems" by (rule distinct_map_fst_filter)
      with "1.IH"(1) [OF True exp] have "rl_sweep_live now i ?m =
          take i ?m @ filter (\<lambda>(_, v). \<not> resetTime v < now) (drop i ?m)"
        by blast
      also have "\<dots> = take i m @ filter (\<lambda>(_, v). \<not> resetTime v < now) (drop (Suc i) m)"
        using True by (simp add: del)
      finally show ?thesis
        using True exp d by (simp add: rl_sweep_live.simps [of now i m] split_def)
    next
      case live: False
      from "1.IH"(2) [OF True live "1.prems"] True live d show ?thesis
        by (simp add: rl_sweep_live.simps [of now i m] split_def take_Suc_conv_app_nth)
    qed
  qed
qed

text \<open>
  C13: the live loop and the snapshot model agree. On a store with distinct keys (a
  \<open>Map\<close>), walking the live entries from the start and deleting the expired ones leaves
  exactly the store \<open>rl_cleanup\<close> computes, the unexpired entries in their order.
\<close>

theorem rl_sweep_live_eq_cleanup:
  assumes "distinct (map fst m)"
  shows "rl_sweep_live now 0 m = rl_cleanup now m"
  using rl_sweep_live_filter [OF assms, of now 0] rl_cleanup_filter [OF assms, of now] by simp

theorem rl_sweep_live_eq_cleanup_witness:
  "distinct (map fst [(''a'', \<lparr>entry_count = 1, resetTime = 5\<rparr>), (''b'', \<lparr>entry_count = 2, resetTime = 50\<rparr>)]) \<and>
   rl_sweep_live 10 0 [(''a'', \<lparr>entry_count = 1, resetTime = 5\<rparr>), (''b'', \<lparr>entry_count = 2, resetTime = 50\<rparr>)] =
     [(''b'', \<lparr>entry_count = 2, resetTime = 50\<rparr>)]"
proof -
  have d: "distinct (map fst [(''a'', \<lparr>entry_count = 1, resetTime = 5\<rparr>), (''b'', \<lparr>entry_count = 2, resetTime = (50::int)\<rparr>)])"
    by simp
  show ?thesis
    using d rl_sweep_live_eq_cleanup [OF d, of 10]
    by (simp add: rl_cleanup_def js_map_delete_def)
qed

end
