(* ===== verification/Inventory.thy ===== *)
theory Inventory
  imports Donation_Model
begin

text \<open>
  The inventory view that NGO partners browse: the handler \<open>GET\<close> of
  \<open>src/app/api/ngo/available-medicines/route.ts\<close>. It checks the session (401 without
  a user id, 403 for every role but \<open>ngo_partner\<close>), runs
  \<open>Donation.find({status: "verified", isReserved: {$ne: true}})\<close> with the donor
  populated, and flattens every medicine of every matching donation into a tuple
  \<open>{id, name, quantity, expiryDate, location, donorId}\<close>. The collection is a list in
  its natural order; \<open>None\<close> for the query result is a failed database call, which the
  \<open>catch\<close> hands to \<open>handleApiError\<close>. The spec's view (section 4.3 of the spec) is
  \<open>inventory_view_spec\<close>: the same selection, ordered by expiry date, then creation.
\<close>

record available_medicine =
  am_id :: string
  am_name :: string
  am_quantity :: int
  am_expiryDate :: time
  am_location :: string
  am_donorId :: "user_id option"

text \<open>The query predicate \<open>{status: "verified", isReserved: {$ne: true}}\<close>: a
  missing \<open>isReserved\<close> matches \<open>$ne: true\<close>.\<close>

definition is_available :: "donation \<Rightarrow> bool" where
  "is_available d \<longleftrightarrow> status d = Verified \<and> isReserved d \<noteq> Some True"

text \<open>
  One tuple. \<open>donation.userId?._id || donation.userId\<close>: after \<open>populate\<close>, a donor
  that exists yields its id, a deleted donor makes \<open>userId\<close> \<open>null\<close>, and so the tuple's
  \<open>donorId\<close>.
\<close>

definition medicine_entry :: "(user_id \<Rightarrow> bool) \<Rightarrow> donation \<Rightarrow> medicine \<Rightarrow> available_medicine" where
  "medicine_entry user_exists d m =
     \<lparr>am_id = donation_id d @ ''-'' @ med_id m, am_name = med_name m, am_quantity = quantity m,
      am_expiryDate = expiryDate m, am_location = js_or (pickupAddress d) ''Central Warehouse'',
      am_donorId = (if user_exists (userId d) then Some (userId d) else None)\<rparr>"

definition available_medicines :: "(user_id \<Rightarrow> bool) \<Rightarrow> donation list \<Rightarrow> available_medicine list" where
  "available_medicines user_exists db =
     concat (map (\<lambda>d. map (medicine_entry user_exists d) (medicines d)) (filter is_available db))"

text \<open>\<open>handleApiError\<close> (\<open>src/lib/api-error\<close>, not part of the sources): an unexpected
  error is answered 500 with an opaque message (spec, section 7).\<close>

definition handle_api_error :: "'a http_response" where
  "handle_api_error = Http_Error 500 ''Internal server error''"

definition get_available_medicines ::
  "session option \<Rightarrow> (user_id \<Rightarrow> bool) \<Rightarrow> donation list option \<Rightarrow> available_medicine list http_response" where
  "get_available_medicines s user_exists db =
     (case s of
        None \<Rightarrow> Http_Error 401 ''Unauthorized''
      | Some u \<Rightarrow>
          (if js_falsy_opt (sess_user_id u) then Http_Error 401 ''Unauthorized''
           else if sess_role u \<noteq> Some ''ngo_partner'' then Http_Error 403 ''Unauthorized''
           else (case db of
                   None \<Rightarrow> handle_api_error
                 | Some ds \<Rightarrow> Http_Ok (available_medicines user_exists ds))))"

text \<open>The spec's inventory view: verified, unreserved line items, closest expiry first,
  then oldest donation first.\<close>

definition inventory_view_spec :: "donation list \<Rightarrow> (donation \<times> medicine) list" where
  "inventory_view_spec db =
     sort_key (\<lambda>(d, m). (expiryDate m, createdAt d))
       [(d, m). d \<leftarrow> db, status d = Verified \<and> isReserved d \<noteq> Some True, m \<leftarrow> medicines d]"

subsection \<open>Sample inputs\<close>

abbreviation inv_demo_med :: medicine where
  "inv_demo_med \<equiv> \<lparr>med_id = ''m1'', med_name = ''Paracetamol 500mg'', quantity = 20,
     expiryDate = 1800000000000, description = None, image = None\<rparr>"

abbreviation inv_demo_donation :: "oid \<Rightarrow> status \<Rightarrow> bool option \<Rightarrow> donation" where
  "inv_demo_donation i st r \<equiv> \<lparr>donation_id = i, userId = ''u1'', medicines = [inv_demo_med],
     status = st, pickupAddress = None, pickupDate = None, verificationNotes = None,
     verifiedBy = Some ''r1'', creditsEarned = 20, isReserved = r, createdAt = 0, updatedAt = 0\<rparr>"

abbreviation inv_demo_ngo :: session where
  "inv_demo_ngo \<equiv> \<lparr>sess_user_id = Some ''n1'', sess_role = Some ''ngo_partner'',
     sess_name = None, sess_email = None\<rparr>"

subsection \<open>Lemmas\<close>

lemma available_medicines_Cons:
  "available_medicines ue (d # db) =
     (if is_available d then map (medicine_entry ue d) (medicines d) else []) @ available_medicines ue db"
  by (simp add: available_medicines_def)

lemma available_medicines_Nil [simp]: "available_medicines ue [] = []"
  by (simp add: available_medicines_def)

lemma set_available_medicines:
  "set (available_medicines ue db) =
     {medicine_entry ue d m | d m. d \<in> set db \<and> is_available d \<and> m \<in> set (medicines d)}"
  by (auto simp add: available_medicines_def)

lemma medicine_entry_location: "am_location (medicine_entry ue d m) \<noteq> []"
  by (simp add: medicine_entry_def)

lemma sep_join_inj:
  assumes "c \<notin> set a" and "c \<notin> set b" and "a @ c # x = b @ c # y"
  shows "a = b \<and> x = y"
  using assms
proof (induction a arbitrary: b)
  case Nil
  then show ?case by (cases b) auto
next
  case (Cons a as)
  then show ?case by (cases b) auto
qed

lemma medicine_entry_ids_distinct:
  assumes "distinct (map med_id ms)"
  shows "distinct (map (am_id \<circ> medicine_entry ue d) ms)"
proof -
  have "inj_on (\<lambda>m. donation_id d @ ''-'' @ med_id m) (set ms) \<longleftrightarrow> inj_on med_id (set ms)"
    by (auto simp add: inj_on_def)
  with assms show ?thesis
    by (simp add: distinct_map medicine_entry_def comp_def)
qed

lemma am_id_donation:
  assumes "x \<in> set (available_medicines ue db)"
  shows "\<exists>d \<in> set db. \<exists>i. am_id x = donation_id d @ ''-'' @ i"
proof -
  from assms obtain d m where "d \<in> set db" and "x = medicine_entry ue d m"
    by (auto simp add: set_available_medicines)
  then show ?thesis
    by (intro bexI [of _ d]) (simp_all add: medicine_entry_def)
qed

subsection \<open>Properties of the view\<close>

text \<open>
  C3: whatever the route hands out as a listing goes to an authenticated
  \<open>ngo_partner\<close>, came from a successful query, and consists only of medicines of
  donations that are verified and not reserved, each projected faithfully.
\<close>

theorem available_medicines_route_sound:
  assumes "get_available_medicines s ue db = Http_Ok xs" and "x \<in> set xs"
  shows "(\<exists>u. s = Some u \<and> sess_role u = Some ''ngo_partner'' \<and> \<not> js_falsy_opt (sess_user_id u)) \<and>
         (\<exists>ds d m. db = Some ds \<and> d \<in> set ds \<and> m \<in> set (medicines d) \<and>
            status d = Verified \<and> isReserved d \<noteq> Some True \<and> x = medicine_entry ue d m)"
proof -
  from assms(1) obtain u ds where s: "s = Some u" and db: "db = Some ds"
    and role: "sess_role u = Some ''ngo_partner''" and uid: "\<not> js_falsy_opt (sess_user_id u)"
    and xs: "xs = available_medicines ue ds"
    by (auto simp add: get_available_medicines_def handle_api_error_def
        split: option.splits if_splits)
  from assms(2) xs show ?thesis
    using s db role uid by (auto simp add: set_available_medicines is_available_def)
qed

theorem available_medicines_route_sound_witness:
  "get_available_medicines (Some inv_demo_ngo) (\<lambda>_. True)
      (Some [inv_demo_donation ''d1'' Verified (Some False), inv_demo_donation ''d2'' Verified (Some True)])
     = Http_Ok [medicine_entry (\<lambda>_. True) (inv_demo_donation ''d1'' Verified (Some False)) inv_demo_med] \<and>
   status (inv_demo_donation ''d1'' Verified (Some False)) = Verified"
proof -
  have ok: "get_available_medicines (Some inv_demo_ngo) (\<lambda>_. True)
      (Some [inv_demo_donation ''d1'' Verified (Some False), inv_demo_donation ''d2'' Verified (Some True)])
     = Http_Ok [medicine_entry (\<lambda>_. True) (inv_demo_donation ''d1'' Verified (Some False)) inv_demo_med]"
    by (simp add: get_available_medicines_def js_falsy_opt_def available_medicines_def is_available_def)
  have "\<exists>ds d m. Some [inv_demo_donation ''d1'' Verified (Some False), inv_demo_donation ''d2'' Verified (Some True)] = Some ds
      \<and> d \<in> set ds \<and> m \<in> set (medicines d) \<and> status d = Verified \<and> isReserved d \<noteq> Some True
      \<and> medicine_entry (\<lambda>_. True) (inv_demo_donation ''d1'' Verified (Some False)) inv_demo_med = medicine_entry (\<lambda>_. True) d m"
    using available_medicines_route_sound [OF ok] by simp
  with ok show ?thesis by simp
qed

text \<open>
  C4: refinement of the spec's view up to order. The route lists exactly the line items of
  the spec's inventory view, each as often as the view has it; only the order differs
  (the route keeps the collection's natural order).
\<close>

theorem available_medicines_refines_spec:
  "mset (available_medicines ue db) =
     mset (map (\<lambda>(d, m). medicine_entry ue d m) (inventory_view_spec db))"
proof (induction db)
  case Nil
  then show ?case by (simp add: inventory_view_spec_def)
next
  case (Cons d db)
  have "mset (map (\<lambda>(d, m). medicine_entry ue d m) (inventory_view_spec (d # db))) =
        mset (map (\<lambda>(d, m). medicine_entry ue d m)
          [(d', m). d' \<leftarrow> d # db, status d' = Verified \<and> isReserved d' \<noteq> Some True, m \<leftarrow> medicines d'])"
    by (simp add: inventory_view_spec_def)
  also have "\<dots> = (if is_available d then mset (map (medicine_entry ue d) (medicines d)) else {#}) +
        mset (map (\<lambda>(d, m). medicine_entry ue d m) (inventory_view_spec db))"
    by (simp add: inventory_view_spec_def is_available_def mset_map multiset.map_comp comp_def)
  finally show ?case
    using Cons.IH by (simp add: available_medicines_Cons)
qed

text \<open>
  the listing's ids are distinct (they key the rows the NGO dashboard renders), as
  long as donation ids are distinct and free of \<open>-\<close> (Mongo ObjectIds are hexadecimal)
  and the medicine ids of each donation are distinct.
\<close>

theorem available_medicine_ids_distinct:
  assumes "distinct (map donation_id db)"
    and "\<forall>d \<in> set db. CHR ''-'' \<notin> set (donation_id d) \<and> distinct (map med_id (medicines d))"
  shows "distinct (map am_id (available_medicines ue db))"
  using assms
proof (induction db)
  case Nil
  then show ?case by simp
next
  case (Cons d db)
  have rest: "distinct (map am_id (available_medicines ue db))"
    using Cons by simp
  have own: "distinct (map (am_id \<circ> medicine_entry ue d) (medicines d))"
    using Cons.prems(2) by (simp add: medicine_entry_ids_distinct)
  have disj: "am_id (medicine_entry ue d m) \<noteq> am_id x"
    if "x \<in> set (available_medicines ue db)" for m x
  proof
    assume eq: "am_id (medicine_entry ue d m) = am_id x"
    from that obtain d' i where d': "d' \<in> set db" and x: "am_id x = donation_id d' @ ''-'' @ i"
      by (blast dest: am_id_donation)
    from eq x have "donation_id d @ CHR ''-'' # med_id m = donation_id d' @ CHR ''-'' # i"
      by (simp add: medicine_entry_def)
    with Cons.prems(2) d' have "donation_id d = donation_id d'"
      by (auto dest: sep_join_inj)
    with Cons.prems(1) d' show False by auto
  qed
  show ?case
    using rest own disj by (auto simp add: available_medicines_Cons)
qed

theorem available_medicine_ids_distinct_witness:
  "distinct (map donation_id [inv_demo_donation ''d1'' Verified None, inv_demo_donation ''d2'' Verified None]) \<and>
   list_all (\<lambda>d. CHR ''-'' \<notin> set (donation_id d) \<and> distinct (map med_id (medicines d)))
     [inv_demo_donation ''d1'' Verified None, inv_demo_donation ''d2'' Verified None] \<and>
   distinct (map am_id (available_medicines (\<lambda>_. True)
     [inv_demo_donation ''d1'' Verified None, inv_demo_donation ''d2'' Verified None]))"
proof -
  have h: "distinct (map donation_id [inv_demo_donation ''d1'' Verified None, inv_demo_donation ''d2'' Verified None])"
    "\<forall>d \<in> set [inv_demo_donation ''d1'' Verified None, inv_demo_donation ''d2'' Verified None].
       CHR ''-'' \<notin> set (donation_id d) \<and> distinct (map med_id (medicines d))"
    by simp_all
  show ?thesis
    using h available_medicine_ids_distinct [OF h] by (simp add: list_all_iff)
qed

end
