(* ===== verification/Audit_Log.thy ===== *)
theory Audit_Log
  imports Prelude
begin

text \<open>
  The audit trail of \<open>src/lib/audit-service.ts\<close>. \<open>AuditService.log\<close> fills in the
  request's address and user agent (\<open>"unknown"\<close> when missing) and the default severity
  \<open>low\<close>, and creates one \<open>AuditLog\<close> document; a failure of the database is caught,
  printed with \<open>console.error\<close>, and never reaches the caller. The three helpers
  (\<open>logDonationStatusChange\<close>, \<open>logUserAction\<close>, \<open>logAdminAction\<close>) fix action,
  resource and severity and call \<open>log\<close>. \<open>getAuditLogs\<close> builds a Mongo query from
  the filters, sorts by timestamp, newest first, and pages with \<open>skip\<close>/\<open>limit\<close>.

  The audit state is the \<open>audit_logs\<close> collection (a list in insertion order) and the
  lines printed on the console. The outcome of the database call is an input
  (\<open>db_ok\<close>): the model covers both the write that succeeds and the one that throws.
\<close>

datatype severity = Low | Medium | High | Critical

text \<open>\<open>Record<string, any>\<close> of the details, with values that may be \<open>undefined\<close>.\<close>

type_synonym details = "(string \<times> string option) list"

record audit_entry =
  ae_userId :: user_id
  ae_action :: string
  ae_resource :: string
  ae_resourceId :: "string option"
  ae_details :: details
  ae_severity :: "severity option"

text \<open>The headers of the \<open>NextRequest\<close> that \<open>log\<close> reads.\<close>

record audit_request =
  areq_ip :: "string option"
  areq_forwarded_for :: "string option"
  areq_user_agent :: "string option"

text \<open>The stored document (\<open>src/models/AuditLog\<close> is not among the sources; its
  fields are those of the spec's AuditLog, the timestamp set at creation).\<close>

record audit_log =
  al_userId :: user_id
  al_action :: string
  al_resource :: string
  al_resourceId :: "string option"
  al_details :: details
  al_severity :: severity
  al_ipAddress :: string
  al_userAgent :: string
  al_timestamp :: time

record audit_state =
  audit_logs :: "audit_log list"
  console_errors :: "string list"

definition audit_record :: "audit_entry \<Rightarrow> audit_request option \<Rightarrow> time \<Rightarrow> audit_log" where
  "audit_record e req now =
     \<lparr>al_userId = ae_userId e, al_action = ae_action e, al_resource = ae_resource e,
      al_resourceId = ae_resourceId e, al_details = ae_details e,
      al_severity = (case ae_severity e of None \<Rightarrow> Low | Some s \<Rightarrow> s),
      al_ipAddress = (case req of None \<Rightarrow> ''unknown''
                      | Some r \<Rightarrow> js_or (areq_ip r) (js_or (areq_forwarded_for r) ''unknown'')),
      al_userAgent = (case req of None \<Rightarrow> ''unknown'' | Some r \<Rightarrow> js_or (areq_user_agent r) ''unknown''),
      al_timestamp = now\<rparr>"

text \<open>\<open>AuditService.log\<close>: the \<open>try\<close> creates the document; the \<open>catch\<close> prints and
  returns normally.\<close>

definition audit_log_write ::
  "bool \<Rightarrow> audit_entry \<Rightarrow> audit_request option \<Rightarrow> time \<Rightarrow> audit_state \<Rightarrow> audit_state" where
  "audit_log_write db_ok e req now st =
     (if db_ok then st\<lparr>audit_logs := audit_logs st @ [audit_record e req now]\<rparr>
      else st\<lparr>console_errors := console_errors st @ [''Failed to create audit log:'']\<rparr>)"

definition status_change_entry ::
  "user_id \<Rightarrow> string \<Rightarrow> string \<Rightarrow> string \<Rightarrow> string option \<Rightarrow> audit_entry" where
  "status_change_entry uid did old new notes =
     \<lparr>ae_userId = uid, ae_action = ''update_donation_status'', ae_resource = ''donation'',
      ae_resourceId = Some did,
      ae_details = [(''oldStatus'', Some old), (''newStatus'', Some new), (''notes'', notes)],
      ae_severity = Some (if new = ''rejected'' then Medium else Low)\<rparr>"

definition user_action_entry :: "user_id \<Rightarrow> string \<Rightarrow> string \<Rightarrow> details \<Rightarrow> audit_entry" where
  "user_action_entry uid act res det =
     \<lparr>ae_userId = uid, ae_action = act, ae_resource = res, ae_resourceId = None,
      ae_details = det, ae_severity = None\<rparr>"

definition admin_action_entry :: "user_id \<Rightarrow> string \<Rightarrow> string \<Rightarrow> string \<Rightarrow> details \<Rightarrow> audit_entry" where
  "admin_action_entry uid act res rid det =
     \<lparr>ae_userId = uid, ae_action = act, ae_resource = res, ae_resourceId = Some rid,
      ae_details = det, ae_severity = Some High\<rparr>"

text \<open>The service's four entry points, as the operations a caller can invoke.\<close>

datatype audit_call =
    Log audit_entry
  | Log_Donation_Status_Change user_id string string string "string option"
  | Log_User_Action user_id string string details
  | Log_Admin_Action user_id string string string details

fun audit_call_entry :: "audit_call \<Rightarrow> audit_entry" where
  "audit_call_entry (Log e) = e"
| "audit_call_entry (Log_Donation_Status_Change uid did old new notes) =
     status_change_entry uid did old new notes"
| "audit_call_entry (Log_User_Action uid act res det) = user_action_entry uid act res det"
| "audit_call_entry (Log_Admin_Action uid act res rid det) = admin_action_entry uid act res rid det"

definition audit_step ::
  "bool \<Rightarrow> audit_call \<Rightarrow> audit_request option \<Rightarrow> time \<Rightarrow> audit_state \<Rightarrow> audit_state" where
  "audit_step db_ok c req now st = audit_log_write db_ok (audit_call_entry c) req now st"

fun audit_run ::
  "(bool \<times> audit_call \<times> audit_request option \<times> time) list \<Rightarrow> audit_state \<Rightarrow> audit_state" where
  "audit_run [] st = st"
| "audit_run ((ok, c, req, now) # cs) st = audit_run cs (audit_step ok c req now st)"

subsection \<open>Queries\<close>

record audit_filter =
  flt_userId :: "string option"
  flt_action :: "string option"
  flt_resource :: "string option"
  flt_startDate :: "time option"
  flt_endDate :: "time option"

text \<open>The query object: \<open>if (filters.userId)\<close> skips a missing or empty filter.\<close>

definition audit_matches :: "audit_filter \<Rightarrow> audit_log \<Rightarrow> bool" where
  "audit_matches f l \<longleftrightarrow>
     (js_falsy_opt (flt_userId f) \<or> flt_userId f = Some (al_userId l)) \<and>
     (js_falsy_opt (flt_action f) \<or> flt_action f = Some (al_action l)) \<and>
     (js_falsy_opt (flt_resource f) \<or> flt_resource f = Some (al_resource l)) \<and>
     (case flt_startDate f of None \<Rightarrow> True | Some t \<Rightarrow> t \<le> al_timestamp l) \<and>
     (case flt_endDate f of None \<Rightarrow> True | Some t \<Rightarrow> al_timestamp l \<le> t)"

text \<open>
  \<open>.sort({timestamp: -1})\<close>: newest first. Mongo leaves the order of equal timestamps
  open; the model keeps insertion order among them (a stable sort).
\<close>

definition sort_newest_first :: "audit_log list \<Rightarrow> audit_log list" where
  "sort_newest_first ls = sort_key (\<lambda>l. - al_timestamp l) ls"

text \<open>Mongo's \<open>limit(0)\<close> means no limit; \<open>skip\<close> is applied before \<open>limit\<close>
  whatever the order of the calls in the chain.\<close>

definition mongo_limit :: "nat \<Rightarrow> 'a list \<Rightarrow> 'a list" where
  "mongo_limit n xs = (if n = 0 then xs else take n xs)"

definition get_audit_logs :: "audit_filter \<Rightarrow> nat \<Rightarrow> nat \<Rightarrow> audit_log list \<Rightarrow> audit_log list" where
  "get_audit_logs f limit offset ls =
     mongo_limit limit (drop offset (sort_newest_first (filter (audit_matches f) ls)))"

text \<open>The defaults \<open>limit = 100\<close>, \<open>offset = 0\<close>.\<close>

definition get_audit_logs_default :: "audit_filter \<Rightarrow> audit_log list \<Rightarrow> audit_log list" where
  "get_audit_logs_default f ls = get_audit_logs f 100 0 ls"

subsection \<open>Sample inputs\<close>

abbreviation audit_demo_log :: "user_id \<Rightarrow> time \<Rightarrow> audit_log" where
  "audit_demo_log u t \<equiv> \<lparr>al_userId = u, al_action = ''update_donation_status'',
     al_resource = ''donation'', al_resourceId = Some ''d1'', al_details = [],
     al_severity = Low, al_ipAddress = ''unknown'', al_userAgent = ''unknown'', al_timestamp = t\<rparr>"

abbreviation audit_no_filter :: audit_filter where
  "audit_no_filter \<equiv> \<lparr>flt_userId = None, flt_action = None, flt_resource = None,
     flt_startDate = None, flt_endDate = None\<rparr>"

subsection \<open>Lemmas\<close>

lemma audit_step_logs:
  "audit_logs (audit_step ok c req now st) =
     audit_logs st @ (if ok then [audit_record (audit_call_entry c) req now] else [])"
  by (simp add: audit_step_def audit_log_write_def)

lemma sorted_newest_first: "sorted_wrt (\<lambda>a b. al_timestamp b \<le> al_timestamp a) (sort_newest_first ls)"
proof -
  have "sorted (map (\<lambda>l. - al_timestamp l) (sort_key (\<lambda>l. - al_timestamp l) ls))"
    by (rule sorted_sort_key)
  then show ?thesis
    by (simp add: sort_newest_first_def sorted_map sorted_wrt_iff_nth_less)
qed

lemma mset_sort_newest_first [simp]: "mset (sort_newest_first ls) = mset ls"
  by (simp add: sort_newest_first_def)

lemma set_sort_newest_first [simp]: "set (sort_newest_first ls) = set ls"
  by (simp add: sort_newest_first_def)

lemma mongo_limit_take: "0 < n \<Longrightarrow> mongo_limit n xs = take n xs"
  by (simp add: mongo_limit_def)

lemma set_mongo_limit: "set (mongo_limit n xs) \<subseteq> set xs"
  by (auto simp add: mongo_limit_def dest: in_set_takeD)

lemma sorted_wrt_mongo_limit: "sorted_wrt R xs \<Longrightarrow> sorted_wrt R (mongo_limit n xs)"
  by (simp add: mongo_limit_def sorted_wrt_take)

subsection \<open>Properties of the audit trail\<close>

text \<open>
  C28: the trail is append-only. Whatever sequence of service calls runs, the
  collection afterwards is the collection before, followed by one record per call whose
  database write succeeded, in call order; failed writes add nothing to it.
\<close>

theorem audit_run_append_only:
  "audit_logs (audit_run cs st) =
     audit_logs st @ [audit_record (audit_call_entry c) req now. (ok, c, req, now) \<leftarrow> cs, ok]"
proof (induction cs arbitrary: st)
  case Nil
  then show ?case by simp
next
  case (Cons x cs)
  obtain ok c req now where x: "x = (ok, c, req, now)"
    by (cases x) auto
  show ?case
    by (simp add: x Cons.IH audit_step_logs)
qed

text \<open>
  C11: \<open>logDonationStatusChange\<close>. A successful write appends exactly one record,
  with action \<open>update_donation_status\<close> on the donation, severity \<open>medium\<close> for a
  change to \<open>rejected\<close> and \<open>low\<close> for every other status (\<open>recalled\<close> included); a
  failed write leaves the collection unchanged and prints one error line.
\<close>

theorem status_change_audit:
  "audit_logs (audit_step ok (Log_Donation_Status_Change uid did old new notes) req now st) =
     audit_logs st @ (if ok then [audit_record (status_change_entry uid did old new notes) req now] else []) \<and>
   al_action (audit_record (status_change_entry uid did old new notes) req now) = ''update_donation_status'' \<and>
   al_resourceId (audit_record (status_change_entry uid did old new notes) req now) = Some did \<and>
   al_severity (audit_record (status_change_entry uid did old new notes) req now) =
     (if new = ''rejected'' then Medium else Low) \<and>
   length (console_errors (audit_step ok (Log_Donation_Status_Change uid did old new notes) req now st)) =
     length (console_errors st) + (if ok then 0 else 1)"
  by (simp add: audit_step_logs audit_step_def audit_log_write_def audit_record_def status_change_entry_def)

text \<open>
  C29: \<open>getAuditLogs\<close> returns only stored records that match every given filter,
  newest first, and never more than the limit (a limit of 0 lets every matching record
  through).
\<close>

theorem get_audit_logs_sound:
  "set (get_audit_logs f limit offset ls) \<subseteq> {l \<in> set ls. audit_matches f l} \<and>
   sorted_wrt (\<lambda>a b. al_timestamp b \<le> al_timestamp a) (get_audit_logs f limit offset ls) \<and>
   length (get_audit_logs f limit offset ls) \<le>
     (if limit = 0 then length (filter (audit_matches f) ls) else limit)"
proof (intro conjI)
  show "set (get_audit_logs f limit offset ls) \<subseteq> {l \<in> set ls. audit_matches f l}"
    using set_mongo_limit by (fastforce simp add: get_audit_logs_def dest: in_set_dropD)
  show "sorted_wrt (\<lambda>a b. al_timestamp b \<le> al_timestamp a) (get_audit_logs f limit offset ls)"
    by (simp add: get_audit_logs_def sorted_wrt_mongo_limit sorted_wrt_drop sorted_newest_first)
  have "length (sort_newest_first (filter (audit_matches f) ls)) = length (filter (audit_matches f) ls)"
    by (metis mset_sort_newest_first size_mset)
  then show "length (get_audit_logs f limit offset ls) \<le>
     (if limit = 0 then length (filter (audit_matches f) ls) else limit)"
    by (simp add: get_audit_logs_def mongo_limit_def)
qed

text \<open>
  paging. With a positive limit, the page at \<open>offset\<close> followed by the page at
  \<open>offset + limit\<close> is the double page at \<open>offset\<close>: walking the offsets in steps of
  the limit lists every matching record once, with no gap and no repetition.
\<close>

theorem get_audit_logs_pages:
  assumes "0 < l"
  shows "get_audit_logs f l k ls @ get_audit_logs f l (k + l) ls = get_audit_logs f (2 * l) k ls"
  using assms by (simp add: get_audit_logs_def mongo_limit_take take_drop_pages)

theorem get_audit_logs_pages_witness:
  "(0::nat) < 1 \<and>
   get_audit_logs audit_no_filter 1 0 [audit_demo_log ''a'' 1, audit_demo_log ''b'' 3, audit_demo_log ''c'' 2]
   @ get_audit_logs audit_no_filter 1 1 [audit_demo_log ''a'' 1, audit_demo_log ''b'' 3, audit_demo_log ''c'' 2]
   = [audit_demo_log ''b'' 3, audit_demo_log ''c'' 2]"
proof -
  have "get_audit_logs audit_no_filter 1 0 [audit_demo_log ''a'' 1, audit_demo_log ''b'' 3, audit_demo_log ''c'' 2]
   @ get_audit_logs audit_no_filter 1 (0 + 1) [audit_demo_log ''a'' 1, audit_demo_log ''b'' 3, audit_demo_log ''c'' 2]
   = get_audit_logs audit_no_filter (2 * 1) 0 [audit_demo_log ''a'' 1, audit_demo_log ''b'' 3, audit_demo_log ''c'' 2]"
    by (rule get_audit_logs_pages) simp
  moreover have "get_audit_logs audit_no_filter (2 * 1) 0
     [audit_demo_log ''a'' 1, audit_demo_log ''b'' 3, audit_demo_log ''c'' 2]
     = [audit_demo_log ''b'' 3, audit_demo_log ''c'' 2]"
    by (simp add: get_audit_logs_def mongo_limit_def sort_newest_first_def audit_matches_def js_falsy_opt_def)
  ultimately show ?thesis by simp
qed

end
