(* ===== verification/Access_Control.thy ===== *)
theory Access_Control
  imports Prelude
begin

text \<open>
  Access control. The code has two layers: the page middleware of \<open>src/middleware.ts\<close>
  (next-auth's \<open>withAuth\<close> with an \<open>authorized\<close> callback, a \<open>matcher\<close> that decides
  which paths it runs on, and the security headers it sets on every response it lets
  through), and the checks each API handler makes on the session (modelled with the
  handlers). The spec's access matrix (section 4.5) is \<open>authorize\<close>, the abstract
  specification the handlers are compared with.
\<close>

subsection \<open>Roles and the spec's matrix\<close>

datatype role = Donor | Reviewer | Ngo_Partner | Admin | Volunteer_Applicant

fun role_string :: "role \<Rightarrow> string" where
  "role_string Donor = ''donor''"
| "role_string Reviewer = ''reviewer''"
| "role_string Ngo_Partner = ''ngo_partner''"
| "role_string Admin = ''admin''"
| "role_string Volunteer_Applicant = ''volunteer_applicant''"

definition role_of_string :: "string \<Rightarrow> role option" where
  "role_of_string s =
     find (\<lambda>r. role_string r = s) [Donor, Reviewer, Ngo_Partner, Admin, Volunteer_Applicant]"

datatype action =
    SubmitDonation | ViewOwnDonations | Verify | MarkCollected | MarkDistributed | Recall
  | BrowseInventory | Reserve | Release | QueryAuditLog

text \<open>The matrix of the spec; \<open>volunteer_applicant\<close> has no column in it.\<close>

fun authorize :: "role \<Rightarrow> action \<Rightarrow> bool" where
  "authorize Volunteer_Applicant _ = False"
| "authorize _ SubmitDonation = True"
| "authorize _ ViewOwnDonations = True"
| "authorize r Verify = (r = Reviewer \<or> r = Admin)"
| "authorize r MarkCollected = (r = Reviewer \<or> r = Admin)"
| "authorize r MarkDistributed = (r = Reviewer \<or> r = Admin)"
| "authorize r Recall = (r = Admin)"
| "authorize r BrowseInventory = (r = Ngo_Partner \<or> r = Admin)"
| "authorize r Reserve = (r = Ngo_Partner \<or> r = Admin)"
| "authorize r Release = (r = Ngo_Partner \<or> r = Admin)"
| "authorize r QueryAuditLog = (r = Admin)"

subsection \<open>The page middleware\<close>

text \<open>The next-auth JWT as the callback sees it: \<open>token?.role\<close>.\<close>

record auth_token =
  tok_role :: "string option"

definition authorized :: "auth_token option \<Rightarrow> string \<Rightarrow> bool" where
  "authorized token path =
     (if starts_with path ''/admin'' then
        (case token of None \<Rightarrow> False | Some t \<Rightarrow> tok_role t = Some ''admin'')
      else if starts_with path ''/dashboard'' then token \<noteq> None
      else True)"

text \<open>
  The matcher \<open>/((?!api|_next/static|_next/image|favicon.ico|robots.txt|sitemap.xml).*)\<close>
  (the two other patterns, \<open>/dashboard/:path*\<close> and \<open>/admin/:path*\<close>, are special
  cases of it). A pattern's \<open>.\<close> matches any character.
\<close>

fun pattern_prefix :: "string \<Rightarrow> string \<Rightarrow> bool" where
  "pattern_prefix [] s = True"
| "pattern_prefix (p # ps) [] = False"
| "pattern_prefix (p # ps) (c # cs) = ((p = CHR ''.'' \<or> p = c) \<and> pattern_prefix ps cs)"

definition matcher_excluded :: "string list" where
  "matcher_excluded = [''api'', ''_next/static'', ''_next/image'', ''favicon.ico'', ''robots.txt'',
     ''sitemap.xml'']"

definition matcher_applies :: "string \<Rightarrow> bool" where
  "matcher_applies path =
     (case path of
        [] \<Rightarrow> False
      | c # rest \<Rightarrow> c = CHR ''/'' \<and> \<not> list_ex (\<lambda>p. pattern_prefix p rest) matcher_excluded)"

definition csp_policy :: string where
  "csp_policy =
     ''default-src 'self'; script-src 'self' 'unsafe-eval' 'unsafe-inline' https://vercel.live https://va.vercel-scripts.com; style-src 'self' 'unsafe-inline' https://fonts.googleapis.com; img-src 'self' data: https: blob:; font-src 'self' https://fonts.gstatic.com; connect-src 'self' https://api.vercel.com https://*.vercel.app; frame-src 'self' https://vercel.live''"

text \<open>The headers \<open>middleware\<close> sets, in order, on the response of \<open>NextResponse.next()\<close>.\<close>

definition security_headers :: "(string, string) js_map" where
  "security_headers =
     fold (\<lambda>(k, v). js_map_set k v)
       [(''X-DNS-Prefetch-Control'', ''off''), (''X-Frame-Options'', ''DENY''),
        (''X-Content-Type-Options'', ''nosniff''), (''Referrer-Policy'', ''origin-when-cross-origin''),
        (''X-XSS-Protection'', ''1; mode=block''), (''Content-Security-Policy'', csp_policy),
        (''Strict-Transport-Security'', ''max-age=31536000; includeSubDomains'')] []"

text \<open>What a request meets: outside the matcher the middleware does not run; inside,
  \<open>withAuth\<close> sends a request the callback refuses to the sign-in page, and runs
  \<open>middleware\<close> on the others.\<close>

datatype mw_result = MW_Skipped | MW_Redirect_SignIn | MW_Next "(string, string) js_map"

definition middleware_run :: "auth_token option \<Rightarrow> string \<Rightarrow> mw_result" where
  "middleware_run token path =
     (if \<not> matcher_applies path then MW_Skipped
      else if \<not> authorized token path then MW_Redirect_SignIn
      else MW_Next security_headers)"

subsection \<open>Lemmas\<close>

lemma role_of_string_role_string [simp]: "role_of_string (role_string r) = Some r"
  by (cases r) (simp_all add: role_of_string_def)

lemma role_of_string_Some: "role_of_string s = Some r \<Longrightarrow> role_string r = s"
  unfolding role_of_string_def by (drule find_SomeD) simp

lemma starts_with_admin_not_api:
  "starts_with path ''/admin'' \<Longrightarrow> matcher_applies path"
  by (auto simp add: starts_with_iff matcher_applies_def matcher_excluded_def)


lemma matcher_applies_slash: "matcher_applies (CHR ''/'' # rest) \<longleftrightarrow>
    \<not> list_ex (\<lambda>p. pattern_prefix p rest) matcher_excluded"
  by (simp add: matcher_applies_def)

lemma pattern_prefix_append [simp]: "pattern_prefix p (p @ s)"
  by (induction p) auto

lemma map_of_security_headers:
  "map_of security_headers =
     [''Strict-Transport-Security'' \<mapsto> ''max-age=31536000; includeSubDomains'',
      ''Content-Security-Policy'' \<mapsto> csp_policy, ''X-XSS-Protection'' \<mapsto> ''1; mode=block'',
      ''Referrer-Policy'' \<mapsto> ''origin-when-cross-origin'', ''X-Content-Type-Options'' \<mapsto> ''nosniff'',
      ''X-Frame-Options'' \<mapsto> ''DENY'', ''X-DNS-Prefetch-Control'' \<mapsto> ''off'']"
  by (simp add: security_headers_def)

subsection \<open>Properties of the middleware\<close>

text \<open>
  C5: the admin area. A request for a page under \<open>/admin\<close> is let through exactly
  when it carries a token whose role is \<open>admin\<close>; every other request is sent to the
  sign-in page.
\<close>

theorem admin_pages_admin_only:
  assumes "starts_with path ''/admin''"
  shows "middleware_run token path =
           (if \<exists>t. token = Some t \<and> tok_role t = Some ''admin''
            then MW_Next security_headers else MW_Redirect_SignIn)"
  using assms starts_with_admin_not_api [OF assms]
  by (auto simp add: middleware_run_def authorized_def split: option.splits)

theorem admin_pages_admin_only_witness:
  "starts_with ''/admin/users'' ''/admin'' \<and>
   middleware_run (Some \<lparr>tok_role = Some ''ngo_partner''\<rparr>) ''/admin/users'' = MW_Redirect_SignIn \<and>
   middleware_run (Some \<lparr>tok_role = Some ''admin''\<rparr>) ''/admin/users'' = MW_Next security_headers"
proof -
  have h: "starts_with ''/admin/users'' ''/admin''"
    by (simp add: starts_with_def)
  show ?thesis
    using h admin_pages_admin_only [OF h, of "Some \<lparr>tok_role = Some ''ngo_partner''\<rparr>"]
      admin_pages_admin_only [OF h, of "Some \<lparr>tok_role = Some ''admin''\<rparr>"]
    by simp
qed

text \<open>
  the dashboard. A page under \<open>/dashboard\<close> is let through exactly when the
  request carries a token, whatever its role.
\<close>

theorem dashboard_requires_token:
  assumes "starts_with path ''/dashboard''"
  shows "middleware_run token path =
           (if token = None then MW_Redirect_SignIn else MW_Next security_headers)"
proof -
  from assms obtain rest where p: "path = ''/dashboard'' @ rest"
    by (auto simp add: starts_with_iff)
  then have "matcher_applies path" and "\<not> starts_with path ''/admin''"
    by (simp_all add: matcher_applies_def matcher_excluded_def starts_with_def)
  with assms show ?thesis
    by (simp add: middleware_run_def authorized_def)
qed

theorem dashboard_requires_token_witness:
  "starts_with ''/dashboard'' ''/dashboard'' \<and>
   middleware_run None ''/dashboard'' = MW_Redirect_SignIn"
proof -
  have h: "starts_with ''/dashboard'' ''/dashboard''"
    by (simp add: starts_with_def)
  show ?thesis
    using h dashboard_requires_token [OF h, of None] by simp
qed

text \<open>
  security headers. Every response the middleware lets through carries
  \<open>X-Frame-Options: DENY\<close>, \<open>X-Content-Type-Options: nosniff\<close>, the HSTS header and
  the content security policy.
\<close>

theorem middleware_security_headers:
  assumes "middleware_run token path = MW_Next h"
  shows "map_of h ''X-Frame-Options'' = Some ''DENY'' \<and>
         map_of h ''X-Content-Type-Options'' = Some ''nosniff'' \<and>
         map_of h ''Strict-Transport-Security'' = Some ''max-age=31536000; includeSubDomains'' \<and>
         map_of h ''Content-Security-Policy'' = Some csp_policy"
proof -
  from assms have "h = security_headers"
    by (simp add: middleware_run_def split: if_splits)
  then show ?thesis
    by (simp add: map_of_security_headers)
qed

theorem middleware_security_headers_witness:
  "middleware_run None ''/donate'' = MW_Next security_headers \<and>
   map_of security_headers ''X-Frame-Options'' = Some ''DENY''"
proof -
  have h: "middleware_run None ''/donate'' = MW_Next security_headers"
    by (simp add: middleware_run_def matcher_applies_def matcher_excluded_def authorized_def
        starts_with_def)
  show ?thesis
    using h middleware_security_headers [OF h] by simp
qed

text \<open>
  C30: the middleware never runs on API routes. Every path whose first segment starts
  with \<open>api\<close> (\<open>/api/...\<close>, but also a page \<open>/apidocs\<close>) is outside the matcher:
  no authorization callback, no security headers; the handlers' own session checks are
  the only protection.
\<close>

theorem api_paths_skip_middleware:
  assumes "starts_with rest ''api''"
  shows "middleware_run token (CHR ''/'' # rest) = MW_Skipped"
proof -
  from assms obtain r where "rest = ''api'' @ r"
    by (auto simp add: starts_with_iff)
  then show ?thesis
    by (simp add: middleware_run_def matcher_applies_def matcher_excluded_def)
qed

theorem api_paths_skip_middleware_witness:
  "starts_with ''apidocs'' ''api'' \<and>
   middleware_run None ''/apidocs'' = MW_Skipped"
proof -
  have h: "starts_with ''apidocs'' ''api''"
    by (simp add: starts_with_def)
  show ?thesis
    using h api_paths_skip_middleware [OF h, of None] by simp
qed

end
