(* ===== verification/Donation_Api.thy ===== *)
theory Donation_Api
  imports Donation_Model
begin

text \<open>
  The donor-facing API handlers: \<open>GET\<close> and \<open>POST\<close> of
  \<open>src/app/api/donations/route.ts\<close> (a donor's recent donations, a new donation) and
  \<open>POST\<close> of \<open>src/app/api/volunteer/route.ts\<close> (a volunteer application). Each handler
  takes the session, the outcome of \<open>dbConnect()\<close>, the request body and the collection
  it reads or writes, and returns its response with the new collection. Library
  functions the handlers only call are parameters: \<open>new Date(s)\<close> (\<open>parse_date\<close>) and
  \<open>JSON.parse\<close> (\<open>json_parse\<close>, \<open>None\<close> for a \<open>SyntaxError\<close>); \<open>Number.parseInt\<close>
  is modelled, since its result is stored.
\<close>

subsection \<open>Requests\<close>

datatype json = JNull | JBool bool | JNum int | JStr string | JArr "json list"
  | JObj "(string \<times> json) list"

type_synonym form_data = "(string \<times> string) list"

text \<open>A request body: multipart form data, JSON, or anything else.\<close>

datatype request_body = Form_Body form_data | Json_Body json | Raw_Body string

text \<open>\<open>await request.formData()\<close> rejects a body that is not form data.\<close>

definition request_form_data :: "request_body \<Rightarrow> form_data option" where
  "request_form_data b = (case b of Form_Body fd \<Rightarrow> Some fd | _ \<Rightarrow> None)"

text \<open>\<open>formData.get(k)\<close>: the first value under \<open>k\<close>, \<open>null\<close> when there is none.\<close>

definition form_get :: "form_data \<Rightarrow> string \<Rightarrow> string option" where
  "form_get fd k = map_of fd k"

subsection \<open>\<open>Number.parseInt\<close>\<close>

datatype js_number = JS_Int int | JS_NaN

definition js_whitespace :: "char \<Rightarrow> bool" where
  "js_whitespace c \<longleftrightarrow> c \<in> set [CHR '' '', CHR 0x09, CHR 0x0A, CHR 0x0B, CHR 0x0C, CHR 0x0D]"

definition digit_value :: "char \<Rightarrow> nat" where
  "digit_value c =
     (if c \<in> set ''0123456789'' then of_char c - of_char CHR ''0''
      else if c \<in> set ''abcdef'' then of_char c - of_char CHR ''a'' + 10
      else if c \<in> set ''ABCDEF'' then of_char c - of_char CHR ''A'' + 10
      else 36)"

definition radix_digit :: "nat \<Rightarrow> char \<Rightarrow> bool" where
  "radix_digit r c \<longleftrightarrow> digit_value c < r"

definition digits_to_nat :: "nat \<Rightarrow> string \<Rightarrow> nat" where
  "digits_to_nat r ds = foldl (\<lambda>acc c. acc * r + digit_value c) 0 ds"

text \<open>
  \<open>parseInt(s)\<close> without a radix: leading white space is skipped, then an optional sign,
  then a \<open>0x\<close>/\<open>0X\<close> prefix selects base 16 (base 10 otherwise); the longest prefix of
  digits is read, and no digit at all is \<open>NaN\<close>. \<open>parseInt(null)\<close> reads the string
  \<open>"null"\<close>, so it is \<open>NaN\<close>.
\<close>

definition js_parse_int :: "string \<Rightarrow> js_number" where
  "js_parse_int s =
     (let s1 = dropWhile js_whitespace s;
          (sg, s2) = (case s1 of
                        c # r \<Rightarrow> (if c = CHR ''-'' then (-1, r)
                                  else if c = CHR ''+'' then (1, r) else (1, s1))
                      | [] \<Rightarrow> (1, s1));
          (r, s3) = (if take 2 s2 = ''0x'' \<or> take 2 s2 = ''0X'' then (16, drop 2 s2) else (10, s2));
          ds = takeWhile (radix_digit r) s3
      in if ds = [] then JS_NaN else JS_Int (sg * int (digits_to_nat r ds)))"

definition js_parse_int_opt :: "string option \<Rightarrow> js_number" where
  "js_parse_int_opt a = js_parse_int (case a of None \<Rightarrow> ''null'' | Some s \<Rightarrow> s)"

subsection \<open>\<open>GET /api/donations\<close>\<close>

text \<open>
  \<open>Donation.find({userId: session.user.id}).sort({createdAt: -1}).limit(10)\<close>. Mongoose
  drops a filter key whose value is \<open>undefined\<close>, so without a user id the query has no
  filter; a user id that does not cast to an ObjectId makes the query reject.
\<close>

definition newest_first :: "donation list \<Rightarrow> donation list" where
  "newest_first ds = sort_key (\<lambda>d. - createdAt d) ds"

definition get_donations :: "session option \<Rightarrow> bool \<Rightarrow> donation list \<Rightarrow> donation list http_response" where
  "get_donations s db_ok coll =
     (case s of
        None \<Rightarrow> Http_Error 401 ''Unauthorized''
      | Some u \<Rightarrow>
          (if \<not> db_ok then Http_Error 500 ''Internal server error''
           else (case sess_user_id u of
                   None \<Rightarrow> Http_Ok (take 10 (newest_first coll))
                 | Some i \<Rightarrow>
                     (if is_object_id i
                      then Http_Ok (take 10 (newest_first (filter (\<lambda>d. userId d = i) coll)))
                      else Http_Error 500 ''Internal server error''))))"

subsection \<open>\<open>POST /api/donations\<close>\<close>

text \<open>The object built from the form (\<open>new Date(null)\<close> is the epoch).\<close>

definition donation_data_of :: "session \<Rightarrow> (string \<Rightarrow> time option) \<Rightarrow> form_data \<Rightarrow> donation_data" where
  "donation_data_of u parse_date fd =
     \<lparr>dd_userId = sess_user_id u, dd_medicineName = form_get fd ''medicineName'',
      dd_quantity = (case js_parse_int_opt (form_get fd ''quantity'') of JS_Int n \<Rightarrow> Some n | JS_NaN \<Rightarrow> None),
      dd_unit = form_get fd ''unit'',
      dd_expiryDate = (case form_get fd ''expiryDate'' of None \<Rightarrow> Some 0 | Some e \<Rightarrow> parse_date e),
      dd_batchNumber = form_get fd ''batchNumber'', dd_manufacturer = form_get fd ''manufacturer'',
      dd_description = form_get fd ''description'', dd_address = form_get fd ''address'',
      dd_phone = form_get fd ''phone'', dd_preferredTime = form_get fd ''preferredTime'',
      dd_status = ''pending'', dd_images = []\<rparr>"

text \<open>The new document's id \<open>i\<close> and the clock \<open>now\<close> are inputs; the response carries
  \<open>donationId\<close>.\<close>

definition post_donation ::
  "session option \<Rightarrow> bool \<Rightarrow> (string \<Rightarrow> time option) \<Rightarrow> request_body \<Rightarrow> oid \<Rightarrow> time \<Rightarrow>
   donation list \<Rightarrow> oid http_response \<times> donation list" where
  "post_donation s db_ok parse_date body i now coll =
     (case s of
        None \<Rightarrow> (Http_Error 401 ''Unauthorized'', coll)
      | Some u \<Rightarrow>
          (if \<not> db_ok then (Http_Error 500 ''Internal server error'', coll)
           else (case request_form_data body of
                   None \<Rightarrow> (Http_Error 500 ''Internal server error'', coll)
                 | Some fd \<Rightarrow>
                     (case new_donation i now (donation_data_of u parse_date fd) of
                        None \<Rightarrow> (Http_Error 500 ''Internal server error'', coll)
                      | Some d \<Rightarrow> (Http_Ok (donation_id d), coll @ [d])))))"

subsection \<open>\<open>POST /api/volunteer\<close>\<close>

record volunteer_application =
  va_firstName :: "string option"
  va_lastName :: "string option"
  va_email :: "string option"
  va_phone :: "string option"
  va_age :: "js_number option"
  va_address :: "string option"
  va_occupation :: "string option"
  va_experience :: "string option"
  va_qualifications :: "string option"
  va_roles :: json
  va_hoursPerWeek :: "js_number option"
  va_preferredDays :: "string option"
  va_motivation :: "string option"
  va_status :: string
  va_appliedAt :: time

text \<open>The user document (\<open>src/models/User\<close> is not among the sources; its fields are
  those of the spec's User).\<close>

record user =
  user_name :: string
  user_email :: string
  user_role :: string
  user_credits :: int
  user_volunteerApplication :: "volunteer_application option"

type_synonym users = "user_id \<rightharpoonup> user"

text \<open>\<open>x ? Number.parseInt(x) : null\<close> on a form field.\<close>

definition optional_int :: "string option \<Rightarrow> js_number option" where
  "optional_int a = (if js_falsy_opt a then None else Some (js_parse_int_opt a))"

text \<open>\<open>volunteerData\<close>; \<open>None\<close> when \<open>JSON.parse\<close> of the roles throws
  (\<open>JSON.parse(null)\<close> is \<open>null\<close>).\<close>

definition volunteer_data_of ::
  "(string \<Rightarrow> json option) \<Rightarrow> time \<Rightarrow> form_data \<Rightarrow> volunteer_application option" where
  "volunteer_data_of json_parse now fd =
     (case (case form_get fd ''roles'' of None \<Rightarrow> Some JNull | Some r \<Rightarrow> json_parse r) of
        None \<Rightarrow> None
      | Some roles \<Rightarrow> Some
          \<lparr>va_firstName = form_get fd ''firstName'', va_lastName = form_get fd ''lastName'',
           va_email = form_get fd ''email'', va_phone = form_get fd ''phone'',
           va_age = optional_int (form_get fd ''age''), va_address = form_get fd ''address'',
           va_occupation = form_get fd ''occupation'', va_experience = form_get fd ''experience'',
           va_qualifications = form_get fd ''qualifications'', va_roles = roles,
           va_hoursPerWeek = optional_int (form_get fd ''hoursPerWeek''),
           va_preferredDays = form_get fd ''preferredDays'', va_motivation = form_get fd ''motivation'',
           va_status = ''pending'', va_appliedAt = now\<rparr>)"

text \<open>
  \<open>User.findByIdAndUpdate(session.user.id, {$set: ...})\<close>: the \<open>$set\<close> of the
  application and the role on the user with that id; no document matches an unknown id;
  an id that does not cast to an ObjectId makes the call reject. An undefined id is
  dropped from the filter, as in \<open>GET /api/donations\<close>, so the update goes to the first
  user of the collection in its natural order, \<open>first\<close> (what \<open>findOne({})\<close> returns).
\<close>

definition set_volunteer_application :: "volunteer_application \<Rightarrow> user_id \<Rightarrow> users \<Rightarrow> users" where
  "set_volunteer_application va i us =
     (case us i of
        None \<Rightarrow> us
      | Some usr \<Rightarrow> us(i \<mapsto> usr\<lparr>user_volunteerApplication := Some va, user_role := ''volunteer_applicant''\<rparr>))"

definition post_volunteer ::
  "session option \<Rightarrow> bool \<Rightarrow> (string \<Rightarrow> json option) \<Rightarrow> request_body \<Rightarrow> time \<Rightarrow> user_id option \<Rightarrow>
   users \<Rightarrow> string http_response \<times> users" where
  "post_volunteer s db_ok json_parse body now first us =
     (case s of
        None \<Rightarrow> (Http_Error 401 ''Unauthorized'', us)
      | Some u \<Rightarrow>
          (if \<not> db_ok then (Http_Error 500 ''Internal server error'', us)
           else (case request_form_data body of
                   None \<Rightarrow> (Http_Error 500 ''Internal server error'', us)
                 | Some fd \<Rightarrow>
                     (case volunteer_data_of json_parse now fd of
                        None \<Rightarrow> (Http_Error 500 ''Internal server error'', us)
                      | Some va \<Rightarrow>
                          (case sess_user_id u of
                             None \<Rightarrow>
                               (Http_Ok ''Volunteer application submitted successfully'',
                                (case first of None \<Rightarrow> us | Some j \<Rightarrow> set_volunteer_application va j us))
                           | Some i \<Rightarrow>
                               (if \<not> is_object_id i then (Http_Error 500 ''Internal server error'', us)
                                else (Http_Ok ''Volunteer application submitted successfully'',
                                      set_volunteer_application va i us)))))))"

subsection \<open>Sample inputs\<close>

abbreviation api_demo_session :: session where
  "api_demo_session \<equiv> \<lparr>sess_user_id = Some ''65a1f0c2e4b0a1b2c3d4e5f6'', sess_role = Some ''donor'',
     sess_name = Some ''Asha'', sess_email = Some ''asha@example.com''\<rparr>"

abbreviation api_demo_form :: form_data where
  "api_demo_form \<equiv> [(''medicineName'', ''Amoxicillin''), (''quantity'', ''30''), (''unit'', ''tablets''),
     (''expiryDate'', ''2027-06-30''), (''address'', ''12 MG Road, Pune''), (''phone'', ''9876543210'')]"

abbreviation api_demo_donation :: donation where
  "api_demo_donation \<equiv> \<lparr>donation_id = ''65a1f0c2e4b0a1b2c3d4e5f8'', userId = ''65a1f0c2e4b0a1b2c3d4e5f9'',
     medicines = [], status = Pending, pickupAddress = None, pickupDate = None,
     verificationNotes = None, verifiedBy = None, creditsEarned = 0, isReserved = Some False,
     createdAt = 10, updatedAt = 10\<rparr>"

subsection \<open>Lemmas\<close>

lemma js_parse_int_examples:
  "js_parse_int ''  42abc'' = JS_Int 42" "js_parse_int ''-0x1F'' = JS_Int (-31)"
  "js_parse_int ''abc'' = JS_NaN" "js_parse_int_opt None = JS_NaN"
  by (simp_all add: js_parse_int_def js_parse_int_opt_def js_whitespace_def radix_digit_def
      digit_value_def digits_to_nat_def)

lemma sorted_newest_created:
  "sorted_wrt (\<lambda>a b. createdAt b \<le> createdAt a) (newest_first ds)"
proof -
  have "sorted (map (\<lambda>d. - createdAt d) (sort_key (\<lambda>d. - createdAt d) ds))"
    by (rule sorted_sort_key)
  then show ?thesis
    by (simp add: newest_first_def sorted_map sorted_wrt_iff_nth_less)
qed

lemma mset_newest_first [simp]: "mset (newest_first ds) = mset ds"
  by (simp add: newest_first_def)

lemma set_newest_first [simp]: "set (newest_first ds) = set ds"
  by (simp add: newest_first_def)

lemma length_newest_first [simp]: "length (newest_first ds) = length ds"
  by (simp add: newest_first_def)

lemma post_donation_Ok:
  "post_donation s db_ok pd body i now coll = (Http_Ok r, coll') \<longleftrightarrow>
     (\<exists>u fd d. s = Some u \<and> db_ok \<and> request_form_data body = Some fd \<and>
        new_donation i now (donation_data_of u pd fd) = Some d \<and> r = donation_id d \<and> coll' = coll @ [d])"
  by (auto simp add: post_donation_def split: option.splits)

subsection \<open>Properties of the handlers\<close>

text \<open>
  C6: what \<open>POST /api/donations\<close> stores. A successful submission appends exactly one
  donation, owned by the session's user, \<open>pending\<close>, with no credits and no
  reservation, and with no medicines and no pickup address, whatever the form contained:
  the handler builds a flat object (\<open>medicineName\<close>, \<open>quantity\<close>, \<open>expiryDate\<close>,
  \<open>address\<close>, ...) whose keys the schema does not declare, and Mongoose drops them.
\<close>

theorem post_donation_discards_form:
  assumes "post_donation s db_ok pd body i now coll = (Http_Ok r, coll')"
  shows "\<exists>u d. s = Some u \<and> coll' = coll @ [d] \<and> r = i \<and> donation_id d = i \<and>
           sess_user_id u = Some (userId d) \<and> status d = Pending \<and> medicines d = [] \<and>
           pickupAddress d = None \<and> creditsEarned d = 0 \<and> isReserved d = Some False \<and>
           createdAt d = now"
  using assms
  by (auto simp add: post_donation_Ok new_donation_Some_iff donation_data_of_def status_of_string_def
      status_enum_def)

theorem post_donation_discards_form_witness:
  "post_donation (Some api_demo_session) True (\<lambda>_. Some 1814400000000) (Form_Body api_demo_form)
      ''65a1f0c2e4b0a1b2c3d4e5f7'' 1700000000000 []
     = (Http_Ok ''65a1f0c2e4b0a1b2c3d4e5f7'',
        [\<lparr>donation_id = ''65a1f0c2e4b0a1b2c3d4e5f7'', userId = ''65a1f0c2e4b0a1b2c3d4e5f6'',
          medicines = [], status = Pending, pickupAddress = None, pickupDate = None,
          verificationNotes = None, verifiedBy = None, creditsEarned = 0, isReserved = Some False,
          createdAt = 1700000000000, updatedAt = 1700000000000\<rparr>]) \<and>
   medicines (hd (snd (post_donation (Some api_demo_session) True (\<lambda>_. Some 1814400000000)
      (Form_Body api_demo_form) ''65a1f0c2e4b0a1b2c3d4e5f7'' 1700000000000 []))) = []"
proof -
  have eq: "post_donation (Some api_demo_session) True (\<lambda>_. Some 1814400000000) (Form_Body api_demo_form)
      ''65a1f0c2e4b0a1b2c3d4e5f7'' 1700000000000 []
     = (Http_Ok ''65a1f0c2e4b0a1b2c3d4e5f7'',
        [\<lparr>donation_id = ''65a1f0c2e4b0a1b2c3d4e5f7'', userId = ''65a1f0c2e4b0a1b2c3d4e5f6'',
          medicines = [], status = Pending, pickupAddress = None, pickupDate = None,
          verificationNotes = None, verifiedBy = None, creditsEarned = 0, isReserved = Some False,
          createdAt = 1700000000000, updatedAt = 1700000000000\<rparr>])"
    by (simp add: post_donation_def request_form_data_def new_donation_def donation_data_of_def
        is_object_id_def is_hex_digit_def status_of_string_def status_enum_def)
  have "\<exists>u d. Some api_demo_session = Some u \<and> [\<lparr>donation_id = ''65a1f0c2e4b0a1b2c3d4e5f7'',
          userId = ''65a1f0c2e4b0a1b2c3d4e5f6'',
          medicines = [], status = Pending, pickupAddress = None, pickupDate = None,
          verificationNotes = None, verifiedBy = None, creditsEarned = 0, isReserved = Some False,
          createdAt = 1700000000000, updatedAt = 1700000000000\<rparr>] = [] @ [d] \<and> medicines d = []"
    using post_donation_discards_form [OF eq] by blast
  with eq show ?thesis by simp
qed

text \<open>
  \<open>GET /api/donations\<close> for a session with a user id: the response lists only
  that user's donations, newest first, and exactly the \<open>min 10 n\<close> newest of the
  user's \<open>n\<close> donations.
\<close>

theorem get_donations_own_newest_first:
  assumes "sess_user_id u = Some i" and "get_donations (Some u) True coll = Http_Ok ds"
  shows "set ds \<subseteq> {d \<in> set coll. userId d = i} \<and>
         sorted_wrt (\<lambda>a b. createdAt b \<le> createdAt a) ds \<and>
         length ds = min 10 (length (filter (\<lambda>d. userId d = i) coll))"
proof -
  from assms have ds: "ds = take 10 (newest_first (filter (\<lambda>d. userId d = i) coll))"
    by (simp add: get_donations_def split: if_splits)
  then show ?thesis
    by (auto simp add: sorted_wrt_take sorted_newest_created dest: in_set_takeD)
qed

theorem get_donations_own_newest_first_witness:
  "sess_user_id api_demo_session = Some ''65a1f0c2e4b0a1b2c3d4e5f6'' \<and>
   get_donations (Some api_demo_session) True [] = Http_Ok [] \<and>
   length ([] :: donation list) = min 10 (length (filter (\<lambda>d. userId d = ''65a1f0c2e4b0a1b2c3d4e5f6'') []))"
proof -
  have h: "sess_user_id api_demo_session = Some ''65a1f0c2e4b0a1b2c3d4e5f6''"
    "get_donations (Some api_demo_session) True [] = Http_Ok []"
    by (simp_all add: get_donations_def is_object_id_def is_hex_digit_def newest_first_def)
  show ?thesis
    using h get_donations_own_newest_first [OF h] by simp
qed

text \<open>
  C9: without a user id in the session, \<open>GET /api/donations\<close> answers with the ten
  newest donations of all users: the filter \<open>{userId: undefined}\<close> selects everything.
\<close>

theorem get_donations_without_user_id:
  assumes "sess_user_id u = None"
  shows "get_donations (Some u) True coll = Http_Ok (take 10 (newest_first coll))"
  using assms by (simp add: get_donations_def)

theorem get_donations_without_user_id_witness:
  "sess_user_id (api_demo_session\<lparr>sess_user_id := None\<rparr>) = None \<and>
   get_donations (Some (api_demo_session\<lparr>sess_user_id := None\<rparr>)) True [api_demo_donation]
     = Http_Ok [api_demo_donation]"
proof -
  have "get_donations (Some (api_demo_session\<lparr>sess_user_id := None\<rparr>)) True [api_demo_donation]
     = Http_Ok (take 10 (newest_first [api_demo_donation]))"
    by (rule get_donations_without_user_id) simp
  then show ?thesis
    by (simp add: newest_first_def)
qed

text \<open>
  C32: a volunteer application accepted by \<open>POST /api/volunteer\<close> sets the applicant's
  role to \<open>volunteer_applicant\<close>, whatever it was before (an admin or an NGO partner
  who applies loses that role), and records the application; no other user changes. A
  session whose user is not in the collection still gets the success message, and
  nothing changes.
\<close>

theorem post_volunteer_sets_role:
  assumes "post_volunteer (Some u) True jp body now first us = (Http_Ok msg, us')"
    and "sess_user_id u = Some i"
  shows "(\<forall>j. j \<noteq> i \<longrightarrow> us' j = us j) \<and>
         (case us i of
            None \<Rightarrow> us' i = None
          | Some usr \<Rightarrow> (\<exists>va. us' i = Some (usr\<lparr>user_volunteerApplication := Some va,
                                              user_role := ''volunteer_applicant''\<rparr>)))"
  using assms by (auto simp add: post_volunteer_def set_volunteer_application_def split: option.splits if_splits)

theorem post_volunteer_sets_role_witness:
  "post_volunteer (Some (api_demo_session\<lparr>sess_role := Some ''admin''\<rparr>)) True (\<lambda>_. Some (JArr [JStr ''pickup'']))
      (Form_Body [(''firstName'', ''Asha''), (''roles'', ''[\"pickup\"]'')]) 5 None
      [''65a1f0c2e4b0a1b2c3d4e5f6'' \<mapsto> \<lparr>user_name = ''Asha'', user_email = ''asha@example.com'',
         user_role = ''admin'', user_credits = 0, user_volunteerApplication = None\<rparr>]
   = (Http_Ok ''Volunteer application submitted successfully'',
      [''65a1f0c2e4b0a1b2c3d4e5f6'' \<mapsto> \<lparr>user_name = ''Asha'', user_email = ''asha@example.com'',
         user_role = ''volunteer_applicant'', user_credits = 0,
         user_volunteerApplication = (volunteer_data_of (\<lambda>_. Some (JArr [JStr ''pickup''])) 5
            [(''firstName'', ''Asha''), (''roles'', ''[\"pickup\"]'')])\<rparr>]) \<and>
   sess_user_id (api_demo_session\<lparr>sess_role := Some ''admin''\<rparr>) = Some ''65a1f0c2e4b0a1b2c3d4e5f6''"
proof -
  let ?us = "[''65a1f0c2e4b0a1b2c3d4e5f6'' \<mapsto> \<lparr>user_name = ''Asha'', user_email = ''asha@example.com'',
         user_role = ''admin'', user_credits = 0, user_volunteerApplication = None\<rparr>]"
  have eq: "post_volunteer (Some (api_demo_session\<lparr>sess_role := Some ''admin''\<rparr>)) True
      (\<lambda>_. Some (JArr [JStr ''pickup'']))
      (Form_Body [(''firstName'', ''Asha''), (''roles'', ''[\"pickup\"]'')]) 5 None ?us
   = (Http_Ok ''Volunteer application submitted successfully'',
      ?us(''65a1f0c2e4b0a1b2c3d4e5f6'' \<mapsto> \<lparr>user_name = ''Asha'', user_email = ''asha@example.com'',
         user_role = ''volunteer_applicant'', user_credits = 0,
         user_volunteerApplication = (volunteer_data_of (\<lambda>_. Some (JArr [JStr ''pickup''])) 5
            [(''firstName'', ''Asha''), (''roles'', ''[\"pickup\"]'')])\<rparr>))"
    by (simp add: post_volunteer_def set_volunteer_application_def request_form_data_def volunteer_data_of_def
        form_get_def is_object_id_def is_hex_digit_def)
  have "\<forall>j. j \<noteq> ''65a1f0c2e4b0a1b2c3d4e5f6'' \<longrightarrow>
      (?us(''65a1f0c2e4b0a1b2c3d4e5f6'' \<mapsto> \<lparr>user_name = ''Asha'', user_email = ''asha@example.com'',
         user_role = ''volunteer_applicant'', user_credits = 0,
         user_volunteerApplication = (volunteer_data_of (\<lambda>_. Some (JArr [JStr ''pickup''])) 5
            [(''firstName'', ''Asha''), (''roles'', ''[\"pickup\"]'')])\<rparr>)) j = ?us j"
    using post_volunteer_sets_role [OF eq] by simp
  with eq show ?thesis by simp
qed

text \<open>
  C10: \<open>POST /api/volunteer\<close> with a session that carries no user id rewrites another
  user. The application is accepted, and the first user of the collection, whoever it
  is (an admin included), gets the application and the role \<open>volunteer_applicant\<close>.
\<close>

theorem post_volunteer_without_user_id:
  assumes "sess_user_id u = None" and "us j = Some usr"
    and "post_volunteer (Some u) True jp body now (Some j) us = (Http_Ok msg, us')"
  shows "\<exists>va. us' = us(j \<mapsto> usr\<lparr>user_volunteerApplication := Some va, user_role := ''volunteer_applicant''\<rparr>)"
  using assms by (auto simp add: post_volunteer_def set_volunteer_application_def split: option.splits if_splits)

theorem post_volunteer_without_user_id_witness:
  "sess_user_id (api_demo_session\<lparr>sess_user_id := None\<rparr>) = None \<and>
   [''65a1f0c2e4b0a1b2c3d4e5f0'' \<mapsto> \<lparr>user_name = ''Root'', user_email = ''admin@vitamend.com'', user_role = ''admin'',
      user_credits = 1000, user_volunteerApplication = None\<rparr>] ''65a1f0c2e4b0a1b2c3d4e5f0'' \<noteq> None \<and>
   map_option user_role
     ((snd (post_volunteer (Some (api_demo_session\<lparr>sess_user_id := None\<rparr>)) True (\<lambda>_. Some (JArr [JStr ''pickup'']))
        (Form_Body [(''roles'', ''[\"pickup\"]'')]) 5 (Some ''65a1f0c2e4b0a1b2c3d4e5f0'')
        [''65a1f0c2e4b0a1b2c3d4e5f0'' \<mapsto> \<lparr>user_name = ''Root'', user_email = ''admin@vitamend.com'',
           user_role = ''admin'', user_credits = 1000, user_volunteerApplication = None\<rparr>]))
      ''65a1f0c2e4b0a1b2c3d4e5f0'') = Some ''volunteer_applicant''"
proof -
  let ?u = "\<lparr>user_name = ''Root'', user_email = ''admin@vitamend.com'', user_role = ''admin'',
      user_credits = 1000, user_volunteerApplication = None\<rparr>"
  let ?us = "[''65a1f0c2e4b0a1b2c3d4e5f0'' \<mapsto> ?u]"
  let ?r = "post_volunteer (Some (api_demo_session\<lparr>sess_user_id := None\<rparr>)) True (\<lambda>_. Some (JArr [JStr ''pickup'']))
        (Form_Body [(''roles'', ''[\"pickup\"]'')]) 5 (Some ''65a1f0c2e4b0a1b2c3d4e5f0'') ?us"
  have eq: "?r = (Http_Ok ''Volunteer application submitted successfully'', snd ?r)"
    by (simp add: post_volunteer_def request_form_data_def volunteer_data_of_def form_get_def)
  from post_volunteer_without_user_id [of "api_demo_session\<lparr>sess_user_id := None\<rparr>" ?us
      "''65a1f0c2e4b0a1b2c3d4e5f0''" ?u, OF _ _ eq]
  obtain va where "snd ?r = ?us(''65a1f0c2e4b0a1b2c3d4e5f0'' \<mapsto>
      ?u\<lparr>user_volunteerApplication := Some va, user_role := ''volunteer_applicant''\<rparr>)"
    by auto
  then show ?thesis by simp
qed

end
