(* ===== verification/Lifecycle.thy ===== *)
theory Lifecycle
  imports Donation_Model Audit_Log Access_Control
begin

text \<open>
  The donation lifecycle engine and the reservation coordinator of the spec (sections 4.1,
  4.2 and 5). No code for them is among the sources: they are modelled from the spec, on
  top of what is modelled from the code: the donation document of
  \<open>src/models/Donation.ts\<close> (extended here by the two reservation fields of the spec),
  the audit service of \<open>src/lib/audit-service.ts\<close>, through which every transition is
  recorded, and the spec's role matrix.

  The store is the \<open>donations\<close> collection, a list in insertion order; every operation
  is one conditional update of one document (the store's atomic primitive), so a run of
  the system, whatever the interleaving of requests from several processes, is a sequence
  of operations applied one at a time. Each operation carries the clock of its request.
\<close>

record lc_donation = donation +
  reservedBy :: "user_id option"
  reservedAt :: "time option"

datatype lc_error = ValidationError | Unauthorized | NotFound | InvalidTransition
  | AlreadyReserved | ReservationConflict | Conflict

datatype decision = Approve | Reject string

text \<open>What a submission carries: the line items and the pickup address.\<close>

record submission =
  sub_medicines :: "medicine list"
  sub_pickupAddress :: "string option"

datatype lc_op =
    Submit user_id role oid submission
  | Verify_Op user_id role oid decision
  | Mark_Collected user_id role oid time "user_id option"
  | Mark_Distributed user_id role oid
  | Recall_Op user_id role oid string
  | Reserve_Op user_id role oid
  | Release_Op user_id role oid
  | Sweep time
  | Audit_Store bool

datatype lc_outcome = Done | Created oid | Failed lc_error

record lc_state =
  lc_donations :: "lc_donation list"
  lc_credits :: "user_id \<Rightarrow> int"
  lc_audit :: audit_state
  lc_audit_up :: bool

subsection \<open>Parameters\<close>

text \<open>\<open>CAP_PER_ITEM\<close> of the credit formula, and the shelf-life margin of six months
  (in milliseconds, six months of 30.44 days).\<close>

definition cap_per_item :: int where
  "cap_per_item = 100"

definition shelf_life_margin :: time where
  "shelf_life_margin = 15778800000"

subsection \<open>The state machine\<close>

text \<open>The allowed transitions of the spec's diagram.\<close>

fun allowed_transition :: "status \<Rightarrow> status \<Rightarrow> bool" where
  "allowed_transition Pending Verified = True"
| "allowed_transition Pending Rejected = True"
| "allowed_transition Verified Collected = True"
| "allowed_transition Collected Distributed = True"
| "allowed_transition Verified Recalled = True"
| "allowed_transition Collected Recalled = True"
| "allowed_transition Distributed Recalled = True"
| "allowed_transition _ _ = False"

definition credits_for :: "medicine list \<Rightarrow> int" where
  "credits_for ms = sum_list (map (\<lambda>m. min (quantity m) cap_per_item) ms)"

definition valid_submission :: "time \<Rightarrow> submission \<Rightarrow> bool" where
  "valid_submission now p \<longleftrightarrow>
     \<not> js_falsy_opt (sub_pickupAddress p) \<and>
     list_all (\<lambda>m. 1 \<le> quantity m \<and> now + shelf_life_margin \<le> expiryDate m) (sub_medicines p)"

subsection \<open>The store\<close>

definition find_donation :: "oid \<Rightarrow> lc_state \<Rightarrow> lc_donation option" where
  "find_donation i st = find (\<lambda>d. donation_id d = i) (lc_donations st)"

definition update_donation :: "oid \<Rightarrow> (lc_donation \<Rightarrow> lc_donation) \<Rightarrow> lc_state \<Rightarrow> lc_state" where
  "update_donation i f st =
     st\<lparr>lc_donations := map (\<lambda>d. if donation_id d = i then f d else d) (lc_donations st)\<rparr>"

definition add_credits :: "user_id \<Rightarrow> int \<Rightarrow> lc_state \<Rightarrow> lc_state" where
  "add_credits u c st = st\<lparr>lc_credits := (lc_credits st)(u := lc_credits st u + c)\<rparr>"

text \<open>Writing an audit record (spec, section 4.4): the write goes through the audit
  service's \<open>log\<close>, which succeeds when the audit store is available and otherwise only
  reports the failure locally; the operation that writes it commits either way.\<close>

definition audit :: "audit_call \<Rightarrow> time \<Rightarrow> lc_state \<Rightarrow> lc_state" where
  "audit c now st = st\<lparr>lc_audit := audit_step (lc_audit_up st) c None now (lc_audit st)\<rparr>"

definition audit_status :: "user_id \<Rightarrow> lc_donation \<Rightarrow> status \<Rightarrow> string option \<Rightarrow> time \<Rightarrow> lc_state \<Rightarrow> lc_state" where
  "audit_status actor d new notes now =
     audit (Log_Donation_Status_Change actor (donation_id d) (status_string (status d))
              (status_string new) notes) now"

text \<open>A denied request is audited at severity \<open>critical\<close> (spec, section 4.5).\<close>

definition deny :: "user_id \<Rightarrow> string \<Rightarrow> oid \<Rightarrow> time \<Rightarrow> lc_state \<Rightarrow> lc_outcome \<times> lc_state" where
  "deny actor act i now st =
     (Failed Unauthorized,
      audit (Log \<lparr>ae_userId = actor, ae_action = act, ae_resource = ''donation'', ae_resourceId = Some i,
                  ae_details = [], ae_severity = Some Critical\<rparr>) now st)"

definition clear_reservation :: "lc_donation \<Rightarrow> lc_donation" where
  "clear_reservation d = d\<lparr>isReserved := Some False, reservedBy := None, reservedAt := None\<rparr>"


definition new_lc_donation :: "user_id \<Rightarrow> oid \<Rightarrow> submission \<Rightarrow> time \<Rightarrow> lc_donation" where
  "new_lc_donation donor i p now =
     \<lparr>donation_id = i, userId = donor, medicines = sub_medicines p, status = Pending,
      pickupAddress = sub_pickupAddress p, pickupDate = None, verificationNotes = None,
      verifiedBy = None, creditsEarned = 0, isReserved = Some False, createdAt = now,
      updatedAt = now, reservedBy = None, reservedAt = None\<rparr>"

text \<open>The reservation sweep's predicate \<open>{isReserved: true, reservedAt < now - TTL}\<close>.\<close>

definition reservation_expired :: "time \<Rightarrow> time \<Rightarrow> lc_donation \<Rightarrow> bool" where
  "reservation_expired ttl now d \<longleftrightarrow>
     isReserved d = Some True \<and> (case reservedAt d of None \<Rightarrow> False | Some t \<Rightarrow> t < now - ttl)"

definition expiry_entry :: "lc_donation \<Rightarrow> audit_call" where
  "expiry_entry d =
     Log \<lparr>ae_userId = ''system'', ae_action = ''expire_reservation'', ae_resource = ''donation'',
          ae_resourceId = Some (donation_id d), ae_details = [], ae_severity = Some Medium\<rparr>"

subsection \<open>Operations\<close>

text \<open>
  One equation per operation of the spec. The checks come in the order authorization,
  existence, state, arguments; every change of a donation's status writes its audit
  record in the same step, and the coordinator's two operations are the conditional
  writes of section 4.2 (a write whose predicate fails modifies nothing).
\<close>

fun lc_step :: "lc_op \<Rightarrow> time \<Rightarrow> lc_state \<Rightarrow> lc_outcome \<times> lc_state" where
  "lc_step (Submit donor r i p) now st =
     (if \<not> authorize r SubmitDonation then deny donor ''submitDonation'' i now st
      else if \<not> valid_submission now p then (Failed ValidationError, st)
      else if find_donation i st \<noteq> None then (Failed Conflict, st)
      else (Created i,
            audit (Log_User_Action donor ''create_donation'' ''donation'' [(''donationId'', Some i)]) now
              (st\<lparr>lc_donations := lc_donations st @ [new_lc_donation donor i p now]\<rparr>)))"
| "lc_step (Verify_Op rv r i dec) now st =
     (if \<not> authorize r Verify then deny rv ''verify'' i now st
      else (case find_donation i st of
              None \<Rightarrow> (Failed NotFound, st)
            | Some d \<Rightarrow>
                (if status d \<noteq> Pending then (Failed InvalidTransition, st)
                 else (case dec of
                         Approve \<Rightarrow>
                           (Done, audit_status rv d Verified None now
                              (add_credits (userId d) (credits_for (medicines d))
                                 (update_donation i (\<lambda>x. x\<lparr>status := Verified, verifiedBy := Some rv,
                                    creditsEarned := credits_for (medicines d), updatedAt := now\<rparr>) st)))
                       | Reject notes \<Rightarrow>
                           (if notes = [] then (Failed ValidationError, st)
                            else (Done, audit_status rv d Rejected (Some notes) now
                                   (update_donation i (\<lambda>x. x\<lparr>status := Rejected, verifiedBy := Some rv,
                                      verificationNotes := Some notes, updatedAt := now\<rparr>) st)))))))"
| "lc_step (Mark_Collected a r i pd collector) now st =
     (if \<not> authorize r MarkCollected then deny a ''markCollected'' i now st
      else (case find_donation i st of
              None \<Rightarrow> (Failed NotFound, st)
            | Some d \<Rightarrow>
                (if status d \<noteq> Verified then (Failed InvalidTransition, st)
                 else if pd < now then (Failed ValidationError, st)
                 else if isReserved d = Some True \<and> reservedBy d \<noteq> collector
                 then (Failed ReservationConflict, st)
                 else (Done, audit_status a d Collected None now
                        (update_donation i (\<lambda>x. (clear_reservation x)\<lparr>status := Collected,
                           pickupDate := Some pd, updatedAt := now\<rparr>) st)))))"
| "lc_step (Mark_Distributed a r i) now st =
     (if \<not> authorize r MarkDistributed then deny a ''markDistributed'' i now st
      else (case find_donation i st of
              None \<Rightarrow> (Failed NotFound, st)
            | Some d \<Rightarrow>
                (if status d \<noteq> Collected then (Failed InvalidTransition, st)
                 else (Done, audit_status a d Distributed None now
                        (update_donation i (\<lambda>x. x\<lparr>status := Distributed, updatedAt := now\<rparr>) st)))))"
| "lc_step (Recall_Op a r i reason) now st =
     (if \<not> authorize r Recall then deny a ''recall'' i now st
      else (case find_donation i st of
              None \<Rightarrow> (Failed NotFound, st)
            | Some d \<Rightarrow>
                (if status d \<notin> {Verified, Collected, Distributed} then (Failed InvalidTransition, st)
                 else (Done, audit (Log_Admin_Action a ''recall_donation'' ''donation'' i [(''reason'', Some reason)]) now
                        (audit_status a d Recalled (Some reason) now
                          (update_donation i (\<lambda>x. (clear_reservation x)\<lparr>status := Recalled,
                             updatedAt := now\<rparr>) st))))))"
| "lc_step (Reserve_Op ngo r i) now st =
     (if \<not> authorize r Reserve then deny ngo ''reserve'' i now st
      else (case find_donation i st of
              Some d \<Rightarrow>
                (if status d = Verified \<and> isReserved d \<noteq> Some True
                 then (Done, audit (Log_User_Action ngo ''reserve_donation'' ''donation'' [(''donationId'', Some i)]) now
                        (update_donation i (\<lambda>x. x\<lparr>isReserved := Some True, reservedBy := Some ngo,
                           reservedAt := Some now, updatedAt := now\<rparr>) st))
                 else (Failed AlreadyReserved, st))
            | None \<Rightarrow> (Failed AlreadyReserved, st)))"
| "lc_step (Release_Op ngo r i) now st =
     (if \<not> authorize r Release then deny ngo ''release'' i now st
      else (case find_donation i st of
              Some d \<Rightarrow>
                (if isReserved d = Some True \<and> reservedBy d = Some ngo
                 then (Done, audit (Log_User_Action ngo ''release_reservation'' ''donation'' [(''donationId'', Some i)]) now
                        (update_donation i (\<lambda>x. (clear_reservation x)\<lparr>updatedAt := now\<rparr>) st))
                 else (Failed ReservationConflict, st))
            | None \<Rightarrow> (Failed ReservationConflict, st)))"
| "lc_step (Sweep ttl) now st =
     (Done, fold (\<lambda>d. audit (expiry_entry d) now) (filter (reservation_expired ttl now) (lc_donations st))
              (st\<lparr>lc_donations := map (\<lambda>d. if reservation_expired ttl now d
                                            then (clear_reservation d)\<lparr>updatedAt := now\<rparr> else d)
                                     (lc_donations st)\<rparr>))"
| "lc_step (Audit_Store up) now st = (Done, st\<lparr>lc_audit_up := up\<rparr>)"

text \<open>The role and the action of the matrix a request is checked against; the sweep is
  the system's own job and the availability of the audit store an event of the
  environment, and neither is checked.\<close>

fun op_auth :: "lc_op \<Rightarrow> (role \<times> action) option" where
  "op_auth (Submit _ r _ _) = Some (r, SubmitDonation)"
| "op_auth (Verify_Op _ r _ _) = Some (r, Verify)"
| "op_auth (Mark_Collected _ r _ _ _) = Some (r, MarkCollected)"
| "op_auth (Mark_Distributed _ r _) = Some (r, MarkDistributed)"
| "op_auth (Recall_Op _ r _ _) = Some (r, Recall)"
| "op_auth (Reserve_Op _ r _) = Some (r, Reserve)"
| "op_auth (Release_Op _ r _) = Some (r, Release)"
| "op_auth (Sweep _) = None"
| "op_auth (Audit_Store _) = None"

fun lc_run :: "(lc_op \<times> time) list \<Rightarrow> lc_state \<Rightarrow> lc_outcome list \<times> lc_state" where
  "lc_run [] st = ([], st)"
| "lc_run ((op, now) # ops) st =
     (let (r, st') = lc_step op now st; (rs, st'') = lc_run ops st' in (r # rs, st''))"

definition lc_init :: "(user_id \<Rightarrow> int) \<Rightarrow> lc_state" where
  "lc_init c0 = \<lparr>lc_donations = [], lc_credits = c0,
                 lc_audit = \<lparr>audit_logs = [], console_errors = []\<rparr>, lc_audit_up = True\<rparr>"

text \<open>The states the system reaches from a start with credits \<open>c0\<close>, the clock of the
  last operation being \<open>t\<close>: requests are applied one after the other, with clocks that do
  not go backwards.\<close>

inductive lc_reachable :: "(user_id \<Rightarrow> int) \<Rightarrow> time \<Rightarrow> lc_state \<Rightarrow> bool" where
  lc_start: "lc_reachable c0 t (lc_init c0)"
| lc_next: "lc_reachable c0 t st \<Longrightarrow> t \<le> now \<Longrightarrow> lc_reachable c0 now (snd (lc_step op now st))"


subsection \<open>The invariant\<close>

text \<open>
  What holds of every donation document: I1 (a reservation only on a verified donation,
  with its holder and time) and its converse (the reservation fields are cleared
  together), I5 (a reviewer on every decided donation, notes on a rejection), I2 in a
  stronger form (no credits before verification, and from verification on exactly the
  credit formula of the line items), and I4 (every line item kept the shelf-life margin
  it had at submission).
\<close>

definition doc_inv :: "lc_donation \<Rightarrow> bool" where
  "doc_inv d \<longleftrightarrow>
     (isReserved d = Some True \<longrightarrow> status d = Verified \<and> reservedBy d \<noteq> None \<and> reservedAt d \<noteq> None) \<and>
     (isReserved d \<noteq> Some True \<longrightarrow> reservedBy d = None \<and> reservedAt d = None) \<and>
     (status d \<noteq> Pending \<longrightarrow> verifiedBy d \<noteq> None) \<and>
     (status d = Rejected \<longrightarrow> \<not> js_falsy_opt (verificationNotes d)) \<and>
     (status d \<in> {Pending, Rejected} \<longrightarrow> creditsEarned d = 0) \<and>
     (status d \<notin> {Pending, Rejected} \<longrightarrow> creditsEarned d = credits_for (medicines d)) \<and>
     (\<forall>m \<in> set (medicines d). 1 \<le> quantity m \<and> createdAt d + shelf_life_margin \<le> expiryDate m)"

definition doc_time :: "time \<Rightarrow> lc_donation \<Rightarrow> bool" where
  "doc_time t d \<longleftrightarrow> createdAt d \<le> updatedAt d \<and> updatedAt d \<le> t"

definition credits_earned_by :: "user_id \<Rightarrow> lc_donation list \<Rightarrow> int" where
  "credits_earned_by u ds = sum_list (map creditsEarned (filter (\<lambda>d. userId d = u) ds))"

definition lc_inv :: "(user_id \<Rightarrow> int) \<Rightarrow> time \<Rightarrow> lc_state \<Rightarrow> bool" where
  "lc_inv c0 t st \<longleftrightarrow>
     distinct (map donation_id (lc_donations st)) \<and>
     (\<forall>d \<in> set (lc_donations st). doc_inv d \<and> doc_time t d) \<and>
     (\<forall>u. lc_credits st u = c0 u + credits_earned_by u (lc_donations st))"

text \<open>
  I3 read off the audit trail: the status records of a donation (action
  \<open>update_donation_status\<close>, resource id the donation's id), each read as the pair of its
  \<open>oldStatus\<close> and \<open>newStatus\<close> details, and the condition that such a history leads from
  \<open>pending\<close> to the current status along allowed transitions. A transition whose audit
  write failed has no record, so between two records, and before the first and after
  the last, the status may have moved along a path of allowed transitions
  (\<open>status_path\<close>); every record is itself an allowed transition from the status the
  donation had.
\<close>

inductive status_path :: "status \<Rightarrow> status \<Rightarrow> bool" where
  path_refl: "status_path s s"
| path_step: "allowed_transition s t \<Longrightarrow> status_path t u \<Longrightarrow> status_path s u"

definition status_log :: "oid \<Rightarrow> audit_log list \<Rightarrow> audit_log list" where
  "status_log i ls = filter (\<lambda>l. al_action l = ''update_donation_status'' \<and> al_resourceId l = Some i) ls"

definition log_pair :: "audit_log \<Rightarrow> string \<times> string" where
  "log_pair l =
     (case (map_of (al_details l) ''oldStatus'', map_of (al_details l) ''newStatus'') of
        (Some (Some a), Some (Some b)) \<Rightarrow> (a, b)
      | _ \<Rightarrow> ([], []))"

fun valid_history :: "status \<Rightarrow> (string \<times> string) list \<Rightarrow> status \<Rightarrow> bool" where
  "valid_history s [] s' = status_path s s'"
| "valid_history s ((a, b) # h) s' =
     (case (status_of_string a, status_of_string b) of
        (Some r, Some t) \<Rightarrow> status_path s r \<and> allowed_transition r t \<and> valid_history t h s'
      | _ \<Rightarrow> False)"

definition hist_ok :: "lc_donation list \<Rightarrow> audit_log list \<Rightarrow> bool" where
  "hist_ok ds ls \<longleftrightarrow>
     (\<forall>d \<in> set ds. valid_history Pending (map log_pair (status_log (donation_id d) ls)) (status d)) \<and>
     (\<forall>i. i \<notin> donation_id ` set ds \<longrightarrow> status_log i ls = [])"

definition hist_inv :: "lc_state \<Rightarrow> bool" where
  "hist_inv st \<longleftrightarrow> hist_ok (lc_donations st) (audit_logs (lc_audit st))"

subsection \<open>Lemmas on the store\<close>

lemma audit_fields [simp]:
  "lc_donations (audit c now st) = lc_donations st" "lc_credits (audit c now st) = lc_credits st"
  "lc_audit_up (audit c now st) = lc_audit_up st"
  by (simp_all add: audit_def)

lemma audit_status_fields [simp]:
  "lc_donations (audit_status a d new n now st) = lc_donations st"
  "lc_credits (audit_status a d new n now st) = lc_credits st"
  "lc_audit_up (audit_status a d new n now st) = lc_audit_up st"
  by (simp_all add: audit_status_def)

lemma fold_audit_fields [simp]:
  "lc_donations (fold (\<lambda>d. audit (g d) now) xs st) = lc_donations st"
  "lc_credits (fold (\<lambda>d. audit (g d) now) xs st) = lc_credits st"
  by (induction xs arbitrary: st) simp_all

lemma deny_fields [simp]:
  "lc_donations (snd (deny a act i now st)) = lc_donations st"
  "lc_credits (snd (deny a act i now st)) = lc_credits st"
  "fst (deny a act i now st) = Failed Unauthorized"
  by (simp_all add: deny_def)

lemma find_donation_Some:
  "find_donation i st = Some d \<Longrightarrow> d \<in> set (lc_donations st) \<and> donation_id d = i"
  unfolding find_donation_def by (drule find_SomeD) simp

lemma find_donation_None:
  "find_donation i st = None \<longleftrightarrow> i \<notin> donation_id ` set (lc_donations st)"
  by (auto simp add: find_donation_def find_None_iff)

lemma credits_earned_by_update:
  assumes "distinct (map donation_id ds)" and "d \<in> set ds" and "donation_id d = i"
    and "\<And>x. userId (f x) = userId x"
  shows "credits_earned_by u (map (\<lambda>x. if donation_id x = i then f x else x) ds) =
         credits_earned_by u ds + (if userId d = u then creditsEarned (f d) - creditsEarned d else 0)"
  using assms
proof (induction ds)
  case Nil
  then show ?case by simp
next
  case (Cons x ds)
  show ?case
  proof (cases "x = d")
    case True
    with Cons.prems have "\<forall>y \<in> set ds. donation_id y \<noteq> i"
      by (auto simp add: image_iff)
    then have "map (\<lambda>x. if donation_id x = i then f x else x) ds = ds"
      by (induction ds) auto
    with True Cons.prems show ?thesis
      by (simp add: credits_earned_by_def)
  next
    case False
    with Cons.prems have "d \<in> set ds" and "donation_id x \<noteq> i"
      by auto
    with Cons.prems Cons.IH show ?thesis
      by (simp add: credits_earned_by_def)
  qed
qed

lemma credits_earned_by_map:
  assumes "\<And>x. userId (g x) = userId x \<and> creditsEarned (g x) = creditsEarned x"
  shows "credits_earned_by u (map g ds) = credits_earned_by u ds"
  using assms by (induction ds) (simp_all add: credits_earned_by_def)


lemma distinct_id_eq:
  "distinct (map donation_id ds) \<Longrightarrow> x \<in> set ds \<Longrightarrow> y \<in> set ds \<Longrightarrow>
     donation_id x = donation_id y \<Longrightarrow> x = y"
  by (metis distinct_map inj_onD)

lemma add_credits_zero [simp]: "add_credits u 0 st = st"
  by (simp add: add_credits_def)

lemma add_credits_fields [simp]:
  "lc_donations (add_credits u c st) = lc_donations st"
  "lc_audit_up (add_credits u c st) = lc_audit_up st"
  by (simp_all add: add_credits_def)

lemma update_donation_fields [simp]:
  "lc_credits (update_donation i f st) = lc_credits st"
  "lc_donations (update_donation i f st) = map (\<lambda>x. if donation_id x = i then f x else x) (lc_donations st)"
  "lc_audit_up (update_donation i f st) = lc_audit_up st"
  by (simp_all add: update_donation_def)

lemma lc_inv_mono: "lc_inv c0 t st \<Longrightarrow> t \<le> now \<Longrightarrow> lc_inv c0 now st"
  by (fastforce simp add: lc_inv_def doc_time_def)

lemma lc_inv_audit [simp]:
  "lc_inv c0 t (audit c now st) \<longleftrightarrow> lc_inv c0 t st"
  "lc_inv c0 t (audit_status a d new n now st) \<longleftrightarrow> lc_inv c0 t st"
  "lc_inv c0 t (fold (\<lambda>d. audit (g d) now) xs st) \<longleftrightarrow> lc_inv c0 t st"
  "lc_inv c0 t (snd (deny a act i now st)) \<longleftrightarrow> lc_inv c0 t st"
  by (simp_all add: lc_inv_def)

text \<open>One conditional update of one document keeps the invariant when the new document
  satisfies it, is stamped with the request's clock and keeps the document's identity;
  the donor's credit counter moves by the change of the document's credits.\<close>

lemma lc_inv_update:
  assumes inv: "lc_inv c0 t st" and le: "t \<le> now"
    and found: "find_donation i st = Some d"
    and keep: "\<And>x. donation_id (f x) = donation_id x \<and> userId (f x) = userId x \<and>
                    createdAt (f x) = createdAt x"
    and doc: "doc_inv (f d)" and upd: "updatedAt (f d) = now"
  shows "lc_inv c0 now (add_credits (userId d) (creditsEarned (f d) - creditsEarned d) (update_donation i f st))"
proof -
  let ?ds = "lc_donations st"
  let ?g = "\<lambda>x. if donation_id x = i then f x else x"
  from inv have dist: "distinct (map donation_id ?ds)" by (simp add: lc_inv_def)
  from found have d: "d \<in> set ?ds" "donation_id d = i" by (simp_all add: find_donation_Some)
  have "donation_id \<circ> ?g = donation_id"
    using keep by (auto simp add: fun_eq_iff)
  with dist have ids: "distinct (map donation_id (map ?g ?ds))"
    by (simp only: map_map)
  have docs: "doc_inv y \<and> doc_time now y" if "y \<in> set (map ?g ?ds)" for y
  proof -
    from that obtain x where x: "x \<in> set ?ds" and y: "y = ?g x" by auto
    show ?thesis
    proof (cases "donation_id x = i")
      case True
      with x d dist have "x = d" by (auto intro: distinct_id_eq)
      with inv d le keep [of d] doc upd True y show ?thesis
        by (auto simp add: lc_inv_def doc_time_def)
    next
      case False
      with inv x y le show ?thesis
        by (auto simp add: lc_inv_def doc_time_def)
    qed
  qed
  have cred: "lc_credits (add_credits (userId d) (creditsEarned (f d) - creditsEarned d) (update_donation i f st)) u =
      c0 u + credits_earned_by u (map ?g ?ds)" for u
    using inv dist d keep
    by (simp add: lc_inv_def add_credits_def credits_earned_by_update)
  show ?thesis
    using ids docs cred by (simp add: lc_inv_def del: map_map)
qed


lemma lc_inv_update_same:
  assumes "lc_inv c0 t st" "t \<le> now" "find_donation i st = Some d"
    "\<And>x. donation_id (f x) = donation_id x \<and> userId (f x) = userId x \<and> createdAt (f x) = createdAt x"
    "doc_inv (f d)" "updatedAt (f d) = now" "creditsEarned (f d) = creditsEarned d"
  shows "lc_inv c0 now (update_donation i f st)"
  using lc_inv_update [OF assms(1-6)] assms(7) by simp

lemma found_doc_inv: "lc_inv c0 t st \<Longrightarrow> find_donation i st = Some d \<Longrightarrow> doc_inv d"
  by (auto simp add: lc_inv_def dest: find_donation_Some)

lemma doc_inv_unreserved:
  "doc_inv d \<Longrightarrow> status d \<noteq> Verified \<Longrightarrow> isReserved d \<noteq> Some True \<and> reservedBy d = None \<and> reservedAt d = None"
  by (auto simp add: doc_inv_def)

lemmas lc_step_simps = lc_step.simps audit_status_def deny_def

subsection \<open>Each operation keeps the invariant\<close>

lemma lc_inv_verify:
  assumes inv: "lc_inv c0 t st" and le: "t \<le> now"
  shows "lc_inv c0 now (snd (lc_step (Verify_Op rv r i dec) now st))"
proof (cases "authorize r Verify \<and> (\<exists>d. find_donation i st = Some d \<and> status d = Pending)")
  case False
  with lc_inv_mono [OF inv le] show ?thesis
    by (auto split: option.split)
next
  case True
  then obtain d where a: "authorize r Verify" and found: "find_donation i st = Some d"
    and p: "status d = Pending" by blast
  have di: "doc_inv d" using inv found by (rule found_doc_inv)
  with p have d0: "creditsEarned d = 0" and nr: "isReserved d \<noteq> Some True \<and> reservedBy d = None \<and> reservedAt d = None"
    by (auto simp add: doc_inv_def)
  show ?thesis
  proof (cases dec)
    case Approve
    let ?f = "\<lambda>x. x\<lparr>status := Verified, verifiedBy := Some rv, creditsEarned := credits_for (medicines d),
                    updatedAt := now\<rparr>"
    have doc: "doc_inv (?f d)" using di nr by (auto simp add: doc_inv_def)
    have "lc_inv c0 now (add_credits (userId d) (creditsEarned (?f d) - creditsEarned d) (update_donation i ?f st))"
      using lc_inv_update [where f = "?f", OF inv le found _ doc] by simp
    with a found p d0 Approve show ?thesis by simp
  next
    case (Reject n)
    let ?f = "\<lambda>x. x\<lparr>status := Rejected, verifiedBy := Some rv, verificationNotes := Some n, updatedAt := now\<rparr>"
    show ?thesis
    proof (cases "n = []")
      case True
      with a found p Reject lc_inv_mono [OF inv le] show ?thesis by simp
    next
      case False
      with di nr d0 have doc: "doc_inv (?f d)" by (auto simp add: doc_inv_def js_falsy_opt_def)
      have "lc_inv c0 now (update_donation i ?f st)"
        using lc_inv_update_same [where f = "?f", OF inv le found _ doc] by simp
      with a found p Reject False show ?thesis by simp
    qed
  qed
qed


lemma lc_inv_collected:
  assumes inv: "lc_inv c0 t st" and le: "t \<le> now"
  shows "lc_inv c0 now (snd (lc_step (Mark_Collected a r i pd c) now st))"
proof (cases "authorize r MarkCollected \<and> (\<exists>d. find_donation i st = Some d \<and> status d = Verified \<and>
               \<not> pd < now \<and> \<not> (isReserved d = Some True \<and> reservedBy d \<noteq> c))")
  case False
  with lc_inv_mono [OF inv le] show ?thesis
    by (auto split: option.split)
next
  case True
  then obtain d where found: "find_donation i st = Some d" and g: "authorize r MarkCollected"
    "status d = Verified" "\<not> pd < now" "\<not> (isReserved d = Some True \<and> reservedBy d \<noteq> c)" by blast
  let ?f = "\<lambda>x. (clear_reservation x)\<lparr>status := Collected, pickupDate := Some pd, updatedAt := now\<rparr>"
  have "doc_inv d" using inv found by (rule found_doc_inv)
  with g have doc: "doc_inv (?f d)" by (auto simp add: doc_inv_def clear_reservation_def)
  have "lc_inv c0 now (update_donation i ?f st)"
    using lc_inv_update_same [where f = "?f", OF inv le found _ doc] by (simp add: clear_reservation_def)
  with found g show ?thesis by auto
qed

lemma lc_inv_distributed:
  assumes inv: "lc_inv c0 t st" and le: "t \<le> now"
  shows "lc_inv c0 now (snd (lc_step (Mark_Distributed a r i) now st))"
proof (cases "authorize r MarkDistributed \<and> (\<exists>d. find_donation i st = Some d \<and> status d = Collected)")
  case False
  with lc_inv_mono [OF inv le] show ?thesis
    by (auto split: option.split)
next
  case True
  then obtain d where found: "find_donation i st = Some d" and g: "authorize r MarkDistributed"
    "status d = Collected" by blast
  let ?f = "\<lambda>x. x\<lparr>status := Distributed, updatedAt := now\<rparr>"
  have "doc_inv d" using inv found by (rule found_doc_inv)
  with g have doc: "doc_inv (?f d)" by (auto simp add: doc_inv_def)
  have "lc_inv c0 now (update_donation i ?f st)"
    using lc_inv_update_same [where f = "?f", OF inv le found _ doc] by simp
  with found g show ?thesis by simp
qed

lemma lc_inv_recall:
  assumes inv: "lc_inv c0 t st" and le: "t \<le> now"
  shows "lc_inv c0 now (snd (lc_step (Recall_Op a r i reason) now st))"
proof (cases "authorize r Recall \<and> (\<exists>d. find_donation i st = Some d \<and> status d \<in> {Verified, Collected, Distributed})")
  case False
  with lc_inv_mono [OF inv le] show ?thesis
    by (auto split: option.split)
next
  case True
  then obtain d where found: "find_donation i st = Some d" and g: "authorize r Recall"
    "status d \<in> {Verified, Collected, Distributed}" by blast
  let ?f = "\<lambda>x. (clear_reservation x)\<lparr>status := Recalled, updatedAt := now\<rparr>"
  have "doc_inv d" using inv found by (rule found_doc_inv)
  with g have doc: "doc_inv (?f d)" by (auto simp add: doc_inv_def clear_reservation_def)
  have "lc_inv c0 now (update_donation i ?f st)"
    using lc_inv_update_same [where f = "?f", OF inv le found _ doc] by (simp add: clear_reservation_def)
  with found g show ?thesis by simp
qed

lemma lc_inv_reserve:
  assumes inv: "lc_inv c0 t st" and le: "t \<le> now"
  shows "lc_inv c0 now (snd (lc_step (Reserve_Op ngo r i) now st))"
proof (cases "authorize r Reserve \<and> (\<exists>d. find_donation i st = Some d \<and> status d = Verified \<and> isReserved d \<noteq> Some True)")
  case False
  with lc_inv_mono [OF inv le] show ?thesis
    by (auto split: option.split)
next
  case True
  then obtain d where found: "find_donation i st = Some d" and g: "authorize r Reserve"
    "status d = Verified" "isReserved d \<noteq> Some True" by blast
  let ?f = "\<lambda>x. x\<lparr>isReserved := Some True, reservedBy := Some ngo, reservedAt := Some now, updatedAt := now\<rparr>"
  have "doc_inv d" using inv found by (rule found_doc_inv)
  with g have doc: "doc_inv (?f d)" by (auto simp add: doc_inv_def)
  have "lc_inv c0 now (update_donation i ?f st)"
    using lc_inv_update_same [where f = "?f", OF inv le found _ doc] by simp
  with found g show ?thesis by simp
qed

lemma lc_inv_release:
  assumes inv: "lc_inv c0 t st" and le: "t \<le> now"
  shows "lc_inv c0 now (snd (lc_step (Release_Op ngo r i) now st))"
proof (cases "authorize r Release \<and> (\<exists>d. find_donation i st = Some d \<and> isReserved d = Some True \<and> reservedBy d = Some ngo)")
  case False
  with lc_inv_mono [OF inv le] show ?thesis
    by (auto split: option.split)
next
  case True
  then obtain d where found: "find_donation i st = Some d" and g: "authorize r Release"
    "isReserved d = Some True" "reservedBy d = Some ngo" by blast
  let ?f = "\<lambda>x. (clear_reservation x)\<lparr>updatedAt := now\<rparr>"
  have "doc_inv d" using inv found by (rule found_doc_inv)
  with g have doc: "doc_inv (?f d)" by (auto simp add: doc_inv_def clear_reservation_def)
  have "lc_inv c0 now (update_donation i ?f st)"
    using lc_inv_update_same [where f = "?f", OF inv le found _ doc] by (simp add: clear_reservation_def)
  with found g show ?thesis by simp
qed


lemma credits_earned_by_append_new:
  "credits_earned_by u (ds @ [new_lc_donation donor i p now]) = credits_earned_by u ds"
  by (simp add: credits_earned_by_def new_lc_donation_def)

lemma lc_inv_submit:
  assumes inv: "lc_inv c0 t st" and le: "t \<le> now"
  shows "lc_inv c0 now (snd (lc_step (Submit donor r i p) now st))"
proof (cases "authorize r SubmitDonation \<and> valid_submission now p \<and> find_donation i st = None")
  case False
  with lc_inv_mono [OF inv le] show ?thesis
    by auto
next
  case True
  let ?n = "new_lc_donation donor i p now"
  from True have fresh: "i \<notin> donation_id ` set (lc_donations st)"
    by (simp add: find_donation_None)
  from True have doc: "doc_inv ?n \<and> doc_time now ?n"
    by (auto simp add: valid_submission_def new_lc_donation_def doc_inv_def doc_time_def list_all_iff)
  have "lc_inv c0 now (st\<lparr>lc_donations := lc_donations st @ [?n]\<rparr>)"
    using lc_inv_mono [OF inv le] fresh doc
    by (auto simp add: lc_inv_def credits_earned_by_append_new) (simp add: new_lc_donation_def)
  with True show ?thesis by simp
qed

lemma lc_inv_sweep:
  assumes inv: "lc_inv c0 t st" and le: "t \<le> now"
  shows "lc_inv c0 now (snd (lc_step (Sweep ttl) now st))"
proof -
  let ?h = "\<lambda>d. if reservation_expired ttl now d then (clear_reservation d)\<lparr>updatedAt := now\<rparr> else d"
  have keep: "donation_id \<circ> ?h = donation_id"
    by (simp add: fun_eq_iff clear_reservation_def)
  have cred: "credits_earned_by u (map ?h ds) = credits_earned_by u ds" for u ds
    by (rule credits_earned_by_map) (simp add: clear_reservation_def)
  have docs: "doc_inv (?h d) \<and> doc_time now (?h d)" if "d \<in> set (lc_donations st)" for d
    using that lc_inv_mono [OF inv le]
    by (auto simp add: lc_inv_def doc_inv_def doc_time_def clear_reservation_def reservation_expired_def)
  have ids: "distinct (map donation_id (map ?h (lc_donations st)))"
    using inv keep by (simp only: lc_inv_def map_map)
  have docs': "\<forall>y \<in> set (map ?h (lc_donations st)). doc_inv y \<and> doc_time now y"
  proof
    fix y assume "y \<in> set (map ?h (lc_donations st))"
    then obtain d where "d \<in> set (lc_donations st)" "y = ?h d"
      by (simp only: set_map) blast
    with docs show "doc_inv y \<and> doc_time now y" by blast
  qed
  have "lc_inv c0 now (st\<lparr>lc_donations := map ?h (lc_donations st)\<rparr>)"
    using inv ids docs' cred
    by (simp add: lc_inv_def del: set_map map_map split del: if_split)
  then show ?thesis by simp
qed

lemma lc_inv_audit_store:
  "lc_inv c0 t st \<Longrightarrow> t \<le> now \<Longrightarrow> lc_inv c0 now (snd (lc_step (Audit_Store up) now st))"
  by (simp add: lc_inv_def doc_time_def) fastforce

lemma lc_step_inv: "lc_inv c0 t st \<Longrightarrow> t \<le> now \<Longrightarrow> lc_inv c0 now (snd (lc_step op now st))"
  by (cases op)
     (simp_all add: lc_inv_submit lc_inv_verify lc_inv_collected lc_inv_distributed lc_inv_recall
        lc_inv_reserve lc_inv_release lc_inv_sweep lc_inv_audit_store del: lc_step.simps)

lemma lc_inv_init: "lc_inv c0 t (lc_init c0)"
  by (simp add: lc_inv_def lc_init_def credits_earned_by_def)

lemma lc_reachable_lc_inv: "lc_reachable c0 t st \<Longrightarrow> lc_inv c0 t st"
  by (induction rule: lc_reachable.induct) (simp_all add: lc_inv_init lc_step_inv)

end
