(* ===== verification/Lifecycle_Properties.thy ===== *)
theory Lifecycle_Properties
  imports Lifecycle
begin

text \<open>
  The properties of the lifecycle engine and the reservation coordinator: the invariant
  of every reachable state (documents, credit ledger, audit history), the outcome of two
  competing requests, and the functional behaviour of the operations that the spec
  constrains most (recall, release, sweep, a denied request).
\<close>

abbreviation lc_demo_med :: medicine where
  "lc_demo_med \<equiv> \<lparr>med_id = ''m1'', med_name = ''Paracetamol 500mg'', quantity = 20,
                   expiryDate = 20000000000, description = None, image = None\<rparr>"

abbreviation lc_demo_sub :: submission where
  "lc_demo_sub \<equiv> \<lparr>sub_medicines = [lc_demo_med], sub_pickupAddress = Some ''12 Main St''\<rparr>"

abbreviation lc_demo_st1 :: lc_state where
  "lc_demo_st1 \<equiv> snd (lc_step (Submit ''donor1'' Donor ''d1'' lc_demo_sub) 1000 (lc_init (\<lambda>_. 0)))"

abbreviation lc_demo_st2 :: lc_state where
  "lc_demo_st2 \<equiv> snd (lc_step (Verify_Op ''rev1'' Reviewer ''d1'' Approve) 2000 lc_demo_st1)"

abbreviation lc_demo_st3 :: lc_state where
  "lc_demo_st3 \<equiv> snd (lc_step (Reserve_Op ''ngo1'' Ngo_Partner ''d1'') 3000 lc_demo_st2)"

abbreviation lc_demo_doc1 :: lc_donation where
  "lc_demo_doc1 \<equiv> new_lc_donation ''donor1'' ''d1'' lc_demo_sub 1000"

abbreviation lc_demo_doc2 :: lc_donation where
  "lc_demo_doc2 \<equiv> lc_demo_doc1\<lparr>status := Verified, verifiedBy := Some ''rev1'', creditsEarned := 20,
                    updatedAt := 2000\<rparr>"

abbreviation lc_demo_doc3 :: lc_donation where
  "lc_demo_doc3 \<equiv> lc_demo_doc2\<lparr>isReserved := Some True, reservedBy := Some ''ngo1'', reservedAt := Some 3000,
                    updatedAt := 3000\<rparr>"

subsection \<open>The audit trail of the lifecycle\<close>

lemmas audit_entry_defs = status_change_entry_def user_action_entry_def admin_action_entry_def

lemma audit_logs_audit [simp]:
  "audit_logs (lc_audit (audit c now st)) =
     audit_logs (lc_audit st) @ (if lc_audit_up st then [audit_record (audit_call_entry c) None now] else [])"
  by (simp add: audit_def audit_step_def audit_log_write_def)

lemma console_errors_audit [simp]:
  "console_errors (lc_audit (audit c now st)) =
     console_errors (lc_audit st) @ (if lc_audit_up st then [] else [''Failed to create audit log:''])"
  by (simp add: audit_def audit_step_def audit_log_write_def)

lemma status_path_trans: "status_path s t \<Longrightarrow> status_path t u \<Longrightarrow> status_path s u"
  by (induction rule: status_path.induct) (auto intro: path_step)

lemma status_path_snoc: "status_path s t \<Longrightarrow> allowed_transition t u \<Longrightarrow> status_path s u"
  by (rule status_path_trans) (auto intro: status_path.intros)

lemma lc_audit_fields [simp]:
  "lc_audit (add_credits u c st) = lc_audit st"
  "lc_audit (update_donation i f st) = lc_audit st"
  by (simp_all add: add_credits_def update_donation_def)

lemma status_log_append [simp]:
  "status_log i (ls @ [l]) =
     status_log i ls @ (if al_action l = ''update_donation_status'' \<and> al_resourceId l = Some i then [l] else [])"
  by (simp add: status_log_def)

lemma hist_ok_other:
  "ae_action e \<noteq> ''update_donation_status'' \<Longrightarrow> hist_ok ds (ls @ [audit_record e r now]) = hist_ok ds ls"
  by (simp add: hist_ok_def audit_record_def)

lemma valid_history_snoc:
  "valid_history s h s' \<Longrightarrow> allowed_transition s' s'' \<Longrightarrow>
     valid_history s (h @ [(status_string s', status_string s'')]) s''"
  by (induction s h s' rule: valid_history.induct) (auto intro: path_refl split: option.splits)

lemma valid_history_gap:
  "valid_history s h s' \<Longrightarrow> allowed_transition s' s'' \<Longrightarrow> valid_history s h s''"
  by (induction s h s' rule: valid_history.induct) (auto intro: status_path_snoc split: option.splits)

lemma log_pair_status_change [simp]:
  "log_pair (audit_record (status_change_entry a i x y n) r now) = (x, y)"
  by (simp add: log_pair_def audit_record_def status_change_entry_def)

lemma hist_ok_change:
  assumes ok: "hist_ok ds ls" and dist: "distinct (map donation_id ds)"
    and d: "d \<in> set ds" "donation_id d = i"
    and keep: "\<And>x. donation_id (f x) = donation_id x"
    and new: "status (f d) = new" and tr: "allowed_transition (status d) new"
  shows "hist_ok (map (\<lambda>x. if donation_id x = i then f x else x) ds)
           (ls @ [audit_record (status_change_entry a i (status_string (status d)) (status_string new) n) r now])"
  (is "hist_ok (map ?g ds) (ls @ [?l])")
proof -
  have "donation_id \<circ> ?g = donation_id"
    using keep by (auto simp add: fun_eq_iff)
  then have ids: "donation_id ` set (map ?g ds) = donation_id ` set ds"
    by (simp only: set_map image_comp)
  have l: "al_action ?l = ''update_donation_status''" "al_resourceId ?l = Some i"
    by (simp_all add: audit_record_def status_change_entry_def)
  have "valid_history Pending (map log_pair (status_log (donation_id y) (ls @ [?l]))) (status y)"
    if "y \<in> set (map ?g ds)" for y
  proof -
    from that obtain x where x: "x \<in> set ds" and y: "y = ?g x" by auto
    show ?thesis
    proof (cases "donation_id x = i")
      case True
      with x d dist have "x = d" by (auto intro: distinct_id_eq)
      moreover from ok d have "valid_history Pending (map log_pair (status_log i ls)) (status d)"
        by (auto simp add: hist_ok_def)
      ultimately show ?thesis
        using keep new tr y l True by (simp add: valid_history_snoc)
    next
      case False
      with ok x y l show ?thesis by (simp add: hist_ok_def)
    qed
  qed
  moreover have "status_log j (ls @ [?l]) = []" if "j \<notin> donation_id ` set (map ?g ds)" for j
    using that ok d l ids by (auto simp add: hist_ok_def)
  ultimately show ?thesis by (simp only: hist_ok_def) blast
qed

text \<open>The same update when the audit write fails: no record, and the donation's history
  gets a gap.\<close>

lemma hist_ok_gap:
  assumes ok: "hist_ok ds ls" and dist: "distinct (map donation_id ds)"
    and d: "d \<in> set ds" "donation_id d = i"
    and keep: "\<And>x. donation_id (f x) = donation_id x"
    and new: "status (f d) = new" and tr: "allowed_transition (status d) new"
  shows "hist_ok (map (\<lambda>x. if donation_id x = i then f x else x) ds) ls"
  (is "hist_ok (map ?g ds) ls")
proof -
  have "donation_id \<circ> ?g = donation_id"
    using keep by (auto simp add: fun_eq_iff)
  then have ids: "donation_id ` set (map ?g ds) = donation_id ` set ds"
    by (simp only: set_map image_comp)
  have "valid_history Pending (map log_pair (status_log (donation_id y) ls)) (status y)"
    if "y \<in> set (map ?g ds)" for y
  proof -
    from that obtain x where x: "x \<in> set ds" and y: "y = ?g x" by auto
    show ?thesis
    proof (cases "donation_id x = i")
      case True
      with x d dist have "x = d" by (auto intro: distinct_id_eq)
      moreover from ok d have "valid_history Pending (map log_pair (status_log i ls)) (status d)"
        by (auto simp add: hist_ok_def)
      ultimately show ?thesis
        using keep new tr y True by (simp add: valid_history_gap)
    next
      case False
      with ok x y show ?thesis by (simp add: hist_ok_def)
    qed
  qed
  moreover have "status_log j ls = []" if "j \<notin> donation_id ` set (map ?g ds)" for j
    using that ok ids by (auto simp add: hist_ok_def)
  ultimately show ?thesis by (simp only: hist_ok_def) blast
qed

lemma hist_ok_map:
  assumes "hist_ok ds ls" and "\<And>x. donation_id (g x) = donation_id x \<and> status (g x) = status x"
  shows "hist_ok (map g ds) ls"
  using assms by (simp add: hist_ok_def image_image)

lemma hist_ok_snoc:
  assumes "hist_ok ds ls" and "donation_id n \<notin> donation_id ` set ds" and "status n = Pending"
  shows "hist_ok (ds @ [n]) ls"
  using assms by (auto simp add: hist_ok_def intro: path_refl)


lemma hist_inv_audit_other [simp]:
  "ae_action (audit_call_entry c) \<noteq> ''update_donation_status'' \<Longrightarrow> hist_inv (audit c now st) = hist_inv st"
  by (cases "lc_audit_up st") (simp_all add: hist_inv_def hist_ok_other)

lemma hist_inv_add_credits [simp]:
  "hist_inv (audit_status a d new n now (add_credits u c st)) = hist_inv (audit_status a d new n now st)"
  "hist_inv (add_credits u c st) = hist_inv st"
  by (simp_all add: hist_inv_def audit_status_def)

lemma hist_inv_deny [simp]:
  "act \<noteq> ''update_donation_status'' \<Longrightarrow> hist_inv (snd (deny a act i now st)) = hist_inv st"
  unfolding deny_def by (simp add: hist_ok_other hist_inv_def)

lemma hist_inv_change:
  assumes h: "hist_inv st" and inv: "lc_inv c0 t st" and found: "find_donation i st = Some d"
    and keep: "\<And>x. donation_id (f x) = donation_id x"
    and new: "status (f d) = new" and tr: "allowed_transition (status d) new"
  shows "hist_inv (audit_status a d new n now (update_donation i f st))"
proof -
  from found have d: "d \<in> set (lc_donations st)" "donation_id d = i"
    by (simp_all add: find_donation_Some)
  from inv have "distinct (map donation_id (lc_donations st))" by (simp add: lc_inv_def)
  note ch = hist_ok_change [OF h [unfolded hist_inv_def] this d keep new tr]
    and gap = hist_ok_gap [OF h [unfolded hist_inv_def] this d keep new tr]
  show ?thesis
    using ch gap d by (cases "lc_audit_up st") (simp_all add: hist_inv_def audit_status_def)
qed

lemma hist_inv_same:
  assumes "hist_inv st" and "\<And>x. donation_id (f x) = donation_id x \<and> status (f x) = status x"
  shows "hist_inv (update_donation i f st)"
  using hist_ok_map [OF assms(1) [unfolded hist_inv_def], of "\<lambda>x. if donation_id x = i then f x else x"] assms(2)
  by (simp add: hist_inv_def)


lemma hist_verify:
  assumes h: "hist_inv st" and inv: "lc_inv c0 t st"
  shows "hist_inv (snd (lc_step (Verify_Op rv r i dec) now st))"
proof (cases "authorize r Verify \<and> (\<exists>d. find_donation i st = Some d \<and> status d = Pending)")
  case False
  with h show ?thesis by (auto split: option.split)
next
  case True
  then obtain d where found: "find_donation i st = Some d" and g: "authorize r Verify" "status d = Pending"
    by blast
  note ch = hist_inv_change [OF h inv found]
  show ?thesis
    using g found h ch [of "\<lambda>x. x\<lparr>status := Verified, verifiedBy := Some rv, creditsEarned := credits_for (medicines d),
                    updatedAt := now\<rparr>" Verified]
      ch [of "\<lambda>x. x\<lparr>status := Rejected, verifiedBy := Some rv, verificationNotes := Some n, updatedAt := now\<rparr>"
          Rejected for n]
    by (cases dec) simp_all
qed

lemma hist_collected:
  assumes h: "hist_inv st" and inv: "lc_inv c0 t st"
  shows "hist_inv (snd (lc_step (Mark_Collected a r i pd c) now st))"
proof (cases "authorize r MarkCollected \<and> (\<exists>d. find_donation i st = Some d \<and> status d = Verified)")
  case False
  with h show ?thesis by (auto split: option.split)
next
  case True
  then obtain d where found: "find_donation i st = Some d" and g: "authorize r MarkCollected" "status d = Verified"
    by blast
  show ?thesis
    using g found h hist_inv_change [OF h inv found, of "\<lambda>x. (clear_reservation x)\<lparr>status := Collected,
                           pickupDate := Some pd, updatedAt := now\<rparr>" Collected]
    by (simp add: clear_reservation_def)
qed

lemma hist_distributed:
  assumes h: "hist_inv st" and inv: "lc_inv c0 t st"
  shows "hist_inv (snd (lc_step (Mark_Distributed a r i) now st))"
proof (cases "authorize r MarkDistributed \<and> (\<exists>d. find_donation i st = Some d \<and> status d = Collected)")
  case False
  with h show ?thesis by (auto split: option.split)
next
  case True
  then obtain d where found: "find_donation i st = Some d" and g: "authorize r MarkDistributed" "status d = Collected"
    by blast
  show ?thesis
    using g found h hist_inv_change [OF h inv found, of "\<lambda>x. x\<lparr>status := Distributed, updatedAt := now\<rparr>" Distributed]
    by simp
qed

lemma hist_recall:
  assumes h: "hist_inv st" and inv: "lc_inv c0 t st"
  shows "hist_inv (snd (lc_step (Recall_Op a r i reason) now st))"
proof (cases "authorize r Recall \<and> (\<exists>d. find_donation i st = Some d \<and> status d \<in> {Verified, Collected, Distributed})")
  case False
  with h show ?thesis by (auto split: option.split)
next
  case True
  then obtain d where found: "find_donation i st = Some d" and g: "authorize r Recall"
    "status d \<in> {Verified, Collected, Distributed}" by blast
  show ?thesis
    using g found h hist_inv_change [OF h inv found, of "\<lambda>x. (clear_reservation x)\<lparr>status := Recalled,
                             updatedAt := now\<rparr>" Recalled]
    by (auto simp add: clear_reservation_def admin_action_entry_def)
qed


lemma hist_submit:
  assumes h: "hist_inv st"
  shows "hist_inv (snd (lc_step (Submit donor r i p) now st))"
proof (cases "authorize r SubmitDonation \<and> valid_submission now p \<and> find_donation i st = None")
  case False
  with h show ?thesis by auto
next
  case True
  then have "i \<notin> donation_id ` set (lc_donations st)" by (simp add: find_donation_None)
  with h have "hist_inv (st\<lparr>lc_donations := lc_donations st @ [new_lc_donation donor i p now]\<rparr>)"
    by (simp add: hist_inv_def hist_ok_snoc new_lc_donation_def)
  with True show ?thesis by (simp add: user_action_entry_def)
qed

lemma hist_reserve:
  assumes h: "hist_inv st"
  shows "hist_inv (snd (lc_step (Reserve_Op ngo r i) now st))"
  using h hist_inv_same [OF h, of "\<lambda>x. x\<lparr>isReserved := Some True, reservedBy := Some ngo,
                           reservedAt := Some now, updatedAt := now\<rparr>" i]
  by (auto simp add: user_action_entry_def split: option.split)

lemma hist_release:
  assumes h: "hist_inv st"
  shows "hist_inv (snd (lc_step (Release_Op ngo r i) now st))"
  using h hist_inv_same [OF h, of "\<lambda>x. (clear_reservation x)\<lparr>updatedAt := now\<rparr>" i]
  by (auto simp add: user_action_entry_def clear_reservation_def split: option.split)

lemma hist_inv_fold_other:
  "(\<And>d. ae_action (audit_call_entry (g d)) \<noteq> ''update_donation_status'') \<Longrightarrow>
     hist_inv (fold (\<lambda>d. audit (g d) now) xs st) = hist_inv st"
  by (induction xs arbitrary: st) simp_all

lemma hist_sweep:
  assumes h: "hist_inv st"
  shows "hist_inv (snd (lc_step (Sweep ttl) now st))"
proof -
  let ?h = "\<lambda>d. if reservation_expired ttl now d then (clear_reservation d)\<lparr>updatedAt := now\<rparr> else d"
  have "hist_inv (st\<lparr>lc_donations := map ?h (lc_donations st)\<rparr>)"
    using hist_ok_map [OF h [unfolded hist_inv_def], of ?h]
    by (simp add: hist_inv_def clear_reservation_def)
  then show ?thesis
    by (simp add: hist_inv_fold_other expiry_entry_def)
qed

lemma hist_audit_store: "hist_inv st \<Longrightarrow> hist_inv (snd (lc_step (Audit_Store up) now st))"
  by (simp add: hist_inv_def)

lemma lc_step_hist: "lc_inv c0 t st \<Longrightarrow> hist_inv st \<Longrightarrow> hist_inv (snd (lc_step op now st))"
  by (cases op)
     (simp_all add: hist_submit hist_verify hist_collected hist_distributed hist_recall hist_reserve
        hist_release hist_sweep hist_audit_store del: lc_step.simps)

lemma lc_reachable_hist_inv: "lc_reachable c0 t st \<Longrightarrow> hist_inv st"
proof (induction rule: lc_reachable.induct)
  case (lc_start c0 t)
  then show ?case by (simp add: hist_inv_def hist_ok_def lc_init_def status_log_def)
next
  case (lc_next c0 t st now op)
  then show ?case using lc_step_hist lc_reachable_lc_inv by blast
qed


subsection \<open>Lemmas on the store after a step\<close>

lemma find_map_id:
  "(\<And>x. donation_id (g x) = donation_id x) \<Longrightarrow>
     find (\<lambda>d. donation_id d = j) (map g ds) = map_option g (find (\<lambda>d. donation_id d = j) ds)"
  by (induction ds) auto

lemma find_donation_update [simp]:
  "(\<And>x. donation_id (f x) = donation_id x) \<Longrightarrow>
     find_donation j (update_donation i f st) =
       map_option (\<lambda>x. if donation_id x = i then f x else x) (find_donation j st)"
  unfolding find_donation_def update_donation_def by (simp add: find_map_id)

lemma find_donation_fields [simp]:
  "find_donation j (audit c now st) = find_donation j st"
  "find_donation j (audit_status a d new n now st) = find_donation j st"
  "find_donation j (add_credits u k st) = find_donation j st"
  by (simp_all add: find_donation_def)

lemma find_snoc_None: "find P xs = None \<Longrightarrow> P x \<Longrightarrow> find P (xs @ [x]) = Some x"
  by (induction xs) auto

lemma lc_credits_add_credits [simp]:
  "lc_credits (add_credits u c st) = (lc_credits st)(u := lc_credits st u + c)"
  by (simp add: add_credits_def)

lemma credits_earned_by_doc_inv:
  "\<forall>d \<in> set ds. doc_inv d \<Longrightarrow>
     credits_earned_by u ds =
       sum_list (map (\<lambda>d. credits_for (medicines d)) (filter (\<lambda>d. userId d = u \<and> status d \<notin> {Pending, Rejected}) ds))"
  by (induction ds) (auto simp add: credits_earned_by_def doc_inv_def)

lemma demo_reachable1: "lc_reachable (\<lambda>_. 0) 1000 lc_demo_st1"
  by (rule lc_next [OF lc_start [of _ 0]]) simp

lemma demo_reachable2: "lc_reachable (\<lambda>_. 0) 2000 lc_demo_st2"
  by (rule lc_next [OF demo_reachable1]) simp

lemma demo_reachable3: "lc_reachable (\<lambda>_. 0) 3000 lc_demo_st3"
  by (rule lc_next [OF demo_reachable2]) simp


lemmas lc_eval = lc_init_def valid_submission_def find_donation_def new_lc_donation_def
  shelf_life_margin_def js_falsy_opt_def credits_for_def cap_per_item_def

lemma demo_found:
  "find_donation ''d1'' lc_demo_st1 = Some lc_demo_doc1"
  "find_donation ''d1'' lc_demo_st2 = Some lc_demo_doc2"
  "find_donation ''d1'' lc_demo_st3 = Some lc_demo_doc3"
  by (simp_all add: lc_eval)

subsection \<open>Invariants of the reachable states\<close>

text \<open>
  C20: every donation document of a reachable state satisfies the document invariant:
  a reservation only on a verified donation and with its holder and time (I1), the
  reservation fields cleared together, a reviewer on every decided donation and notes on
  a rejection (I5), no credits before verification and exactly the credit formula from
  verification on (I2), every line item with a positive quantity and the shelf-life
  margin at submission (I4); its timestamps are ordered and not later than the clock.
\<close>

theorem lc_reachable_doc_invariant:
  assumes "lc_reachable c0 t st" and "d \<in> set (lc_donations st)"
  shows "doc_inv d \<and> createdAt d \<le> updatedAt d \<and> updatedAt d \<le> t"
  using lc_reachable_lc_inv [OF assms(1)] assms(2) by (auto simp add: lc_inv_def doc_time_def)

theorem lc_reachable_doc_invariant_witness:
  "lc_reachable (\<lambda>_. 0) 3000 lc_demo_st3 \<and> lc_demo_doc3 \<in> set (lc_donations lc_demo_st3) \<and>
   doc_inv lc_demo_doc3 \<and> updatedAt lc_demo_doc3 \<le> 3000"
proof -
  have m: "lc_demo_doc3 \<in> set (lc_donations lc_demo_st3)"
    using find_donation_Some [OF demo_found(3)] by simp
  show ?thesis
    using demo_reachable3 m lc_reachable_doc_invariant [OF demo_reachable3 m] by blast
qed

text \<open>
  C21: the credit ledger. In every reachable state a donor's credit counter is its
  starting value plus the credit formula (\<open>\<Sigma> min(quantity, CAP_PER_ITEM)\<close>) of each of
  the donor's donations that has been verified and not rejected; a recall takes nothing
  back.
\<close>

theorem lc_reachable_credit_ledger:
  assumes "lc_reachable c0 t st"
  shows "lc_credits st u = c0 u + sum_list (map (\<lambda>d. credits_for (medicines d))
           (filter (\<lambda>d. userId d = u \<and> status d \<notin> {Pending, Rejected}) (lc_donations st)))"
  using lc_reachable_lc_inv [OF assms] credits_earned_by_doc_inv by (simp add: lc_inv_def)

theorem lc_reachable_credit_ledger_witness:
  "lc_reachable (\<lambda>_. 0) 2000 lc_demo_st2 \<and> lc_credits lc_demo_st2 ''donor1'' = 20"
  using demo_reachable2 lc_reachable_credit_ledger [OF demo_reachable2, of "''donor1''"]
  by (simp add: lc_eval)

text \<open>
  C22: the audit trail holds the status history (I3). In every reachable state the
  \<open>update_donation_status\<close> records of a donation, read in order as their
  \<open>oldStatus\<close>/\<open>newStatus\<close> pairs, are allowed transitions of the state machine, in
  the order the donation went through them, on a path from \<open>pending\<close> to its current
  status: every record's \<open>oldStatus\<close> is the status the donation had then, and no record
  is false. A transition whose audit write failed while the transition committed
  (section 4.4) has no record; the path passes through it unrecorded.
\<close>

theorem lc_reachable_status_history:
  assumes "lc_reachable c0 t st" and "d \<in> set (lc_donations st)"
  shows "valid_history Pending (map log_pair (status_log (donation_id d) (audit_logs (lc_audit st)))) (status d)"
  using lc_reachable_hist_inv [OF assms(1)] assms(2) by (simp add: hist_inv_def hist_ok_def)

theorem lc_reachable_status_history_witness:
  "lc_reachable (\<lambda>_. 0) 3000 lc_demo_st3 \<and> lc_demo_doc3 \<in> set (lc_donations lc_demo_st3) \<and>
   valid_history Pending (map log_pair (status_log ''d1'' (audit_logs (lc_audit lc_demo_st3)))) Verified"
proof -
  have m: "lc_demo_doc3 \<in> set (lc_donations lc_demo_st3)"
    using find_donation_Some [OF demo_found(3)] by simp
  have e: "donation_id lc_demo_doc3 = ''d1''" "status lc_demo_doc3 = Verified"
    by (simp_all add: new_lc_donation_def)
  have "valid_history Pending (map log_pair (status_log ''d1'' (audit_logs (lc_audit lc_demo_st3)))) Verified"
    using lc_reachable_status_history [OF demo_reachable3 m] by (simp only: e)
  then show ?thesis
    using demo_reachable3 m by blast
qed


subsection \<open>Competing requests\<close>

text \<open>
  C23: two partners race for one verified, unreserved donation. Whatever the roles (as
  long as the matrix lets both reserve) and clocks, the request applied first wins, the
  other gets \<open>AlreadyReserved\<close>, and the reservation is held by the winner (section
  4.2: the conditional write excludes a double reservation).
\<close>

theorem reserve_race:
  assumes found: "find_donation i st = Some d" and "status d = Verified" and "isReserved d \<noteq> Some True"
    and "authorize r1 Reserve" and "authorize r2 Reserve"
  shows "fst (lc_run [(Reserve_Op a r1 i, n1), (Reserve_Op b r2 i, n2)] st) = [Done, Failed AlreadyReserved] \<and>
         map_option reservedBy (find_donation i (snd (lc_run [(Reserve_Op a r1 i, n1), (Reserve_Op b r2 i, n2)] st))) =
           Some (Some a)"
  using assms find_donation_Some [OF found] by simp

theorem reserve_race_witness:
  "find_donation ''d1'' lc_demo_st2 = Some lc_demo_doc2 \<and> status lc_demo_doc2 = Verified \<and>
   isReserved lc_demo_doc2 \<noteq> Some True \<and> authorize Ngo_Partner Reserve \<and> authorize Admin Reserve \<and>
   fst (lc_run [(Reserve_Op ''ngo1'' Ngo_Partner ''d1'', 3000), (Reserve_Op ''ngo2'' Admin ''d1'', 3000)] lc_demo_st2) =
     [Done, Failed AlreadyReserved]"
proof -
  have h: "status lc_demo_doc2 = Verified" "isReserved lc_demo_doc2 \<noteq> Some True"
    "authorize Ngo_Partner Reserve" "authorize Admin Reserve"
    by (simp_all add: new_lc_donation_def)
  show ?thesis
    using demo_found(2) h reserve_race [OF demo_found(2) h, of "''ngo1''" 3000 "''ngo2''" 3000] by blast
qed

text \<open>
  C24: two reviewers race to verify one pending donation. The first decision is applied,
  the second gets \<open>InvalidTransition\<close>, and the donor is credited once, by the credit
  formula of the donation's line items.
\<close>

theorem verify_race:
  assumes found: "find_donation i st = Some d" and "status d = Pending"
    and "authorize r1 Verify" and "authorize r2 Verify"
  shows "fst (lc_run [(Verify_Op a r1 i Approve, n1), (Verify_Op b r2 i dec, n2)] st) = [Done, Failed InvalidTransition] \<and>
         lc_credits (snd (lc_run [(Verify_Op a r1 i Approve, n1), (Verify_Op b r2 i dec, n2)] st)) =
           (lc_credits st)(userId d := lc_credits st (userId d) + credits_for (medicines d))"
  using assms find_donation_Some [OF found] by simp

theorem verify_race_witness:
  "find_donation ''d1'' lc_demo_st1 = Some lc_demo_doc1 \<and> status lc_demo_doc1 = Pending \<and>
   authorize Reviewer Verify \<and> authorize Admin Verify \<and>
   fst (lc_run [(Verify_Op ''rev1'' Reviewer ''d1'' Approve, 2000), (Verify_Op ''adm1'' Admin ''d1'' (Reject ''duplicate''), 2000)]
          lc_demo_st1) = [Done, Failed InvalidTransition]"
proof -
  have h: "status lc_demo_doc1 = Pending" "authorize Reviewer Verify" "authorize Admin Verify"
    by (simp_all add: new_lc_donation_def)
  show ?thesis
    using demo_found(1) h verify_race [OF demo_found(1) h, of "''rev1''" 2000 "''adm1''" "Reject ''duplicate''" 2000]
    by blast
qed


subsection \<open>Functional behaviour of the operations\<close>

text \<open>
  a recall (admin only, from \<open>verified\<close>, \<open>collected\<close> or \<open>distributed\<close>) moves the
  donation to \<open>recalled\<close>, clears its reservation, keeps the credits it earned, and leaves
  every credit counter as it was.
\<close>

theorem recall_keeps_credits:
  assumes found: "find_donation i st = Some d" and "authorize r Recall"
    and "status d \<in> {Verified, Collected, Distributed}"
  shows "fst (lc_step (Recall_Op a r i reason) now st) = Done \<and>
         lc_credits (snd (lc_step (Recall_Op a r i reason) now st)) = lc_credits st \<and>
         map_option (\<lambda>x. (status x, creditsEarned x, isReserved x))
           (find_donation i (snd (lc_step (Recall_Op a r i reason) now st))) =
           Some (Recalled, creditsEarned d, Some False)"
  using assms find_donation_Some [OF found] by (auto simp add: clear_reservation_def)

theorem recall_keeps_credits_witness:
  "find_donation ''d1'' lc_demo_st3 = Some lc_demo_doc3 \<and> authorize Admin Recall \<and>
   status lc_demo_doc3 \<in> {Verified, Collected, Distributed} \<and>
   lc_credits (snd (lc_step (Recall_Op ''adm1'' Admin ''d1'' ''contaminated batch'') 4000 lc_demo_st3)) =
     lc_credits lc_demo_st3"
proof -
  have h: "authorize Admin Recall" "status lc_demo_doc3 \<in> {Verified, Collected, Distributed}"
    by (simp_all add: new_lc_donation_def)
  show ?thesis
    using demo_found(3) h recall_keeps_credits [OF demo_found(3) h, of "''adm1''" "''contaminated batch''" 4000]
    by blast
qed

text \<open>
  bounds of the credit formula. For line items of positive quantity, a donation
  earns at least one credit per line item and at most \<open>CAP_PER_ITEM\<close> per line item.
\<close>

theorem credits_for_bounds:
  assumes "list_all (\<lambda>m. 1 \<le> quantity m) ms"
  shows "int (length ms) \<le> credits_for ms \<and> credits_for ms \<le> cap_per_item * int (length ms)"
  using assms by (induction ms) (auto simp add: credits_for_def cap_per_item_def)

theorem credits_for_bounds_witness:
  "list_all (\<lambda>m. 1 \<le> quantity m) [lc_demo_med, lc_demo_med\<lparr>quantity := 250\<rparr>] \<and>
   credits_for [lc_demo_med, lc_demo_med\<lparr>quantity := 250\<rparr>] = 120"
  using credits_for_bounds [of "[lc_demo_med, lc_demo_med\<lparr>quantity := 250\<rparr>]"]
  by (simp add: credits_for_def cap_per_item_def)

text \<open>
  C26: only the holder releases. A release succeeds only when the matrix lets the role
  release and the donation is reserved by the requesting partner.
\<close>

theorem release_only_by_holder:
  assumes "fst (lc_step (Release_Op ngo r i) now st) = Done"
  shows "authorize r Release \<and>
         (\<exists>d. find_donation i st = Some d \<and> isReserved d = Some True \<and> reservedBy d = Some ngo)"
  using assms by (auto simp add: deny_def split: if_splits option.splits)

theorem release_only_by_holder_witness:
  "fst (lc_step (Release_Op ''ngo1'' Ngo_Partner ''d1'') 4000 lc_demo_st3) = Done \<and>
   fst (lc_step (Release_Op ''ngo2'' Ngo_Partner ''d1'') 4000 lc_demo_st3) = Failed ReservationConflict"
proof -
  have h: "fst (lc_step (Release_Op ''ngo1'' Ngo_Partner ''d1'') 4000 lc_demo_st3) = Done"
    using demo_found(3) by simp
  have "fst (lc_step (Release_Op ''ngo2'' Ngo_Partner ''d1'') 4000 lc_demo_st3) = Failed ReservationConflict"
    using demo_found(3) by simp
  with h release_only_by_holder [OF h] show ?thesis by blast
qed

text \<open>
  the reservation sweep is idempotent: a second sweep at the same clock finds no
  expired reservation, changes nothing and writes no audit record.
\<close>

theorem sweep_idempotent:
  "lc_step (Sweep ttl) now (snd (lc_step (Sweep ttl) now st)) = (Done, snd (lc_step (Sweep ttl) now st))"
proof -
  let ?h = "\<lambda>d. if reservation_expired ttl now d then (clear_reservation d)\<lparr>updatedAt := now\<rparr> else d"
  have ne: "\<not> reservation_expired ttl now (?h d)" for d
    by (simp add: reservation_expired_def clear_reservation_def)
  have "\<not> reservation_expired ttl now y" if "y \<in> set (map ?h ds)" for y ds
    using that ne by (simp only: set_map) blast
  then have "filter (reservation_expired ttl now) (map ?h ds) = []" for ds
    by (simp only: filter_empty_conv) blast
  moreover have "map ?h (map ?h ds) = map ?h ds" for ds
    using ne by (simp add: map_idI)
  ultimately show ?thesis by simp
qed

text \<open>
  C25: a denied request is audited as far as the audit store allows. When the matrix
  refuses the request's role its action, the request fails with \<open>Unauthorized\<close> and
  changes no donation and no credit; it appends exactly one audit record, of severity
  \<open>critical\<close> (section 4.5), when the audit store is available, and otherwise no record
  and one local error report (section 4.4).
\<close>

theorem denied_request_audited:
  assumes "op_auth op = Some (r, act)" and "\<not> authorize r act"
  shows "fst (lc_step op now st) = Failed Unauthorized \<and>
         lc_donations (snd (lc_step op now st)) = lc_donations st \<and>
         lc_credits (snd (lc_step op now st)) = lc_credits st \<and>
         map al_severity (drop (length (audit_logs (lc_audit st))) (audit_logs (lc_audit (snd (lc_step op now st))))) =
           (if lc_audit_up st then [Critical] else []) \<and>
         length (console_errors (lc_audit (snd (lc_step op now st)))) =
           length (console_errors (lc_audit st)) + (if lc_audit_up st then 0 else 1)"
  using assms by (cases op) (auto simp add: deny_def audit_record_def)

theorem denied_request_audited_witness:
  "op_auth (Verify_Op ''u7'' Volunteer_Applicant ''d1'' Approve) = Some (Volunteer_Applicant, Verify) \<and>
   \<not> authorize Volunteer_Applicant Verify \<and>
   fst (lc_step (Verify_Op ''u7'' Volunteer_Applicant ''d1'' Approve) 2000 lc_demo_st1) = Failed Unauthorized"
  using denied_request_audited [of "Verify_Op ''u7'' Volunteer_Applicant ''d1'' Approve" Volunteer_Applicant Verify
      2000 lc_demo_st1]
  by simp


text \<open>
  a submission that the matrix allows, that passes validation (a pickup address,
  line items of positive quantity that expire at least the shelf-life margin after the
  submission) and whose id is new, creates a pending donation that carries the submitted
  line items and no credits.
\<close>

theorem submit_creates_pending:
  assumes "authorize r SubmitDonation" and "valid_submission now p" and fresh: "find_donation i st = None"
  shows "fst (lc_step (Submit donor r i p) now st) = Created i \<and>
         map_option (\<lambda>x. (userId x, status x, creditsEarned x, medicines x))
           (find_donation i (snd (lc_step (Submit donor r i p) now st))) =
           Some (donor, Pending, 0, sub_medicines p)"
proof -
  from fresh have "find (\<lambda>d. donation_id d = i) (lc_donations st) = None"
    by (simp add: find_donation_def)
  then have "find_donation i (st\<lparr>lc_donations := lc_donations st @ [new_lc_donation donor i p now]\<rparr>) =
      Some (new_lc_donation donor i p now)"
    by (simp add: find_donation_def find_snoc_None new_lc_donation_def)
  with assms show ?thesis by (simp add: new_lc_donation_def)
qed

theorem submit_creates_pending_witness:
  "authorize Donor SubmitDonation \<and> valid_submission 1000 lc_demo_sub \<and>
   find_donation ''d1'' (lc_init (\<lambda>_. 0)) = None \<and>
   fst (lc_step (Submit ''donor1'' Donor ''d1'' lc_demo_sub) 1000 (lc_init (\<lambda>_. 0))) = Created ''d1''"
proof -
  have h: "authorize Donor SubmitDonation" "valid_submission 1000 lc_demo_sub"
    "find_donation ''d1'' (lc_init (\<lambda>_. 0)) = None"
    by (simp_all add: lc_eval)
  show ?thesis
    using h submit_creates_pending [OF h, of "''donor1''"] by blast
qed

subsection \<open>Liveness\<close>

lemma lc_run_three:
  "lc_run [(o1, n1), (o2, n2), (o3, n3)] st =
     (let (r1, s1) = lc_step o1 n1 st; (r2, s2) = lc_step o2 n2 s1; (r3, s3) = lc_step o3 n3 s2
      in ([r1, r2, r3], s3))"
  by (simp add: split_def Let_def)

text \<open>
  C12: liveness of the lifecycle. In every reachable state a pending donation can be
  brought to \<open>distributed\<close>: a reviewer's approval, an admin's collection with a pickup
  date not in the past, and the admin's distribution all succeed, one after the other,
  and the state they reach is again reachable. No reservation can block the
  collection, since a pending donation is never reserved.
\<close>

theorem pending_reaches_distributed:
  assumes reach: "lc_reachable c0 t st" and found: "find_donation i st = Some d"
    and pending: "status d = Pending" and t: "t \<le> now"
    and rv: "authorize r Verify" and ad: "authorize r' MarkCollected" "authorize r' MarkDistributed"
  shows "\<exists>st'. lc_run [(Verify_Op rv r i Approve, now), (Mark_Collected a r' i now None, now),
                       (Mark_Distributed a r' i, now)] st = ([Done, Done, Done], st') \<and>
              map_option status (find_donation i st') = Some Distributed \<and> lc_reachable c0 now st'"
proof -
  have "doc_inv d" using found_doc_inv [OF lc_reachable_lc_inv [OF reach] found] .
  with pending have nres: "isReserved d \<noteq> Some True" by (auto simp add: doc_inv_def)
  have id: "donation_id d = i" using find_donation_Some [OF found] by simp
  define s1 where "s1 = snd (lc_step (Verify_Op rv r i Approve) now st)"
  define s2 where "s2 = snd (lc_step (Mark_Collected a r' i now None) now s1)"
  define s3 where "s3 = snd (lc_step (Mark_Distributed a r' i) now s2)"
  have r1: "fst (lc_step (Verify_Op rv r i Approve) now st) = Done"
    using rv found pending by simp
  obtain d1 where f1: "find_donation i s1 = Some d1" and d1: "status d1 = Verified" "isReserved d1 = isReserved d"
    using rv found pending id by (simp add: s1_def)
  have r2: "fst (lc_step (Mark_Collected a r' i now None) now s1) = Done"
    using ad f1 d1 nres by simp
  obtain d2 where f2: "find_donation i s2 = Some d2" and d2: "status d2 = Collected"
    using ad f1 d1 nres find_donation_Some [OF f1] by (simp add: s2_def clear_reservation_def)
  have r3: "fst (lc_step (Mark_Distributed a r' i) now s2) = Done"
    and f3: "map_option status (find_donation i s3) = Some Distributed"
    using ad f2 d2 find_donation_Some [OF f2] by (simp_all add: s3_def)
  have "lc_reachable c0 now s3"
    unfolding s3_def s2_def s1_def by (intro lc_next [OF lc_next [OF lc_next [OF reach t]]]) simp_all
  moreover have "lc_step (Verify_Op rv r i Approve) now st = (Done, s1)"
    "lc_step (Mark_Collected a r' i now None) now s1 = (Done, s2)"
    "lc_step (Mark_Distributed a r' i) now s2 = (Done, s3)"
    using r1 r2 r3 unfolding s1_def s2_def s3_def by (metis prod.collapse)+
  ultimately show ?thesis
    using f3 by (simp only: lc_run_three Let_def prod.case) blast
qed

theorem pending_reaches_distributed_witness:
  "lc_reachable (\<lambda>_. 0) 1000 lc_demo_st1 \<and> find_donation ''d1'' lc_demo_st1 = Some lc_demo_doc1 \<and>
   status lc_demo_doc1 = Pending \<and>
   (\<exists>st'. lc_run [(Verify_Op ''rev1'' Reviewer ''d1'' Approve, 5000),
                  (Mark_Collected ''adm1'' Admin ''d1'' 5000 None, 5000),
                  (Mark_Distributed ''adm1'' Admin ''d1'', 5000)] lc_demo_st1 = ([Done, Done, Done], st') \<and>
          map_option status (find_donation ''d1'' st') = Some Distributed \<and> lc_reachable (\<lambda>_. 0) 5000 st')"
  using pending_reaches_distributed [OF demo_reachable1 demo_found(1), of 5000 Reviewer Admin "''rev1''" "''adm1''"]
    demo_reachable1 demo_found(1)
  by (simp add: new_lc_donation_def)

end
