(* ===== verification/Client_Common.thy ===== *)
theory Client_Common
  imports Donation_Api
begin

text \<open>
  What the two client forms (\<open>src/app/donate/donation-form.tsx\<close> and
  \<open>src/app/volunteer/volunteer-form.tsx\<close>) share: the argument of \<open>toast(...)\<close>, the
  outcome of \<open>fetch\<close> (a response with its status, or a rejected promise), the HTTP
  status of a handler's response, and JavaScript's \<open>String.prototype.split\<close> and
  \<open>Array.prototype.join\<close> on a one-character separator, with which the forms build their
  messages and the volunteer form its initial name fields.
\<close>

datatype toast_variant = Toast_Plain | Toast_Destructive

record toast =
  toast_title :: string
  toast_description :: string
  toast_variant :: toast_variant

datatype fetch_result = Fetch_Response nat | Fetch_Rejected

text \<open>\<open>response.ok\<close>: a status in the range 200-299.\<close>

definition response_ok :: "nat \<Rightarrow> bool" where
  "response_ok s \<longleftrightarrow> 200 \<le> s \<and> s \<le> 299"

text \<open>The status of \<open>NextResponse.json(body, {status})\<close>, 200 when no status is given.\<close>

fun http_status :: "'a http_response \<Rightarrow> nat" where
  "http_status (Http_Ok _) = 200"
| "http_status (Http_Error n _) = n"

fun js_join :: "string \<Rightarrow> string list \<Rightarrow> string" where
  "js_join sep [] = []"
| "js_join sep [x] = x"
| "js_join sep (x # xs) = x @ sep @ js_join sep xs"

fun js_split :: "char \<Rightarrow> string \<Rightarrow> string list" where
  "js_split c [] = [[]]"
| "js_split c (x # xs) =
     (if x = c then [] # js_split c xs else (let r = js_split c xs in (x # hd r) # tl r))"

subsection \<open>Lemmas\<close>

lemma js_split_not_Nil [simp]: "js_split c s \<noteq> []"
  by (induction s) (simp_all add: Let_def)

lemma js_join_Cons: "xs \<noteq> [] \<Longrightarrow> js_join sep (x # xs) = x @ sep @ js_join sep xs"
  by (cases xs) simp_all

lemma js_join_split: "js_join [c] (js_split c s) = s"
proof (induction s)
  case Nil
  then show ?case by simp
next
  case (Cons x xs)
  show ?case
  proof (cases "x = c")
    case True
    with Cons show ?thesis by (simp add: js_join_Cons)
  next
    case False
    obtain w ws where r: "js_split c xs = w # ws"
      by (cases "js_split c xs") simp_all
    with Cons False show ?thesis by (cases ws) simp_all
  qed
qed

lemma response_ok_http_status [simp]:
  "response_ok (http_status r) \<longleftrightarrow> (case r of Http_Ok _ \<Rightarrow> True | Http_Error n _ \<Rightarrow> 200 \<le> n \<and> n \<le> 299)"
  by (cases r) (simp_all add: response_ok_def)

end
