(* ===== verification/Donation_Form.thy ===== *)
theory Donation_Form
  imports Client_Common
begin

text \<open>
  The donation form of \<open>src/app/donate/donation-form.tsx\<close> as a state machine. Its state
  is the component's \<open>useState\<close> hooks (\<open>formData\<close>, \<open>selectedFiles\<close>,
  \<open>isSubmitting\<close>) together with the effects it has on the page (the toasts shown, the
  lines printed on the console, the redirect scheduled by \<open>setTimeout\<close>). Every handler
  of the component is a function on that state: \<open>handleInputChange\<close>,
  \<open>handleFileChange\<close>, \<open>removeFile\<close>, \<open>validateForm\<close> and \<open>handleSubmit\<close>, the last one
  split at its \<open>await fetch(...)\<close> into the part that sends the request and the part
  that handles the response. The rendering is a function from the session and the state
  to what the page shows. The browser's own checks of the \<open>required\<close> and \<open>min\<close>
  attributes run before \<open>onSubmit\<close> and are not modelled: the handler is what the model
  covers, and what a request crafted without the browser meets is the route's code.
\<close>

record upload_file =
  file_name :: string
  file_size :: nat

record df_state =
  df_form :: "(string, string) js_map"
  df_files :: "upload_file list"
  df_submitting :: bool
  df_toasts :: "toast list"
  df_console :: "string list"
  df_redirect :: "string option"

definition df_initial_form :: "(string, string) js_map" where
  "df_initial_form =
     [(''medicineName'', []), (''quantity'', []), (''unit'', []), (''expiryDate'', []),
      (''batchNumber'', []), (''manufacturer'', []), (''description'', []), (''address'', []),
      (''phone'', []), (''preferredTime'', [])]"

definition df_init :: df_state where
  "df_init = \<lparr>df_form = df_initial_form, df_files = [], df_submitting = False, df_toasts = [],
              df_console = [], df_redirect = None\<rparr>"

definition toast_df :: "string \<Rightarrow> string \<Rightarrow> toast_variant \<Rightarrow> df_state \<Rightarrow> df_state" where
  "toast_df t d v st = st\<lparr>df_toasts := df_toasts st @ [\<lparr>toast_title = t, toast_description = d, toast_variant = v\<rparr>]\<rparr>"

text \<open>\<open>setFormData((prev) => ({...prev, [name]: value}))\<close>.\<close>

definition handle_input_change_df :: "string \<Rightarrow> string \<Rightarrow> df_state \<Rightarrow> df_state" where
  "handle_input_change_df name value st = st\<lparr>df_form := js_map_set name value (df_form st)\<rparr>"

text \<open>\<open>e.target.files\<close> is \<open>null\<close> (\<open>None\<close>) or the chosen files.\<close>

definition handle_file_change_df :: "upload_file list option \<Rightarrow> df_state \<Rightarrow> df_state" where
  "handle_file_change_df files st =
     (case files of
        None \<Rightarrow> st
      | Some fs \<Rightarrow>
          (if 5 < length fs
           then toast_df ''Too many files'' ''Please select maximum 5 images'' Toast_Destructive st
           else st\<lparr>df_files := fs\<rparr>))"

text \<open>\<open>prev.filter((_, i) => i !== index)\<close>.\<close>

definition remove_file_df :: "nat \<Rightarrow> df_state \<Rightarrow> df_state" where
  "remove_file_df index st =
     st\<lparr>df_files := map fst (filter (\<lambda>(_, i). i \<noteq> index) (zip (df_files st) [0..<length (df_files st)]))\<rparr>"

definition df_required :: "string list" where
  "df_required = [''medicineName'', ''quantity'', ''unit'', ''expiryDate'', ''address'', ''phone'']"

text \<open>\<open>!formData[field]\<close>: a missing key (\<open>undefined\<close>) or an empty string.\<close>

definition missing_fields_df :: "(string, string) js_map \<Rightarrow> string list" where
  "missing_fields_df form = filter (\<lambda>f. js_falsy_opt (map_of form f)) df_required"

text \<open>
  \<open>validateForm\<close>. \<open>new Date(formData.expiryDate)\<close> is \<open>parse_date\<close> (\<open>None\<close> for an
  invalid date), \<open>sixMonthsFromNow\<close> is the clock advanced by six calendar months
  (\<open>six_months\<close>). A comparison with an invalid date is false, so such a date passes.
\<close>

definition validate_form_df :: "(string \<Rightarrow> time option) \<Rightarrow> time \<Rightarrow> df_state \<Rightarrow> bool \<times> df_state" where
  "validate_form_df parse_date six_months st =
     (let missing = missing_fields_df (df_form st) in
      if missing \<noteq> [] then
        (False, toast_df ''Missing Information'' (''Please fill in: '' @ js_join '', '' missing) Toast_Destructive st)
      else if df_files st = [] then
        (False, toast_df ''Images Required'' ''Please upload at least one image of the medicine'' Toast_Destructive st)
      else if (case parse_date (case map_of (df_form st) ''expiryDate'' of None \<Rightarrow> [] | Some e \<Rightarrow> e) of
                 None \<Rightarrow> False | Some e \<Rightarrow> e < six_months) then
        (False, toast_df ''Invalid Expiry Date'' ''Medicine must have at least 6 months validity remaining''
                  Toast_Destructive st)
      else (True, st))"

text \<open>The entries of the \<open>FormData\<close> sent: the form's fields in their order, then the
  files as \<open>image_0\<close>, \<open>image_1\<close>, ...\<close>

datatype form_value = FV_Text string | FV_File upload_file

fun nat_string :: "nat \<Rightarrow> string" where
  "nat_string n = (if n < 10 then [''0123456789'' ! n] else nat_string (n div 10) @ [''0123456789'' ! (n mod 10)])"

definition submit_data_df :: "df_state \<Rightarrow> (string \<times> form_value) list" where
  "submit_data_df st =
     map (\<lambda>(k, v). (k, FV_Text v)) (df_form st) @
     map (\<lambda>(f, i). (''image_'' @ nat_string i, FV_File f)) (zip (df_files st) [0..<length (df_files st)])"

text \<open>The text entries of a \<open>FormData\<close>, as the route's \<open>formData.get\<close> sees them (a
  file entry is never read by the route).\<close>

definition form_texts :: "(string \<times> form_value) list \<Rightarrow> form_data" where
  "form_texts es = [(k, s). (k, FV_Text s) \<leftarrow> es]"

text \<open>\<open>handleSubmit\<close> up to \<open>await fetch(...)\<close>: validation, then \<open>isSubmitting\<close> and the
  request.\<close>

definition submit_start_df ::
  "(string \<Rightarrow> time option) \<Rightarrow> time \<Rightarrow> df_state \<Rightarrow> (string \<times> form_value) list option \<times> df_state" where
  "submit_start_df parse_date six_months st =
     (case validate_form_df parse_date six_months st of
        (False, st') \<Rightarrow> (None, st')
      | (True, st') \<Rightarrow> (Some (submit_data_df st'), st'\<lparr>df_submitting := True\<rparr>))"

text \<open>The rest of \<open>handleSubmit\<close>: a response that is not \<open>ok\<close> is thrown, a rejected
  fetch too, and both end in the \<open>catch\<close>; \<open>finally\<close> clears \<open>isSubmitting\<close>. (The
  route always answers JSON, so \<open>response.json()\<close> does not throw.)\<close>

definition submit_finish_df :: "fetch_result \<Rightarrow> df_state \<Rightarrow> df_state" where
  "submit_finish_df r st =
     (if (case r of Fetch_Response s \<Rightarrow> response_ok s | Fetch_Rejected \<Rightarrow> False)
      then (toast_df ''Donation Submitted Successfully!''
              ''Thank you for your generous donation. We'll contact you within 24 hours to arrange pickup.''
              Toast_Plain st)\<lparr>df_form := df_initial_form, df_files := [], df_redirect := Some ''/dashboard'',
                              df_submitting := False\<rparr>
      else (toast_df ''Submission Failed'' ''Please try again or contact support if the problem persists.''
              Toast_Destructive (st\<lparr>df_console := df_console st @ [''Error submitting donation:'']\<rparr>))
             \<lparr>df_submitting := False\<rparr>)"

text \<open>The whole of \<open>handleSubmit\<close>, the server answering the request with \<open>server\<close>.\<close>

definition handle_submit_df ::
  "(string \<Rightarrow> time option) \<Rightarrow> time \<Rightarrow> ((string \<times> form_value) list \<Rightarrow> fetch_result) \<Rightarrow> df_state \<Rightarrow>
   (string \<times> form_value) list option \<times> df_state" where
  "handle_submit_df parse_date six_months server st =
     (case submit_start_df parse_date six_months st of
        (None, st') \<Rightarrow> (None, st')
      | (Some req, st') \<Rightarrow> (Some req, submit_finish_df (server req) st'))"


subsection \<open>Rendering\<close>

text \<open>\<open>(file.size / 1024 / 1024).toFixed(2)\<close>: the division by a power of two is exact,
  and \<open>toFixed\<close> picks the nearest hundredth, the larger one on a tie.\<close>

definition mb_hundredths :: "nat \<Rightarrow> nat" where
  "mb_hundredths sz = (200 * sz + 1048576) div 2097152"

definition mb_label :: "nat \<Rightarrow> string" where
  "mb_label sz =
     (let h = mb_hundredths sz in
      nat_string (h div 100) @ ''.'' @ (if h mod 100 < 10 then ''0'' else []) @ nat_string (h mod 100))"

text \<open>What the component renders: without a session the sign-in card; otherwise the
  form with the value of each input (in the order of the page), one row per selected
  file with its name and size, and the submit button, disabled while submitting.\<close>

datatype df_view =
    DF_Auth_Required
  | DF_Form_View "(string \<times> string) list" "(string \<times> string) list" bool string

definition df_render_order :: "string list" where
  "df_render_order = [''medicineName'', ''manufacturer'', ''quantity'', ''unit'', ''expiryDate'', ''batchNumber'',
     ''description'', ''address'', ''phone'', ''preferredTime'']"

definition donation_form_view :: "session option \<Rightarrow> df_state \<Rightarrow> df_view" where
  "donation_form_view s st =
     (case s of
        None \<Rightarrow> DF_Auth_Required
      | Some _ \<Rightarrow>
          DF_Form_View (map (\<lambda>k. (k, case map_of (df_form st) k of None \<Rightarrow> [] | Some v \<Rightarrow> v)) df_render_order)
            (map (\<lambda>f. (file_name f, ''('' @ mb_label (file_size f) @ '' MB)'')) (df_files st))
            (df_submitting st)
            (if df_submitting st then ''Submitting Donation...'' else ''Submit Medicine Donation''))"

subsection \<open>Events\<close>

text \<open>What the user and the network do to the page. A click on the disabled submit
  button does nothing; a response arrives only for the request in flight.
  \<open>DF_Submit t\<close> carries the value of \<open>sixMonthsFromNow\<close> at the click.\<close>

datatype df_event =
    DF_Input string string
  | DF_Choose_Files "upload_file list option"
  | DF_Remove nat
  | DF_Submit time
  | DF_Response fetch_result

fun df_step :: "(string \<Rightarrow> time option) \<Rightarrow> df_state \<Rightarrow> df_event \<Rightarrow> df_state" where
  "df_step pd st (DF_Input k v) = handle_input_change_df k v st"
| "df_step pd st (DF_Choose_Files fs) = handle_file_change_df fs st"
| "df_step pd st (DF_Remove i) = remove_file_df i st"
| "df_step pd st (DF_Submit six) = (if df_submitting st then st else snd (submit_start_df pd six st))"
| "df_step pd st (DF_Response r) = (if df_submitting st then submit_finish_df r st else st)"

definition df_run :: "(string \<Rightarrow> time option) \<Rightarrow> df_event list \<Rightarrow> df_state \<Rightarrow> df_state" where
  "df_run pd evs st = foldl (df_step pd) st evs"

subsection \<open>Lemmas\<close>

declare nat_string.simps [simp del]

lemma nat_string_digits:
  "nat_string n = (if n < 10 then [''0123456789'' ! n] else nat_string (n div 10) @ [''0123456789'' ! (n mod 10)])"
  by (rule nat_string.simps)

lemma validate_form_df_True:
  "fst (validate_form_df pd six st) \<Longrightarrow> validate_form_df pd six st = (True, st)"
  by (auto simp add: validate_form_df_def Let_def split: if_splits)

lemma toast_df_fields [simp]:
  "df_files (toast_df t d v st) = df_files st" "df_form (toast_df t d v st) = df_form st"
  "df_submitting (toast_df t d v st) = df_submitting st"
  by (simp_all add: toast_df_def)

lemma validate_form_df_fields [simp]:
  "df_files (snd (validate_form_df pd six st)) = df_files st"
  "df_form (snd (validate_form_df pd six st)) = df_form st"
  "df_submitting (snd (validate_form_df pd six st)) = df_submitting st"
  by (simp_all add: validate_form_df_def Let_def)

lemma remove_file_df_length: "length (df_files (remove_file_df i st)) \<le> length (df_files st)"
proof -
  have "length (filter P (zip xs ys)) \<le> length xs" for P and xs :: "'a list" and ys :: "'b list"
    by (rule order_trans [OF length_filter_le]) simp
  then show ?thesis by (simp add: remove_file_df_def)
qed

lemma submit_start_df_fields:
  "df_files (snd (submit_start_df pd six st)) = df_files st"
  "df_form (snd (submit_start_df pd six st)) = df_form st"
proof -
  obtain b st' where v: "validate_form_df pd six st = (b, st')" by fastforce
  then have "df_files st' = df_files st" "df_form st' = df_form st"
    using validate_form_df_fields(1,2) [of pd six st] by simp_all
  with v show "df_files (snd (submit_start_df pd six st)) = df_files st"
    "df_form (snd (submit_start_df pd six st)) = df_form st"
    by (cases b; simp add: submit_start_df_def)+
qed

lemma df_step_files_bound:
  "length (df_files st) \<le> 5 \<Longrightarrow> length (df_files (df_step pd st e)) \<le> 5"
  by (cases e)
     (auto simp add: handle_input_change_df_def handle_file_change_df_def
        submit_start_df_fields submit_finish_df_def split: option.splits
        intro: order_trans [OF remove_file_df_length])

text \<open>
  \<open>removeFile(index)\<close> removes exactly the file at that position: the list of
  selected files becomes the files before it followed by the files after it (an index
  out of range changes nothing).
\<close>

theorem remove_file_df_removes_index:
  "df_files (remove_file_df i st) = take i (df_files st) @ drop (Suc i) (df_files st)"
proof -
  have "map fst (filter (\<lambda>(_, j). j \<noteq> i) (zip xs [k..<k + length xs])) =
        take (i - k) xs @ drop (Suc i - k) xs" if "k \<le> i \<or> k > i" for xs k
  proof (induction xs arbitrary: k)
    case Nil
    then show ?case by simp
  next
    case (Cons x xs)
    have "[k..<k + length (x # xs)] = k # [Suc k..<Suc k + length xs]"
      by (simp add: upt_rec)
    with Cons.IH [of "Suc k"] show ?case
      by (cases "k = i") (auto simp add: Suc_diff_le take_Cons' drop_Cons')
  qed
  from this [of 0 "df_files st"] show ?thesis
    by (simp add: remove_file_df_def)
qed


subsection \<open>Properties of the form\<close>

text \<open>
  what \<open>validateForm\<close> accepts: exactly a form whose six required fields are
  non-empty, with at least one image, and whose expiry date is not before six months
  from now, or does not parse as a date at all (an invalid date passes).
\<close>

theorem validate_form_df_accepts:
  "fst (validate_form_df pd six st) \<longleftrightarrow>
     list_all (\<lambda>f. \<not> js_falsy_opt (map_of (df_form st) f)) df_required \<and> df_files st \<noteq> [] \<and>
     (case pd (case map_of (df_form st) ''expiryDate'' of None \<Rightarrow> [] | Some e \<Rightarrow> e) of
        None \<Rightarrow> True | Some e \<Rightarrow> six \<le> e)"
  by (auto simp add: validate_form_df_def missing_fields_df_def Let_def filter_empty_conv list_all_iff
      split: option.splits)

text \<open>
  at most five selected files. In every run of the page from its initial state,
  whatever the user does and whatever the network answers, at most five files are
  selected.
\<close>

theorem df_run_files_bound: "length (df_files (df_run pd evs df_init)) \<le> 5"
proof -
  have "length (df_files (foldl (df_step pd) st evs)) \<le> 5" if "length (df_files st) \<le> 5" for st
    using that by (induction evs arbitrary: st) (simp_all add: df_step_files_bound)
  then show ?thesis by (simp add: df_run_def df_init_def)
qed

text \<open>
  the end of \<open>handleSubmit\<close>. It always clears \<open>isSubmitting\<close>; on an \<open>ok\<close>
  response it resets the form and the files and schedules the redirect to the
  dashboard; on any other outcome it keeps what the user entered.
\<close>

theorem submit_finish_df_outcome:
  "\<not> df_submitting (submit_finish_df r st) \<and>
   (df_form (submit_finish_df r st), df_files (submit_finish_df r st), df_redirect (submit_finish_df r st)) =
     (if (case r of Fetch_Response n \<Rightarrow> response_ok n | Fetch_Rejected \<Rightarrow> False)
      then (df_initial_form, [], Some ''/dashboard'') else (df_form st, df_files st, df_redirect st))"
  by (simp add: submit_finish_df_def toast_df_def)

text \<open>
  the size shown for a file, \<open>(size / 1024 / 1024).toFixed(2)\<close>, is the nearest
  hundredth of a megabyte: within half a hundredth of the size, a tie rounded up.
\<close>

theorem mb_hundredths_nearest:
  "mb_hundredths sz * 1048576 \<le> 100 * sz + 524288 \<and> 100 * sz < mb_hundredths sz * 1048576 + 524288"
proof -
  let ?h = "mb_hundredths sz"
  have "?h * 2097152 + (200 * sz + 1048576) mod 2097152 = 200 * sz + 1048576"
    unfolding mb_hundredths_def by (rule div_mult_mod_eq)
  moreover have "(200 * sz + 1048576) mod 2097152 < 2097152"
    by (rule mod_less_divisor) simp
  ultimately show ?thesis by linarith
qed

end
