(* ===== verification/Volunteer_Form.thy ===== *)
theory Volunteer_Form
  imports Client_Common
begin

text \<open>
  The volunteer application form of \<open>src/app/volunteer/volunteer-form.tsx\<close> as a state
  machine, in the same way as the donation form: the \<open>useState\<close> hooks
  (\<open>formData\<close>, \<open>selectedRoles\<close>, \<open>isSubmitting\<close>) with the page's effects, one function
  per handler, \<open>handleSubmit\<close> split at its \<open>await fetch(...)\<close>, the rendering, and the
  events of the page. The request is a JSON body (\<open>JSON.stringify\<close> of the form, the
  roles and the user id), which is what the route receives.
\<close>

record volunteer_role =
  vr_id :: string
  vr_label :: string
  vr_description :: string
  vr_requirements :: string

definition volunteer_roles :: "volunteer_role list" where
  "volunteer_roles =
     [\<lparr>vr_id = ''verification'', vr_label = ''Medicine Verification'',
       vr_description = ''Help verify donated medicines using our AI-powered tools'',
       vr_requirements = ''Basic medical knowledge helpful but not required''\<rparr>,
      \<lparr>vr_id = ''pickup'', vr_label = ''Pickup & Delivery'',
       vr_description = ''Collect medicines from donors and deliver to NGOs'',
       vr_requirements = ''Own transportation required''\<rparr>,
      \<lparr>vr_id = ''outreach'', vr_label = ''Community Outreach'',
       vr_description = ''Spread awareness about medicine donation in communities'',
       vr_requirements = ''Good communication skills''\<rparr>,
      \<lparr>vr_id = ''admin'', vr_label = ''Administrative Support'',
       vr_description = ''Help with documentation, coordination, and data management'',
       vr_requirements = ''Basic computer skills''\<rparr>,
      \<lparr>vr_id = ''tech'', vr_label = ''Technical Support'',
       vr_description = ''Help improve our platform and AI verification systems'',
       vr_requirements = ''Programming or technical background''\<rparr>]"

record vf_state =
  vf_form :: "(string, string) js_map"
  vf_roles :: "string list"
  vf_submitting :: bool
  vf_toasts :: "toast list"
  vf_console :: "string list"
  vf_redirect :: "string option"

text \<open>\<open>session?.user?.name?.split(" ")[0] || ""\<close> and
  \<open>session?.user?.name?.split(" ").slice(1).join(" ") || ""\<close>.\<close>

definition name_first :: "string option \<Rightarrow> string" where
  "name_first n = (case n of None \<Rightarrow> [] | Some s \<Rightarrow> hd (js_split CHR '' '' s))"

definition name_last :: "string option \<Rightarrow> string" where
  "name_last n = (case n of None \<Rightarrow> [] | Some s \<Rightarrow> js_join '' '' (tl (js_split CHR '' '' s)))"

definition vf_initial_form :: "session option \<Rightarrow> (string, string) js_map" where
  "vf_initial_form s =
     [(''firstName'', name_first (Option.bind s sess_name)), (''lastName'', name_last (Option.bind s sess_name)),
      (''email'', js_or (Option.bind s sess_email) []), (''phone'', []), (''age'', []), (''address'', []),
      (''occupation'', []), (''experience'', []), (''qualifications'', []), (''hoursPerWeek'', []),
      (''preferredDays'', []), (''motivation'', []), (''emergencyContact'', []), (''emergencyPhone'', [])]"

definition vf_init :: "session option \<Rightarrow> vf_state" where
  "vf_init s = \<lparr>vf_form = vf_initial_form s, vf_roles = [], vf_submitting = False, vf_toasts = [],
                vf_console = [], vf_redirect = None\<rparr>"

definition toast_vf :: "string \<Rightarrow> string \<Rightarrow> toast_variant \<Rightarrow> vf_state \<Rightarrow> vf_state" where
  "toast_vf t d v st = st\<lparr>vf_toasts := vf_toasts st @ [\<lparr>toast_title = t, toast_description = d, toast_variant = v\<rparr>]\<rparr>"

definition handle_input_change_vf :: "string \<Rightarrow> string \<Rightarrow> vf_state \<Rightarrow> vf_state" where
  "handle_input_change_vf name value st = st\<lparr>vf_form := js_map_set name value (vf_form st)\<rparr>"

definition handle_role_change_vf :: "string \<Rightarrow> bool \<Rightarrow> vf_state \<Rightarrow> vf_state" where
  "handle_role_change_vf roleId checked st =
     (if checked then st\<lparr>vf_roles := vf_roles st @ [roleId]\<rparr>
      else st\<lparr>vf_roles := filter (\<lambda>i. i \<noteq> roleId) (vf_roles st)\<rparr>)"

definition vf_required :: "string list" where
  "vf_required = [''firstName'', ''lastName'', ''email'', ''phone'', ''motivation'']"

definition missing_fields_vf :: "(string, string) js_map \<Rightarrow> string list" where
  "missing_fields_vf form = filter (\<lambda>f. js_falsy_opt (map_of form f)) vf_required"

definition validate_form_vf :: "vf_state \<Rightarrow> bool \<times> vf_state" where
  "validate_form_vf st =
     (let missing = missing_fields_vf (vf_form st) in
      if missing \<noteq> [] then
        (False, toast_vf ''Missing Information'' (''Please fill in: '' @ js_join '', '' missing) Toast_Destructive st)
      else if vf_roles st = [] then
        (False, toast_vf ''Select Volunteer Roles'' ''Please select at least one way you'd like to help''
                  Toast_Destructive st)
      else (True, st))"

text \<open>\<open>JSON.stringify({...formData, selectedRoles, userId: session?.user?.id})\<close>: the
  spread's keys in order, then the two others (replacing a key of the same name), a key
  whose value is \<open>undefined\<close> left out.\<close>

definition submit_data_vf :: "session option \<Rightarrow> vf_state \<Rightarrow> json" where
  "submit_data_vf s st =
     JObj [(k, v). (k, Some v) \<leftarrow>
       js_map_set ''userId'' (map_option JStr (Option.bind s sess_user_id))
         (js_map_set ''selectedRoles'' (Some (JArr (map JStr (vf_roles st))))
            (map (\<lambda>(k, v). (k, Some (JStr v))) (vf_form st)))]"

definition submit_start_vf :: "session option \<Rightarrow> vf_state \<Rightarrow> request_body option \<times> vf_state" where
  "submit_start_vf s st =
     (case validate_form_vf st of
        (False, st') \<Rightarrow> (None, st')
      | (True, st') \<Rightarrow> (Some (Json_Body (submit_data_vf s st')), st'\<lparr>vf_submitting := True\<rparr>))"

definition submit_finish_vf :: "session option \<Rightarrow> fetch_result \<Rightarrow> vf_state \<Rightarrow> vf_state" where
  "submit_finish_vf s r st =
     (if (case r of Fetch_Response n \<Rightarrow> response_ok n | Fetch_Rejected \<Rightarrow> False)
      then (toast_vf ''Application Submitted Successfully!''
              ''Thank you for your interest in volunteering. We'll contact you within 48 hours with next steps.''
              Toast_Plain st)\<lparr>vf_form := vf_initial_form s, vf_roles := [], vf_redirect := Some ''/dashboard'',
                              vf_submitting := False\<rparr>
      else (toast_vf ''Submission Failed'' ''Please try again or contact support if the problem persists.''
              Toast_Destructive (st\<lparr>vf_console := vf_console st @ [''Error submitting volunteer application:'']\<rparr>))
             \<lparr>vf_submitting := False\<rparr>)"

definition handle_submit_vf ::
  "session option \<Rightarrow> (request_body \<Rightarrow> fetch_result) \<Rightarrow> vf_state \<Rightarrow> request_body option \<times> vf_state" where
  "handle_submit_vf s server st =
     (case submit_start_vf s st of
        (None, st') \<Rightarrow> (None, st')
      | (Some req, st') \<Rightarrow> (Some req, submit_finish_vf s (server req) st'))"


subsection \<open>Rendering and events\<close>

text \<open>The page: the sign-in card without a session; otherwise the inputs' values, one
  card per volunteer role with its checkbox (checked when the role is selected), and the
  submit button, disabled while submitting or while no role is selected.\<close>

datatype vf_view =
    VF_Auth_Required
  | VF_Form_View "(string \<times> string) list" "(string \<times> string \<times> bool) list" bool string

definition vf_render_order :: "string list" where
  "vf_render_order = [''firstName'', ''lastName'', ''email'', ''phone'', ''age'', ''occupation'', ''address'',
     ''qualifications'', ''experience'', ''hoursPerWeek'', ''preferredDays'', ''motivation'', ''emergencyContact'',
     ''emergencyPhone'']"

definition vf_submit_disabled :: "vf_state \<Rightarrow> bool" where
  "vf_submit_disabled st \<longleftrightarrow> vf_submitting st \<or> vf_roles st = []"

definition volunteer_form_view :: "session option \<Rightarrow> vf_state \<Rightarrow> vf_view" where
  "volunteer_form_view s st =
     (case s of
        None \<Rightarrow> VF_Auth_Required
      | Some _ \<Rightarrow>
          VF_Form_View (map (\<lambda>k. (k, case map_of (vf_form st) k of None \<Rightarrow> [] | Some v \<Rightarrow> v)) vf_render_order)
            (map (\<lambda>r. (vr_id r, vr_label r, vr_id r \<in> set (vf_roles st))) volunteer_roles)
            (vf_submit_disabled st)
            (if vf_submitting st then ''Submitting Application...'' else ''Submit Volunteer Application''))"

text \<open>A click on the checkbox of the \<open>k\<close>-th role card calls \<open>onCheckedChange\<close> with the
  negation of its \<open>checked\<close> state; a click on the disabled button does nothing; a
  response arrives only for the request in flight.\<close>

datatype vf_event =
    VF_Input string string
  | VF_Toggle_Role nat
  | VF_Submit
  | VF_Response fetch_result

fun vf_step :: "session option \<Rightarrow> vf_state \<Rightarrow> vf_event \<Rightarrow> vf_state" where
  "vf_step s st (VF_Input k v) = handle_input_change_vf k v st"
| "vf_step s st (VF_Toggle_Role k) =
     (if k < length volunteer_roles
      then handle_role_change_vf (vr_id (volunteer_roles ! k)) (vr_id (volunteer_roles ! k) \<notin> set (vf_roles st)) st
      else st)"
| "vf_step s st VF_Submit = (if vf_submit_disabled st then st else snd (submit_start_vf s st))"
| "vf_step s st (VF_Response r) = (if vf_submitting st then submit_finish_vf s r st else st)"

definition vf_run :: "session option \<Rightarrow> vf_event list \<Rightarrow> vf_state \<Rightarrow> vf_state" where
  "vf_run s evs st = foldl (vf_step s) st evs"

definition role_ids :: "string list" where
  "role_ids = map vr_id volunteer_roles"

subsection \<open>Lemmas\<close>

lemma validate_form_vf_True: "fst (validate_form_vf st) \<Longrightarrow> validate_form_vf st = (True, st)"
  by (auto simp add: validate_form_vf_def Let_def split: if_splits)

lemma toast_vf_fields [simp]:
  "vf_roles (toast_vf t d v st) = vf_roles st" "vf_form (toast_vf t d v st) = vf_form st"
  "vf_submitting (toast_vf t d v st) = vf_submitting st"
  by (simp_all add: toast_vf_def)

lemma validate_form_vf_fields [simp]:
  "vf_roles (snd (validate_form_vf st)) = vf_roles st"
  "vf_form (snd (validate_form_vf st)) = vf_form st"
  by (simp_all add: validate_form_vf_def Let_def)

lemma submit_start_vf_fields:
  "vf_roles (snd (submit_start_vf s st)) = vf_roles st"
proof -
  obtain b st' where v: "validate_form_vf st = (b, st')" by fastforce
  then have "vf_roles st' = vf_roles st"
    using validate_form_vf_fields(1) [of st] by simp
  with v show ?thesis by (cases b) (simp_all add: submit_start_vf_def)
qed

lemma vf_step_roles:
  "distinct (vf_roles st) \<and> set (vf_roles st) \<subseteq> set role_ids \<Longrightarrow>
   distinct (vf_roles (vf_step s st e)) \<and> set (vf_roles (vf_step s st e)) \<subseteq> set role_ids"
  by (cases e)
     (auto simp add: handle_input_change_vf_def handle_role_change_vf_def submit_start_vf_fields
        submit_finish_vf_def distinct_filter role_ids_def)

lemma js_split_single: "length (js_split c s) = Suc 0 \<longleftrightarrow> c \<notin> set s"
proof (induction s)
  case Nil
  then show ?case by simp
next
  case (Cons x xs)
  then show ?case
    by (cases "js_split c xs") (auto simp add: Let_def)
qed


subsection \<open>Properties of the form\<close>

text \<open>
  C34: the initial name fields split the session's name and lose nothing: for a name
  with a space, first name, a space and last name give the name back; for a name without
  one, the first name is the whole name.
\<close>

theorem name_split_roundtrip:
  "(if CHR '' '' \<in> set n then name_first (Some n) @ '' '' @ name_last (Some n) else name_first (Some n)) = n"
proof -
  obtain w ws where sp: "js_split CHR '' '' n = w # ws"
    by (cases "js_split CHR '' '' n") simp_all
  have j: "js_join '' '' (w # ws) = n"
    using js_join_split [of "CHR '' ''" n] sp by simp
  show ?thesis
  proof (cases "ws = []")
    case True
    with sp js_split_single [of "CHR '' ''" n] j show ?thesis
      by (simp add: name_first_def)
  next
    case False
    with sp js_split_single [of "CHR '' ''" n] j show ?thesis
      by (simp add: name_first_def name_last_def js_join_Cons)
  qed
qed

text \<open>
  what \<open>validateForm\<close> accepts: exactly a form whose five required fields are
  non-empty, with at least one volunteer role selected.
\<close>

theorem validate_form_vf_accepts:
  "fst (validate_form_vf st) \<longleftrightarrow>
     list_all (\<lambda>f. \<not> js_falsy_opt (map_of (vf_form st) f)) vf_required \<and> vf_roles st \<noteq> []"
  by (auto simp add: validate_form_vf_def missing_fields_vf_def Let_def filter_empty_conv list_all_iff)

text \<open>
  the selected roles stay a set of the offered roles. In every run of the page from
  its initial state the selected roles are distinct ids of the five role cards, however
  often the user toggles them.
\<close>

theorem vf_run_roles_distinct:
  "distinct (vf_roles (vf_run s evs (vf_init s))) \<and> set (vf_roles (vf_run s evs (vf_init s))) \<subseteq> set role_ids"
proof -
  have "distinct (vf_roles (foldl (vf_step s) st evs)) \<and> set (vf_roles (foldl (vf_step s) st evs)) \<subseteq> set role_ids"
    if "distinct (vf_roles st) \<and> set (vf_roles st) \<subseteq> set role_ids" for st
    using that by (induction evs arbitrary: st) (simp_all add: vf_step_roles)
  then show ?thesis by (simp add: vf_run_def vf_init_def)
qed

end
