(* ===== verification/Navigation.thy ===== *)
theory Navigation
  imports Access_Control
begin

text \<open>
  The navigation bar of \<open>src/components/navigation.tsx\<close>. Its inputs are the current
  path (\<open>usePathname()\<close>) and the session (\<open>useSession()\<close>, \<open>None\<close> while signed out);
  its state is the mobile menu's \<open>isMenuOpen\<close>. The items are the five general ones and,
  for the roles that have them, the role's own items, looked up in \<open>roleNavItems\<close> by
  the session's role; an item marked \<open>auth\<close> is hidden without a session. The rendering
  is a function of path, session and state; the menu's two handlers are the events.
\<close>

record nav_item =
  nav_name :: string
  nav_href :: string
  nav_auth :: bool

definition nav_items :: "nav_item list" where
  "nav_items =
     [\<lparr>nav_name = ''Home'', nav_href = ''/'', nav_auth = False\<rparr>,
      \<lparr>nav_name = ''Dashboard'', nav_href = ''/dashboard'', nav_auth = True\<rparr>,
      \<lparr>nav_name = ''Donate'', nav_href = ''/donate'', nav_auth = False\<rparr>,
      \<lparr>nav_name = ''Volunteer'', nav_href = ''/volunteer'', nav_auth = False\<rparr>,
      \<lparr>nav_name = ''Transparency'', nav_href = ''/transparency'', nav_auth = False\<rparr>]"

text \<open>\<open>roleNavItems[role]\<close>: \<open>undefined\<close> (\<open>None\<close>) for a role without items.\<close>

definition role_nav_items :: "string \<Rightarrow> nav_item list option" where
  "role_nav_items r =
     map_of [(''admin'', [\<lparr>nav_name = ''Analytics'', nav_href = ''/analytics'', nav_auth = False\<rparr>,
                          \<lparr>nav_name = ''Users'', nav_href = ''/admin/users'', nav_auth = False\<rparr>]),
             (''ngo_partner'', [\<lparr>nav_name = ''NGO Dashboard'', nav_href = ''/ngo/dashboard'', nav_auth = False\<rparr>]),
             (''reviewer'', [\<lparr>nav_name = ''Verify Medicines'', nav_href = ''/reviewer/verify'', nav_auth = False\<rparr>])] r"

text \<open>\<open>allNavItems\<close>: the general items, then the role's items when
  \<open>session?.user?.role && roleNavItems[role]\<close> holds (an empty role is falsy).\<close>

definition all_nav_items :: "session option \<Rightarrow> nav_item list" where
  "all_nav_items s =
     nav_items @
       (case Option.bind s sess_role of
          None \<Rightarrow> []
        | Some r \<Rightarrow> (if r = [] then [] else (case role_nav_items r of None \<Rightarrow> [] | Some its \<Rightarrow> its)))"

text \<open>\<open>if (item.auth && !session) return null\<close>, in both the desktop and the mobile list.\<close>

definition visible_nav_items :: "session option \<Rightarrow> nav_item list" where
  "visible_nav_items s = filter (\<lambda>it. \<not> (nav_auth it \<and> s = None)) (all_nav_items s)"

definition is_active :: "string \<Rightarrow> string \<Rightarrow> bool" where
  "is_active pathname path \<longleftrightarrow> pathname = path"

record nav_state =
  menu_open :: bool

datatype nav_link = Nav_Link string string bool

datatype account_area =
    Account_Menu "string option" "string option" "string list"
  | Sign_In_Up

datatype nav_view = Nav_View "nav_link list" account_area bool "nav_link list"

text \<open>A link of the list: its text, its target, and whether it is highlighted.\<close>

definition nav_link_of :: "string \<Rightarrow> nav_item \<Rightarrow> nav_link" where
  "nav_link_of pathname it = Nav_Link (nav_name it) (nav_href it) (is_active pathname (nav_href it))"

text \<open>
  The header: the desktop links; the account dropdown (name, email, and the links to
  \<open>/dashboard\<close>, \<open>/profile\<close>, \<open>/settings\<close>, then \<open>Log out\<close>) with a session, the sign-in
  and sign-up buttons without; the menu toggle; and, when the menu is open, the mobile
  list, which also offers sign-in and sign-up without a session.
\<close>

definition navigation_view :: "string \<Rightarrow> session option \<Rightarrow> nav_state \<Rightarrow> nav_view" where
  "navigation_view pathname s st =
     Nav_View (map (nav_link_of pathname) (visible_nav_items s))
       (case s of
          None \<Rightarrow> Sign_In_Up
        | Some u \<Rightarrow> Account_Menu (sess_name u) (sess_email u) [''/dashboard'', ''/profile'', ''/settings''])
       (menu_open st)
       (if menu_open st
        then map (nav_link_of pathname) (visible_nav_items s) @
             (if s = None then [Nav_Link ''Sign in'' ''/auth/signin'' False, Nav_Link ''Sign up'' ''/auth/signup'' False]
              else [])
        else [])"

text \<open>The menu's events: the toggle button, and a click on a link of the mobile list
  (\<open>onClick={() => setIsMenuOpen(false)}\<close>).\<close>

datatype nav_event = Toggle_Menu | Mobile_Link_Click

fun nav_step :: "nav_state \<Rightarrow> nav_event \<Rightarrow> nav_state" where
  "nav_step st Toggle_Menu = st\<lparr>menu_open := \<not> menu_open st\<rparr>"
| "nav_step st Mobile_Link_Click = st\<lparr>menu_open := False\<rparr>"

definition nav_hrefs :: "nav_view \<Rightarrow> string list" where
  "nav_hrefs v =
     (case v of Nav_View ls a _ ms \<Rightarrow>
        map (\<lambda>l. case l of Nav_Link _ h _ \<Rightarrow> h) (ls @ ms) @
        (case a of Account_Menu _ _ hs \<Rightarrow> hs | Sign_In_Up \<Rightarrow> [''/auth/signin'', ''/auth/signup'']))"


subsection \<open>Lemmas\<close>

lemma role_nav_items_cases:
  "role_nav_items r = None \<or> r = ''admin'' \<or> r = ''ngo_partner'' \<or> r = ''reviewer''"
  by (auto simp add: role_nav_items_def)

lemma all_nav_items_hrefs:
  "map nav_href (all_nav_items s) \<in>
     {[''/'', ''/dashboard'', ''/donate'', ''/volunteer'', ''/transparency''],
      [''/'', ''/dashboard'', ''/donate'', ''/volunteer'', ''/transparency'', ''/analytics'', ''/admin/users''],
      [''/'', ''/dashboard'', ''/donate'', ''/volunteer'', ''/transparency'', ''/ngo/dashboard''],
      [''/'', ''/dashboard'', ''/donate'', ''/volunteer'', ''/transparency'', ''/reviewer/verify'']}"
  using role_nav_items_cases [of "the (Option.bind s sess_role)"]
  by (auto simp add: all_nav_items_def nav_items_def role_nav_items_def split: option.split)

lemma middleware_not_redirect_iff:
  "middleware_run tk h \<noteq> MW_Redirect_SignIn \<longleftrightarrow> (matcher_applies h \<longrightarrow> authorized tk h)"
  by (simp add: middleware_run_def)


lemmas nav_view_defs = navigation_view_def nav_hrefs_def visible_nav_items_def all_nav_items_def nav_items_def
  nav_link_of_def

lemmas mw_eval = middleware_not_redirect_iff matcher_applies_def matcher_excluded_def authorized_def
  starts_with_def

text \<open>
  C14: the navigation bar never links into the sign-in redirect. With the page token
  carrying the session's role (the next-auth JWT the middleware reads), every link the
  bar renders, in the desktop list, the account menu and the mobile list, is one the
  middleware lets through: the dashboard link only appears with a session, the admin
  link only for the role \<open>admin\<close>.
\<close>

theorem nav_links_pass_middleware:
  "list_all (\<lambda>h. middleware_run (map_option (\<lambda>u. \<lparr>tok_role = sess_role u\<rparr>) s) h \<noteq> MW_Redirect_SignIn)
     (nav_hrefs (navigation_view p s st))"
proof (cases s)
  case None
  then show ?thesis by (simp add: nav_view_defs mw_eval)
next
  case (Some u)
  show ?thesis
  proof (cases "sess_role u")
    case None
    with Some show ?thesis by (simp add: nav_view_defs mw_eval)
  next
    case (Some r)
    with \<open>s = Some u\<close> role_nav_items_cases [of r] show ?thesis
      by (auto simp add: nav_view_defs mw_eval role_nav_items_def)
  qed
qed


lemma distinct_filter_eq_length: "distinct xs \<Longrightarrow> length (filter (\<lambda>x. x = a) xs) \<le> 1"
  by (induction xs) (auto simp add: filter_empty_conv)

lemma distinct_nav_hrefs: "distinct (map nav_href (visible_nav_items s))"
proof -
  have "distinct (map nav_href (all_nav_items s))"
    using all_nav_items_hrefs [of s] by auto
  then show ?thesis
    unfolding visible_nav_items_def by (rule distinct_map_filter)
qed

text \<open>
  at most one link of the bar is highlighted. Whatever the path and the session,
  the desktop list marks at most one item as the current page, since no two items of a
  list share a target.
\<close>

theorem nav_at_most_one_active:
  "length (filter (\<lambda>l. case l of Nav_Link _ _ a \<Rightarrow> a) (map (nav_link_of p) (visible_nav_items s))) \<le> 1"
proof -
  have "length (filter (\<lambda>l. case l of Nav_Link _ _ a \<Rightarrow> a) (map (nav_link_of p) its)) =
        length (filter (\<lambda>x. x = p) (map nav_href its))" for its
    by (induction its) (auto simp add: nav_link_of_def is_active_def)
  with distinct_filter_eq_length [OF distinct_nav_hrefs [of s], of p] show ?thesis by simp
qed

end
