(* ===== verification/Pages.thy ===== *)
theory Pages
  imports Navigation Donation_Form Volunteer_Form
begin

text \<open>
  The server pages and the page shell: \<open>src/app/donate/page.tsx\<close> and
  \<open>src/app/volunteer/page.tsx\<close> (a session guard around their form),
  \<open>src/app/dashboard/page.tsx\<close> (which reads the Clerk session, not next-auth's),
  the error boundary of \<open>src/components/error-boundary.tsx\<close> as a state machine, and
  the root layout of \<open>src/app/layout.tsx\<close>, which puts the navigation bar, the page
  and the footer inside the boundary. A server page either redirects (\<open>redirect(...)\<close>
  throws Next's redirect), renders, or throws.
\<close>

datatype 'v page_result = Page_Redirect string | Page_Render 'v | Page_Throw string

text \<open>
  The two forms are client components and read the session with next-auth's
  \<open>useSession()\<close> (\<open>const { data: session } = useSession()\<close>), not the server session the
  page checked: on the client the hook starts \<open>loading\<close>, with no data, and then has the
  session (or none). A form is mounted at its first render, where its \<open>useState\<close>
  initializers run, and is rendered again with the hook's later value.
\<close>

datatype use_session = Session_Loading | Session_Unauthenticated | Session_Authenticated session

definition use_session_data :: "use_session \<Rightarrow> session option" where
  "use_session_data c = (case c of Session_Authenticated u \<Rightarrow> Some u | _ \<Rightarrow> None)"

subsection \<open>The donate and volunteer pages\<close>

text \<open>The static parts of the pages are their headings and the titles of their cards
  and lists (the donate page's benefits and guidelines, the volunteer page's roles and
  reasons). The page checks the server session (\<open>getServerSession\<close>); the form it renders
  reads \<open>useSession()\<close>: \<open>c\<close> is the hook's current value and, for the volunteer form,
  whose initial state is built from the session, \<open>c0\<close> its value when the form mounted.\<close>

datatype donate_page_view = Donate_Page string "string list" "string list" df_view

definition donate_benefits :: "string list" where
  "donate_benefits = [''AI Verified'', ''Direct Impact'', ''Trusted Network'', ''Easy Process'']"

definition donate_guidelines :: "string list" where
  "donate_guidelines =
     [''Medicines must be unexpired (at least 6 months validity)'', ''Original packaging with clear labels required'',
      ''Medicines should be stored in proper conditions'', ''Remove personal information from prescription labels'',
      ''Take clear photos of medicine packaging'', ''Ensure medicines are not damaged or tampered'']"

definition donate_page :: "session option \<Rightarrow> use_session \<Rightarrow> donate_page_view page_result" where
  "donate_page s c =
     (case s of
        None \<Rightarrow> Page_Redirect ''/auth/signin?callbackUrl=/donate''
      | Some _ \<Rightarrow> Page_Render (Donate_Page ''Donate Medicines'' donate_benefits donate_guidelines
                   (donation_form_view (use_session_data c) df_init)))"

datatype volunteer_page_view = Volunteer_Page string "string list" "string list" vf_view

definition volunteer_roles :: "string list" where
  "volunteer_roles = [''Medicine Verification'', ''Pickup & Delivery'', ''Community Outreach'', ''Administrative Support'']"

definition volunteer_reasons :: "string list" where
  "volunteer_reasons =
     [''Make Real Impact'', ''Flexible Schedule'', ''Learn & Grow'', ''Join Community'', ''Recognition'',
      ''Training Provided'']"

definition volunteer_page :: "session option \<Rightarrow> use_session \<Rightarrow> use_session \<Rightarrow> volunteer_page_view page_result" where
  "volunteer_page s c0 c =
     (case s of
        None \<Rightarrow> Page_Redirect ''/auth/signin?callbackUrl=/volunteer''
      | Some _ \<Rightarrow> Page_Render (Volunteer_Page ''Become a Volunteer'' volunteer_roles volunteer_reasons
                   (volunteer_form_view (use_session_data c) (vf_init (use_session_data c0)))))"

subsection \<open>The dashboard page\<close>

text \<open>
  The dashboard reads Clerk's \<open>auth()\<close> and \<open>clerkClient.users.getUser\<close> (\<open>get_user\<close>),
  not the next-auth session the rest of the application uses. \<open>auth()\<close> reads the
  request state that Clerk's \<open>authMiddleware\<close> leaves (\<open>Some\<close>, with the signed-in Clerk
  user id if any); without that middleware it throws. \<open>user.emailAddresses[0].emailAddress\<close> throws on a user without an
  address; the heading reads \<open>user?.firstName\<close>, so a missing first name renders as
  nothing (the \<open>name\<close> with its \<open>"User"\<close> fallback is computed and not used). The four
  cards are constants of the source.
\<close>

record clerk_auth =
  ca_userId :: "string option"

definition clerk_auth_error :: string where
  "clerk_auth_error = ''auth() was called but Clerk can't detect usage of authMiddleware()''"

record clerk_user =
  cu_firstName :: "string option"
  cu_emailAddresses :: "string list"

datatype dashboard_view = Dashboard_View string "(string \<times> string) list"

definition dashboard_cards :: "(string \<times> string) list" where
  "dashboard_cards =
     [(''Total Revenue'', ''$45,231.89''), (''Subscriptions'', ''+2350''), (''Sales'', ''+12,234''),
      (''Active Now'', ''+573'')]"

definition dashboard_page :: "clerk_auth option \<Rightarrow> (string \<Rightarrow> clerk_user) \<Rightarrow> dashboard_view page_result" where
  "dashboard_page clerk get_user =
     (case map_option ca_userId clerk of
        None \<Rightarrow> Page_Throw clerk_auth_error
      | Some None \<Rightarrow> Page_Redirect ''/sign-in''
      | Some (Some uid) \<Rightarrow>
          (let user = get_user uid in
           if cu_emailAddresses user = [] then Page_Throw ''TypeError''
           else Page_Render (Dashboard_View
                  (''Welcome back, '' @ (case cu_firstName user of None \<Rightarrow> [] | Some n \<Rightarrow> n) @ ''!'')
                  dashboard_cards)))"

subsection \<open>The error boundary\<close>

text \<open>
  \<open>ErrorBoundary\<close>: the state \<open>{hasError, error}\<close>, starting without an error.
  \<open>getDerivedStateFromError\<close> records an error thrown while rendering the children,
  \<open>componentDidCatch\<close> prints it, and \<open>Try Again\<close> calls
  \<open>setState({hasError: false})\<close>, which merges into the state and keeps \<open>error\<close>.
\<close>

record eb_state =
  eb_hasError :: bool
  eb_error :: "string option"
  eb_console :: "string list"

definition eb_init :: eb_state where
  "eb_init = \<lparr>eb_hasError = False, eb_error = None, eb_console = []\<rparr>"

definition get_derived_state_from_error :: "string \<Rightarrow> eb_state \<Rightarrow> eb_state" where
  "get_derived_state_from_error e st = st\<lparr>eb_hasError := True, eb_error := Some e\<rparr>"

definition component_did_catch :: "string \<Rightarrow> eb_state \<Rightarrow> eb_state" where
  "component_did_catch e st = st\<lparr>eb_console := eb_console st @ [''Error caught by boundary:'' @ e]\<rparr>"

definition eb_try_again :: "eb_state \<Rightarrow> eb_state" where
  "eb_try_again st = st\<lparr>eb_hasError := False\<rparr>"

text \<open>\<open>render()\<close>: the fallback when one is given (a falsy fallback counts as none), the
  default card otherwise, or the children.\<close>

datatype 'v eb_view = EB_Fallback 'v | EB_Error_Card string string | EB_Children 'v

definition eb_render :: "'v option \<Rightarrow> 'v \<Rightarrow> eb_state \<Rightarrow> 'v eb_view" where
  "eb_render fallback children st =
     (if eb_hasError st then
        (case fallback of
           Some f \<Rightarrow> EB_Fallback f
         | None \<Rightarrow> EB_Error_Card ''Something went wrong'' ''Try Again'')
      else EB_Children children)"

text \<open>The boundary's events: a render of the children, which may throw an error
  (\<open>Some e\<close>), and a click on \<open>Try Again\<close>. A render while the boundary shows its error
  does not render the children.\<close>

datatype eb_event = EB_Render "string option" | EB_Try_Again

fun eb_step :: "eb_state \<Rightarrow> eb_event \<Rightarrow> eb_state" where
  "eb_step st (EB_Render r) =
     (if eb_hasError st then st
      else (case r of None \<Rightarrow> st | Some e \<Rightarrow> component_did_catch e (get_derived_state_from_error e st)))"
| "eb_step st EB_Try_Again = eb_try_again st"

definition eb_run :: "eb_event list \<Rightarrow> eb_state \<Rightarrow> eb_state" where
  "eb_run evs st = foldl eb_step st evs"

subsection \<open>The root layout\<close>

text \<open>
  \<open>RootLayout\<close>: inside the session and theme providers, the error boundary (without a
  fallback) wraps the navigation bar, the page and the footer; the toaster is outside
  it. The footer's year is \<open>new Date().getFullYear()\<close>; \<open>&copy;\<close> is the
  UTF-8 encoding of the copyright sign.
\<close>

datatype 'p layout_view = Layout_View nav_view 'p string "(string \<times> string) list"

definition footer_links :: "(string \<times> string) list" where
  "footer_links = [(''Terms'', ''/legal/terms''), (''Privacy'', ''/legal/privacy''), (''Transparency'', ''/transparency'')]"

definition root_layout ::
  "string \<Rightarrow> session option \<Rightarrow> nav_state \<Rightarrow> eb_state \<Rightarrow> nat \<Rightarrow> 'p \<Rightarrow> 'p layout_view eb_view" where
  "root_layout pathname s nav eb year page =
     eb_render None
       (Layout_View (navigation_view pathname s nav) page
          ([CHR 0xC2, CHR 0xA9] @ '' '' @ nat_string year @ '' VitaMend. Developed by Rachit. All rights reserved.'') footer_links)
       eb"


subsection \<open>Properties\<close>

text \<open>
  C16: the forms follow the client session, not the page's guard. For a request the
  page lets through, the form shows its \<open>Authentication Required\<close> card exactly while
  \<open>useSession()\<close> has no session (while it is loading), even though the server has one;
  and the volunteer form prefills first name, last name and email from the session the
  hook had when the form mounted, so a form mounted while the hook was loading keeps
  them empty after the session arrives.
\<close>

theorem forms_follow_client_session:
  "((\<exists>t bs gs. donate_page s c = Page_Render (Donate_Page t bs gs DF_Auth_Required)) \<longleftrightarrow>
      s \<noteq> None \<and> use_session_data c = None) \<and>
   ((\<exists>t rs ws. volunteer_page s c0 c = Page_Render (Volunteer_Page t rs ws VF_Auth_Required)) \<longleftrightarrow>
      s \<noteq> None \<and> use_session_data c = None) \<and>
   (case volunteer_page s c0 c of
      Page_Render (Volunteer_Page _ _ _ (VF_Form_View fs _ _ _)) \<Rightarrow>
        take 3 fs = [(''firstName'', name_first (Option.bind (use_session_data c0) sess_name)),
                     (''lastName'', name_last (Option.bind (use_session_data c0) sess_name)),
                     (''email'', js_or (Option.bind (use_session_data c0) sess_email) [])]
    | _ \<Rightarrow> True)"
  by (cases s; cases "use_session_data c")
     (simp_all add: donate_page_def volunteer_page_def donation_form_view_def volunteer_form_view_def
       vf_init_def vf_initial_form_def vf_render_order_def)

lemma eb_fields [simp]:
  "eb_hasError (get_derived_state_from_error e st)" "eb_hasError (component_did_catch e st) = eb_hasError st"
  "\<not> eb_hasError (eb_try_again st)"
  by (simp_all add: get_derived_state_from_error_def component_did_catch_def eb_try_again_def)

lemma eb_step_hasError:
  "eb_hasError (eb_step st ev) \<longleftrightarrow>
     (case ev of EB_Try_Again \<Rightarrow> False | EB_Render r \<Rightarrow> eb_hasError st \<or> r \<noteq> None)"
  by (cases ev) (auto split: option.split)

text \<open>
  C17: what the error boundary shows after any sequence of renders and clicks on
  \<open>Try Again\<close>, from its initial state: its error card exactly when a render of the
  children has thrown since the last \<open>Try Again\<close>; after a \<open>Try Again\<close> it renders the
  children again until one of their renders throws.
\<close>

theorem eb_run_shows_error:
  "eb_hasError (eb_run evs eb_init) \<longleftrightarrow>
     (\<exists>e. EB_Render (Some e) \<in> set (takeWhile (\<lambda>ev. ev \<noteq> EB_Try_Again) (rev evs)))"
proof -
  have "eb_hasError (foldl eb_step st evs) \<longleftrightarrow>
        (if EB_Try_Again \<in> set evs then False else eb_hasError st) \<or>
        (\<exists>e. EB_Render (Some e) \<in> set (takeWhile (\<lambda>ev. ev \<noteq> EB_Try_Again) (rev evs)))" for st
  proof (induction evs arbitrary: st rule: rev_induct)
    case Nil
    then show ?case by simp
  next
    case (snoc ev evs)
    show ?case
      using snoc.IH [of st] by (cases ev) (auto simp add: eb_step_hasError simp del: eb_step.simps)
  qed
  then show ?thesis by (simp add: eb_run_def eb_init_def)
qed

text \<open>
  C18: an error anywhere in a page takes the navigation with it. The layout puts the
  navigation bar inside the error boundary, so while the boundary holds an error the
  whole page, navigation and footer included, is the error card with its
  \<open>Try Again\<close> button.
\<close>

theorem layout_error_hides_navigation:
  assumes "eb_hasError eb"
  shows "root_layout pathname s nav eb year page = EB_Error_Card ''Something went wrong'' ''Try Again''"
  using assms by (simp add: root_layout_def eb_render_def)

theorem layout_error_hides_navigation_witness:
  "eb_hasError (eb_run [EB_Render (Some ''TypeError'')] eb_init) \<and>
   root_layout ''/donate'' None \<lparr>menu_open = False\<rparr> (eb_run [EB_Render (Some ''TypeError'')] eb_init) 2026 ()
     = EB_Error_Card ''Something went wrong'' ''Try Again''"
proof -
  have h: "eb_hasError (eb_run [EB_Render (Some ''TypeError'')] eb_init)"
    by (simp add: eb_run_def eb_init_def eb_step_hasError)
  show ?thesis
    using h layout_error_hides_navigation [OF h, of "''/donate''" None "\<lparr>menu_open = False\<rparr>" 2026 "()"] by simp
qed

end
