(* ===== verification/App_Router.thy ===== *)
theory App_Router
  imports Pages
begin

text \<open>
  The home page of \<open>src/app/page.tsx\<close> and the way a page request is served: the
  middleware of \<open>src/middleware.ts\<close> runs first where its matcher applies, then the App
  Router renders the page that \<open>src/app\<close> has at the path (\<open>/\<close>, \<open>/donate\<close>,
  \<open>/volunteer\<close>, \<open>/dashboard\<close>; other paths have no page among the sources, which
  are partial), inside the root layout.
  A page's \<open>redirect(...)\<close> becomes a redirect response and an error thrown by a server
  page becomes an error response: the error boundary of the layout is a client
  component and catches only errors of the client tree. The request pipeline is
  Next.js's, not code of the repository; the pages it calls are.
\<close>

subsection \<open>The home page\<close>

text \<open>A section of the page: its heading, the titles of its cards and badges, and its
  links (text and target). The page is static.\<close>

datatype home_section = Home_Section string "string list" "(string \<times> string) list"

definition home_page :: "home_section list" where
  "home_page =
     [Home_Section ''VitaMend''
        [''Reviving Medicines, Restoring Lives'', ''AI-Verified Quality'', ''Secure & Transparent'',
         ''Direct Impact Tracking'']
        [(''Donate Medicines'', ''/donate''), (''Become a Volunteer'', ''/volunteer'')],
      Home_Section ''How VitaMend Works'' [''1. Donate'', ''2. Verify'', ''3. Connect'', ''4. Impact''] [],
      Home_Section ''Our Growing Impact''
        [''10,000+ Medicines Donated'', ''5,000+ People Helped'', ''500+ Active Volunteers''] [],
      Home_Section ''Why Choose VitaMend?'' [''AI-Powered Verification'', ''Direct Impact'', ''Trusted Network''] [],
      Home_Section ''Ready to Make a Difference?'' []
        [(''Get Started Today'', ''/auth/signup''), (''Learn More'', ''/about'')]]"

subsection \<open>Serving a page request\<close>

datatype app_page =
    Home_View "home_section list"
  | Donate_View donate_page_view
  | Volunteer_View volunteer_page_view
  | Dashboard_Page_View dashboard_view

datatype serve_result =
    Serve_SignIn
  | Serve_Redirect string
  | Serve_Render "app_page layout_view eb_view"
  | Serve_Error string
  | Serve_No_Page

text \<open>What a request meets besides its path: the next-auth session (read by the pages
  through \<open>getServerSession\<close> and by the middleware through its JWT, which carries the
  role); the client's \<open>useSession()\<close> now and when the volunteer form mounted (read by
  the forms and the navigation bar); the state Clerk's middleware leaves for \<open>auth()\<close>
  and Clerk's user lookup (read by the dashboard); the client state of the navigation
  bar and of the error boundary; and the year. \<open>src/middleware.ts\<close> is next-auth's
  \<open>withAuth\<close>: no Clerk middleware runs in this application, so \<open>env_clerk\<close> is
  \<open>None\<close> for its requests.\<close>

record app_env =
  env_session :: "session option"
  env_client :: use_session
  env_client_mount :: use_session
  env_clerk :: "clerk_auth option"
  env_get_user :: "string \<Rightarrow> clerk_user"
  env_nav :: nav_state
  env_eb :: eb_state
  env_year :: nat

definition token_of_session :: "session option \<Rightarrow> auth_token option" where
  "token_of_session s = map_option (\<lambda>u. \<lparr>tok_role = sess_role u\<rparr>) s"

definition app_page_at :: "app_env \<Rightarrow> string \<Rightarrow> app_page page_result option" where
  "app_page_at env path =
     (if path = ''/'' then Some (Page_Render (Home_View home_page))
      else if path = ''/donate'' then
        Some (map_page_result Donate_View (donate_page (env_session env) (env_client env)))
      else if path = ''/volunteer'' then
        Some (map_page_result Volunteer_View
          (volunteer_page (env_session env) (env_client_mount env) (env_client env)))
      else if path = ''/dashboard'' then
        Some (map_page_result Dashboard_Page_View (dashboard_page (env_clerk env) (env_get_user env)))
      else None)"

definition app_serve :: "app_env \<Rightarrow> string \<Rightarrow> serve_result" where
  "app_serve env path =
     (case middleware_run (token_of_session (env_session env)) path of
        MW_Redirect_SignIn \<Rightarrow> Serve_SignIn
      | _ \<Rightarrow>
          (case app_page_at env path of
             None \<Rightarrow> Serve_No_Page
           | Some (Page_Redirect u) \<Rightarrow> Serve_Redirect u
           | Some (Page_Throw e) \<Rightarrow> Serve_Error e
           | Some (Page_Render p) \<Rightarrow>
               Serve_Render (root_layout path (use_session_data (env_client env)) (env_nav env) (env_eb env)
                 (env_year env) p)))"

subsection \<open>Lemmas\<close>

lemma middleware_dashboard:
  "middleware_run (token_of_session s) ''/dashboard'' =
     (if s = None then MW_Redirect_SignIn else MW_Next security_headers)"
  by (simp add: middleware_run_def mw_eval token_of_session_def)

lemma app_serve_dashboard:
  "app_serve env ''/dashboard'' =
     (if env_session env = None then Serve_SignIn
      else (case dashboard_page (env_clerk env) (env_get_user env) of
              Page_Redirect u \<Rightarrow> Serve_Redirect u
            | Page_Throw e \<Rightarrow> Serve_Error e
            | Page_Render p \<Rightarrow>
                Serve_Render (root_layout ''/dashboard'' (use_session_data (env_client env)) (env_nav env)
                  (env_eb env) (env_year env) (Dashboard_Page_View p))))"
  by (simp add: app_serve_def middleware_dashboard app_page_at_def split: page_result.split)

subsection \<open>Properties\<close>

text \<open>
  C15: the dashboard cannot be shown in this application. It renders exactly for a
  visitor with a next-auth session (the middleware) for whom Clerk's middleware has run
  and found a signed-in Clerk user with an email address (the page). Without Clerk's
  middleware, which \<open>src/middleware.ts\<close> does not install, a visitor without a session
  is sent to sign-in and every signed-in visitor gets the error \<open>auth()\<close> throws.
\<close>

theorem dashboard_requires_clerk_middleware:
  "((\<exists>v. app_serve env ''/dashboard'' = Serve_Render v) \<longleftrightarrow>
      env_session env \<noteq> None \<and>
      (\<exists>u. map_option ca_userId (env_clerk env) = Some (Some u) \<and> cu_emailAddresses (env_get_user env u) \<noteq> [])) \<and>
   app_serve (env\<lparr>env_clerk := None\<rparr>) ''/dashboard'' =
     (if env_session env = None then Serve_SignIn else Serve_Error clerk_auth_error)"
  by (auto simp add: app_serve_dashboard dashboard_page_def Let_def split: option.splits)

end
