(* ===== verification/Seed.thy ===== *)
theory Seed
  imports Prelude
begin

text \<open>
  The seed script of \<open>src/scripts/seed.ts\<close>: after \<open>dbConnect()\<close> it creates the admin
  and the sample donor unless a user with the same email exists
  (\<open>User.findOne({email})\<close>), printing a line for each account it creates and one at
  the end. \<open>bcrypt.hash(password, 12)\<close> is a parameter (\<open>hash\<close>); the users collection is
  a list in insertion order. \<open>dbConnect()\<close> is awaited before the \<open>try\<close>, so a failed
  connection is an unhandled rejection of \<open>seed()\<close> (\<open>Inl\<close>), not a caught error.
\<close>

record seed_user =
  su_name :: string
  su_email :: string
  su_password :: string
  su_role :: string
  su_credits :: int

definition seed_admin :: "(string \<Rightarrow> string) \<Rightarrow> seed_user" where
  "seed_admin hash = \<lparr>su_name = ''Admin User'', su_email = ''admin@vitamend.com'', su_password = hash ''admin123'',
                      su_role = ''admin'', su_credits = 1000\<rparr>"

definition seed_donor :: "(string \<Rightarrow> string) \<Rightarrow> seed_user" where
  "seed_donor hash = \<lparr>su_name = ''Sample Donor'', su_email = ''donor@example.com'', su_password = hash ''donor123'',
                      su_role = ''donor'', su_credits = 100\<rparr>"

definition find_by_email :: "string \<Rightarrow> seed_user list \<Rightarrow> seed_user option" where
  "find_by_email e us = find (\<lambda>u. su_email u = e) us"

text \<open>One \<open>if (!exists) { ...create...; console.log(...) }\<close> block.\<close>

definition seed_account :: "seed_user \<Rightarrow> string \<Rightarrow> seed_user list \<times> string list \<Rightarrow> seed_user list \<times> string list" where
  "seed_account u msg = (\<lambda>(us, out).
     (if find_by_email (su_email u) us \<noteq> None then (us, out) else (us @ [u], out @ [msg])))"

definition seed :: "bool \<Rightarrow> (string \<Rightarrow> string) \<Rightarrow> seed_user list \<Rightarrow> string + seed_user list \<times> string list" where
  "seed db_ok hash us =
     (if \<not> db_ok then Inl ''unhandled rejection: dbConnect''
      else (let (us', out) = seed_account (seed_donor hash) ''Sample donor created successfully''
                               (seed_account (seed_admin hash) ''Admin user created successfully'' (us, []))
            in Inr (us', out @ [''Database seeded successfully''])))"

subsection \<open>Lemmas\<close>

lemma find_by_email_append:
  "find_by_email e (us @ [u]) = (case find_by_email e us of None \<Rightarrow> (if su_email u = e then Some u else None) | r \<Rightarrow> r)"
  by (induction us) (simp_all add: find_by_email_def)

lemma seed_account_has: "find_by_email (su_email u) (fst (seed_account u msg (us, out))) \<noteq> None"
  by (simp add: seed_account_def find_by_email_append split: option.split)

lemma seed_account_mono:
  "find_by_email e us \<noteq> None \<Longrightarrow> find_by_email e (fst (seed_account u msg (us, out))) \<noteq> None"
  by (auto simp add: seed_account_def find_by_email_append)

lemma seed_account_present:
  "find_by_email (su_email u) us \<noteq> None \<Longrightarrow> seed_account u msg (us, out) = (us, out)"
  by (simp add: seed_account_def)

text \<open>
  C19: seeding is idempotent and provisions both accounts. With a database connection
  the script succeeds; afterwards the admin and the donor accounts exist, and a second
  run creates nothing and prints only its final line.
\<close>

theorem seed_idempotent:
  "\<exists>us' out. seed True hash us = Inr (us', out) \<and>
     find_by_email ''admin@vitamend.com'' us' \<noteq> None \<and> find_by_email ''donor@example.com'' us' \<noteq> None \<and>
     seed True hash us' = Inr (us', [''Database seeded successfully''])"
proof -
  let ?a = "seed_account (seed_admin hash) ''Admin user created successfully'' (us, [])"
  let ?d = "seed_account (seed_donor hash) ''Sample donor created successfully'' ?a"
  obtain ua oa where a: "?a = (ua, oa)" by fastforce
  obtain ud od where d: "?d = (ud, od)" by fastforce
  have ha: "find_by_email ''admin@vitamend.com'' ua \<noteq> None"
    using seed_account_has [of "seed_admin hash" "''Admin user created successfully''" us "[]"] a by (simp add: seed_admin_def)
  have hd: "find_by_email ''donor@example.com'' ud \<noteq> None"
    using seed_account_has [of "seed_donor hash" "''Sample donor created successfully''" ua oa] a d by (simp add: seed_donor_def)
  have ha': "find_by_email ''admin@vitamend.com'' ud \<noteq> None"
    using seed_account_mono [OF ha, of "seed_donor hash" "''Sample donor created successfully''" oa] a d by simp
  have "seed_account (seed_admin hash) m (ud, []) = (ud, [])" for m
    using ha' by (intro seed_account_present) (simp add: seed_admin_def)
  moreover have "seed_account (seed_donor hash) m (ud, []) = (ud, [])" for m
    using hd by (intro seed_account_present) (simp add: seed_donor_def)
  ultimately have "seed True hash ud = Inr (ud, [''Database seeded successfully''])"
    unfolding seed_def by simp
  with a d ha' hd show ?thesis
    by (simp add: seed_def)
qed

end
