(* ===== verification/Spec2Isabelle.thy ===== *)
theory Spec2Isabelle
  imports Donation_Model Rate_Limit Inventory Audit_Log Access_Control Donation_Api Lifecycle_Properties
    Donation_Form Volunteer_Form Navigation Pages App_Router Seed
begin

text \<open>
  \<^bold>\<open>VitaMend: a verification development.\<close>
  VitaMend is a Next.js application through which donors give unused medicines,
  reviewers verify them, and NGO partners take verified stock. The sources under
  \<open>src/\<close> are the request pipeline (\<open>middleware.ts\<close>, \<open>lib/rate-limit.ts\<close>), the
  audit service (\<open>lib/audit-service.ts\<close>), the donation schema (\<open>models/Donation.ts\<close>),
  three API routes (\<open>app/api/donations\<close>, \<open>app/api/volunteer\<close>,
  \<open>app/api/ngo/available-medicines\<close>), two client forms (\<open>app/donate/donation-form.tsx\<close>,
  \<open>app/volunteer/volunteer-form.tsx\<close>), the pages (\<open>app/page.tsx\<close>, \<open>app/donate/page.tsx\<close>,
  \<open>app/volunteer/page.tsx\<close>, \<open>app/dashboard/page.tsx\<close>), the root layout with the
  navigation bar and the error boundary (\<open>app/layout.tsx\<close>, \<open>components/\<close>), the seed
  script (\<open>scripts/seed.ts\<close>) and the Next.js configuration. The spec (\<open>spec.md\<close>)
  describes in addition a donation lifecycle engine, a reservation coordinator, credits
  and an access matrix, none of which has code under \<open>src/\<close>.

  \<^bold>\<open>How the parts interact.\<close> A page request passes the middleware (authorization
  callback, security headers); an API request does not. The page at the path then
  redirects, throws or renders, and a rendered page is shown inside the root layout: the
  error boundary around the navigation bar, the page and the footer
  (\<open>App_Router.app_serve\<close>). A form's \<open>handleSubmit\<close> sends
  a request to its route; the route reads the session, the body and the store, answers,
  and the form reacts to the answer. The routes write to the donations and users
  collections; the lifecycle engine of the spec would write the donations collection,
  the credit counters and the audit trail.

  \<^bold>\<open>Theories and what they model.\<close>
  \<^item> \<open>Prelude\<close>: base types (timestamps as \<open>int\<close> milliseconds, ids as strings), the
    JavaScript idioms the code relies on (\<open>||\<close>, falsy strings, \<open>startsWith\<close>, a \<open>Map\<close> as
    an insertion-ordered association list), the route response type and the session.
  \<^item> \<open>Donation_Model\<close> (\<open>models/Donation.ts\<close>): the status enum, the medicine and
    donation documents, and \<open>new_donation\<close>, Mongoose's cast of a plain object (strict
    mode, defaults, ObjectId and enum validation).
  \<^item> \<open>Rate_Limit\<close> (\<open>lib/rate-limit.ts\<close>): the store, the sweep loop (over a snapshot,
    \<open>rl_cleanup\<close>, and over the live \<open>Map\<close> it deletes from, \<open>rl_sweep_live\<close>),
    \<open>rate_limit\<close> with all its branches, runs of requests \<open>rl_run\<close>.
  \<^item> \<open>Audit_Log\<close> (\<open>lib/audit-service.ts\<close>): \<open>log\<close> with its caught database failure, the
    three helpers, the service's operations as a datatype with a step function, and
    \<open>getAuditLogs\<close> with Mongo's filter, sort, skip and limit.
  \<^item> \<open>Access_Control\<close> (\<open>middleware.ts\<close>): the \<open>authorized\<close> callback, the matcher and the
    security headers, composed in \<open>middleware_run\<close>; the spec's role matrix \<open>authorize\<close>.
  \<^item> \<open>Donation_Api\<close> (\<open>app/api/donations/route.ts\<close>, \<open>app/api/volunteer/route.ts\<close>): the
    handlers as functions of session, database outcome, body and collection;
    \<open>Number.parseInt\<close> is modelled, \<open>new Date\<close> and \<open>JSON.parse\<close> are parameters.
  \<^item> \<open>Inventory\<close> (\<open>app/api/ngo/available-medicines/route.ts\<close>): the route and the spec's
    inventory view it is compared with.
  \<^item> \<open>Lifecycle\<close>, \<open>Lifecycle_Properties\<close> (spec 4.1-4.3 and 5, no code): the engine and the
    coordinator as \<open>lc_step\<close> on a state of documents, credit counters and audit trail,
    the reachable states as the inductive \<open>lc_reachable\<close>, the invariant \<open>lc_inv\<close> and the
    audit-history invariant \<open>hist_inv\<close>, proved for every reachable state by rule
    induction from one preservation lemma per operation. Audit writes go through the
    audit service's \<open>log\<close> and fail while the audit store is down (the environment event
    \<open>Audit_Store\<close>); the operation commits either way (spec 4.4), so the history
    invariant allows gaps (\<open>status_path\<close>) but no false record.
  \<^item> \<open>Client_Common\<close>, \<open>Donation_Form\<close>, \<open>Volunteer_Form\<close> (the two \<open>*-form.tsx\<close>): each
    component's hooks as a record, one function per handler (\<open>handleSubmit\<close> split at its
    \<open>fetch\<close>), the rendering as a function of session and state, and the page's events as
    a step function with runs \<open>df_run\<close>, \<open>vf_run\<close>.
  \<^item> \<open>Navigation\<close> (\<open>components/navigation.tsx\<close>): the general and role items, the
    session filter, the active link, the rendered header (desktop links, account menu,
    mobile list) and the menu state with its handlers.
  \<^item> \<open>Pages\<close> (\<open>app/donate/page.tsx\<close>, \<open>app/volunteer/page.tsx\<close>,
    \<open>app/dashboard/page.tsx\<close>, \<open>components/error-boundary.tsx\<close>, \<open>app/layout.tsx\<close>): the
    server pages as functions to a redirect, a render or a throw, the client forms they
    render reading \<open>useSession()\<close> (\<open>use_session\<close>: loading, unauthenticated or a
    session), not the server session; Clerk's \<open>auth()\<close> as the state Clerk's middleware
    leaves, throwing without it; the error boundary as
    a state machine over render and Try Again events (\<open>eb_step\<close>, \<open>eb_run\<close>); the root
    layout.
  \<^item> \<open>App_Router\<close> (\<open>app/page.tsx\<close> and the routing of \<open>src/app\<close>): the static home page, and
    \<open>app_serve\<close>, which composes middleware, page and layout for a request; the
    composition is Next.js's and is not in the map. A path without a page among the
    sources answers \<open>Serve_No_Page\<close>, which no claim relies on: \<open>src/app\<close> is partial.
  \<^item> \<open>Seed\<close> (\<open>scripts/seed.ts\<close>): the two find-or-create steps with their output, and
    the unguarded \<open>dbConnect\<close> as an error value.
  \<^item> this theory: a page submission handled by its route (\<open>donate_page_submit\<close>,
    \<open>volunteer_page_submit\<close>), and the properties that span components.

  \<^bold>\<open>What the lemmas show.\<close> The claims C1-C34, each stated after its \<open>text\<close>, are
  invariants of the stateful parts (rate-limit store, audit trail, lifecycle, the
  forms' selected files and roles), the behaviour of every handler on each branch,
  errors included, a refinement of the inventory route against the spec's view and
  of the route guard against the matrix, the outcome of competing lifecycle requests,
  that a pending donation can always be driven to \<open>distributed\<close> (liveness), that the
  rate limiter's loop over the live \<open>Map\<close> equals the snapshot sweep, that the
  navigation bar links only where the middleware lets the visitor go, which session the
  forms render with, the error boundary's state after any run of events, the
  idempotence of the seed script, and round trips and bounds (status strings, name splitting,
  \<open>toFixed(2)\<close>, \<open>Retry-After\<close>). Several are findings: the donation route drops the form's data, the
  volunteer form can never submit, a session without a user id reads every donation and
  rewrites the first user's role, the dashboard calls Clerk's \<open>auth()\<close> without Clerk's
  middleware and so never renders, the forms show their sign-in card while the client
  session loads and the volunteer form loses its prefill, and an error in any page hides
  the navigation bar.

  \<^bold>\<open>Bounds, fuel, parameters.\<close> Every function is total, and no fuel is used: the
  snapshot sweep recurses on the store and runs on the list of events; the live sweep
  \<open>rl_sweep_live\<close>, whose index stays put when it deletes, is a \<open>function\<close>, shown
  to terminate with the measure \<open>length m - i\<close>. The
  spec's parameters are fixed as \<open>cap_per_item = 100\<close> and a shelf-life margin of six
  months of 30.44 days (\<open>15778800000\<close> ms); the reservation TTL is the argument of the
  sweep. The clock, new ids, \<open>new Date(...)\<close>, \<open>JSON.parse\<close>, the outcome of
  \<open>dbConnect\<close> and \<open>fetch\<close>, the availability of the audit store and the client session are
  inputs, so every theorem holds for all of them.

  \<^bold>\<open>Not modelled.\<close> \<open>next.config.mjs\<close> (build and hosting settings); styling, icons,
  images and metadata of the pages; the providers and the toaster of the layout;
  authentication (\<open>lib/auth\<close>), \<open>dbConnect\<close>, the User and AuditLog models and the UI
  components (\<open>components/ui\<close>, \<open>shell\<close>, \<open>icons\<close>), none of which is among the sources
  (the fields of the two models are taken from the spec); the browser's constraint
  validation of \<open>required\<close>/\<open>min\<close> attributes; the timing of \<open>setTimeout\<close>; the catch
  branch of the seed script (a failing \<open>User.create\<close>).
\<close>

subsection \<open>The pages and the routes together\<close>

text \<open>
  A submission of the donation page: \<open>handleSubmit\<close> of the form sends its
  \<open>FormData\<close> with \<open>fetch("/api/donations", {method: "POST", body})\<close>, the route's
  \<open>POST\<close> handles it for the signed-in user \<open>u\<close>, and the form handles the response's
  status. The clock, the new document's id and the date parser are those of the
  request.
\<close>

definition donate_page_submit ::
  "(string \<Rightarrow> time option) \<Rightarrow> time \<Rightarrow> session \<Rightarrow> bool \<Rightarrow> oid \<Rightarrow> time \<Rightarrow> donation list \<Rightarrow> df_state \<Rightarrow>
   df_state \<times> donation list" where
  "donate_page_submit pd six u db_ok i now coll st =
     (case submit_start_df pd six st of
        (None, st') \<Rightarrow> (st', coll)
      | (Some req, st') \<Rightarrow>
          (let (resp, coll') = post_donation (Some u) db_ok pd (Form_Body (form_texts req)) i now coll
           in (submit_finish_df (Fetch_Response (http_status resp)) st', coll')))"

text \<open>A submission of the volunteer page: the form's JSON body goes to
  \<open>POST /api/volunteer\<close>, whose answer the form handles.\<close>

definition volunteer_page_submit ::
  "session option \<Rightarrow> bool \<Rightarrow> (string \<Rightarrow> json option) \<Rightarrow> time \<Rightarrow> user_id option \<Rightarrow> users \<Rightarrow> vf_state \<Rightarrow>
   vf_state \<times> users" where
  "volunteer_page_submit s db_ok jp now first us st =
     (case submit_start_vf s st of
        (None, st') \<Rightarrow> (st', us)
      | (Some req, st') \<Rightarrow>
          (let (resp, us') = post_volunteer s db_ok jp req now first us
           in (submit_finish_vf s (Fetch_Response (http_status resp)) st', us')))"

subsection \<open>Sample inputs\<close>

abbreviation demo_admin :: session where
  "demo_admin \<equiv> \<lparr>sess_user_id = Some ''a1'', sess_role = Some ''admin'', sess_name = None, sess_email = None\<rparr>"

abbreviation df_demo_state :: df_state where
  "df_demo_state \<equiv> df_init\<lparr>df_form := [(''medicineName'', ''Amoxicillin''), (''quantity'', ''30''),
     (''unit'', ''tablets''), (''expiryDate'', ''2027-06-30''), (''batchNumber'', []), (''manufacturer'', []),
     (''description'', []), (''address'', ''12 MG Road, Pune''), (''phone'', ''9876543210''), (''preferredTime'', [])],
     df_files := [\<lparr>file_name = ''strip.jpg'', file_size = 1572864\<rparr>]\<rparr>"

subsection \<open>Properties\<close>

text \<open>the status enum of the donation schema is a round trip: every status's
  enum string is accepted by the schema's validator and denotes that status again.\<close>

theorem status_enum_roundtrip: "Donation_Model.status_of_string (status_string st) = Some st"
  by (rule status_of_string_status_string)

text \<open>
  C31: the inventory route is stricter than the matrix: an admin, whom the matrix lets
  browse the inventory, is answered 403.
\<close>

theorem inventory_admin_forbidden:
  assumes "sess_role u = Some (role_string Admin)" and "\<not> js_falsy_opt (sess_user_id u)"
  shows "authorize Admin BrowseInventory \<and> get_available_medicines (Some u) ue db = Http_Error 403 ''Unauthorized''"
  using assms by (simp add: get_available_medicines_def)

theorem inventory_admin_forbidden_witness:
  "sess_role demo_admin = Some (role_string Admin) \<and> \<not> js_falsy_opt (sess_user_id demo_admin) \<and>
   get_available_medicines (Some demo_admin) (\<lambda>_. True) (Some []) = Http_Error 403 ''Unauthorized''"
  using inventory_admin_forbidden [of demo_admin "\<lambda>_. True" "Some []"] by (simp add: js_falsy_opt_def)

text \<open>
  C7: the donation page loses what the donor enters. A form that passes
  \<open>validateForm\<close> (so with a non-empty pickup address, among others), submitted by a
  signed-in user whose id is an ObjectId, is stored as a donation with no medicines and
  no pickup address, and the page reports success, resets and goes to the dashboard.
\<close>

theorem donation_form_data_lost:
  assumes v: "fst (validate_form_df pd six st)" and u: "sess_user_id u = Some uid" "is_object_id uid"
  shows "\<exists>d. snd (donate_page_submit pd six u True i now coll st) = coll @ [d] \<and>
           medicines d = [] \<and> pickupAddress d = None \<and>
           df_redirect (fst (donate_page_submit pd six u True i now coll st)) = Some ''/dashboard'' \<and>
           \<not> js_falsy_opt (map_of (df_form st) ''address'')"
proof -
  have addr: "\<not> js_falsy_opt (map_of (df_form st) ''address'')"
    using v by (auto simp add: validate_form_df_def missing_fields_df_def df_required_def Let_def split: if_splits)
  let ?fd = "form_texts (submit_data_df st)"
  have "status_of_string ''pending'' = Some Pending"
    by (simp add: status_of_string_def status_enum_def)
  then obtain d where nd: "new_donation i now (donation_data_of u pd ?fd) = Some d" and m: "medicines d = []"
      "pickupAddress d = None"
    using u by (simp add: new_donation_def donation_data_of_def)
  have "post_donation (Some u) True pd (Form_Body ?fd) i now coll = (Http_Ok (donation_id d), coll @ [d])"
    using nd by (simp add: post_donation_def request_form_data_def)
  with validate_form_df_True [OF v] m addr show ?thesis
    by (simp add: donate_page_submit_def submit_start_df_def submit_finish_df_def response_ok_def toast_df_def)
qed

theorem donation_form_data_lost_witness:
  "fst (validate_form_df (\<lambda>_. Some 1814400000000) 1715000000000 df_demo_state) \<and>
   sess_user_id api_demo_session = Some ''65a1f0c2e4b0a1b2c3d4e5f6'' \<and> is_object_id ''65a1f0c2e4b0a1b2c3d4e5f6'' \<and>
   (\<exists>d. snd (donate_page_submit (\<lambda>_. Some 1814400000000) 1715000000000 api_demo_session True
          ''65a1f0c2e4b0a1b2c3d4e5f7'' 1700000000000 [] df_demo_state) = [d] \<and> medicines d = [])"
proof -
  have h: "fst (validate_form_df (\<lambda>_. Some 1814400000000) 1715000000000 df_demo_state)"
    "sess_user_id api_demo_session = Some ''65a1f0c2e4b0a1b2c3d4e5f6''" "is_object_id ''65a1f0c2e4b0a1b2c3d4e5f6''"
    by (simp_all add: validate_form_df_def missing_fields_df_def df_required_def js_falsy_opt_def df_init_def
        is_object_id_def is_hex_digit_def)
  show ?thesis
    using h donation_form_data_lost [OF h, of "''65a1f0c2e4b0a1b2c3d4e5f7''" 1700000000000 "[]"] by auto
qed

text \<open>
  C8: the volunteer page never gets an application through. The form posts a JSON body
  and the route reads \<open>request.formData()\<close>, which rejects it: whatever the session, the
  database and the form, a submission leaves every user as it was (no role change, no
  application stored), keeps what the applicant entered and the selected roles, and does
  not redirect.
\<close>

theorem volunteer_form_always_fails:
  "snd (volunteer_page_submit s ok jp now first us st) = us \<and>
   vf_form (fst (volunteer_page_submit s ok jp now first us st)) = vf_form st \<and>
   vf_roles (fst (volunteer_page_submit s ok jp now first us st)) = vf_roles st \<and>
   vf_redirect (fst (volunteer_page_submit s ok jp now first us st)) = vf_redirect st"
proof (cases "fst (validate_form_vf st)")
  case True
  then show ?thesis
    using validate_form_vf_True [OF True]
    by (auto simp add: volunteer_page_submit_def submit_start_vf_def submit_finish_vf_def post_volunteer_def
        request_form_data_def response_ok_def toast_vf_def split: option.splits)
next
  case False
  then obtain st' where "validate_form_vf st = (False, st')" by (cases "validate_form_vf st") auto
  moreover have "vf_form st' = vf_form st" "vf_roles st' = vf_roles st" "vf_redirect st' = vf_redirect st"
    using calculation validate_form_vf_fields [of st]
    by (auto simp add: validate_form_vf_def Let_def toast_vf_def split: if_splits)
  ultimately show ?thesis by (simp add: volunteer_page_submit_def submit_start_vf_def)
qed

end
